theory Spec2Isabelle
  imports Complex_Main "HOL-Library.Sublist" "HOL-Library.Log_Nat"
begin

section \<open>JavaScript values used by the request layer\<close>

text \<open>
  Strings are character lists. \<open>includes_str\<close> is \<^verbatim>\<open>String.prototype.includes\<close>,
  \<open>trim\<close> strips white space at both ends, \<open>toLowerCase\<close> folds the ASCII
  letters, \<open>show_nat\<close> is the decimal rendering a template literal gives a
  non-negative integer, and \<open>truthy\<close> is the truth value of a string
  (\<^verbatim>\<open>""\<close> is falsy).
\<close>

fun includes_str :: "string \<Rightarrow> string \<Rightarrow> bool" where
  "includes_str [] sub = (sub = [])"
| "includes_str (c # cs) sub = (prefix sub (c # cs) \<or> includes_str cs sub)"

definition is_space :: "char \<Rightarrow> bool" where
  "is_space c = (c = CHR '' '' \<or> c = CHR 0x09 \<or> c = CHR 0x0A \<or> c = CHR 0x0B
                 \<or> c = CHR 0x0C \<or> c = CHR 0x0D)"

definition trim :: "string \<Rightarrow> string" where
  "trim s = rev (dropWhile is_space (rev (dropWhile is_space s)))"

definition lower_char :: "char \<Rightarrow> char" where
  "lower_char c =
     (case map_of (zip ''ABCDEFGHIJKLMNOPQRSTUVWXYZ'' ''abcdefghijklmnopqrstuvwxyz'') c of
        Some l \<Rightarrow> l
      | None \<Rightarrow> c)"

definition toLowerCase :: "string \<Rightarrow> string" where
  "toLowerCase s = map lower_char s"

fun show_nat :: "nat \<Rightarrow> string" where
  "show_nat n =
     (if n < 10 then [''0123456789'' ! n]
      else show_nat (n div 10) @ [''0123456789'' ! (n mod 10)])"

declare show_nat.simps [simp del]

definition truthy :: "string \<Rightarrow> bool" where
  "truthy s = (s \<noteq> [])"

text \<open>\<^verbatim>\<open>a || b\<close> on values that may be undefined: the first truthy one.\<close>

definition js_or :: "string option \<Rightarrow> string option \<Rightarrow> string option" where
  "js_or a b = (case a of Some s \<Rightarrow> (if truthy s then Some s else b) | None \<Rightarrow> b)"

definition truthy_opt :: "string option \<Rightarrow> bool" where
  "truthy_opt a = (case a of Some s \<Rightarrow> truthy s | None \<Rightarrow> False)"


section \<open>Media combiner: \<^verbatim>\<open>POST /api/video/combine\<close> (server/index.js)\<close>

text \<open>
  The temp directory is a finite map from paths to file contents.
  \<^verbatim>\<open>unlinkSync\<close> throws on a missing file, and on a file the system
  refuses to remove (in use, no permission); otherwise it removes the file.
  The handler wraps every call in \<^verbatim>\<open>try { ... } catch (e) {}\<close>, which is
  \<open>try_unlink\<close>: whatever the error, the file stays and the loop goes on.
\<close>

type_synonym path = string
type_synonym fs = "path \<rightharpoonup> string"

datatype fs_error = ENOENT | EPERM

definition unlinkSync :: "(path \<Rightarrow> bool) \<Rightarrow> fs \<Rightarrow> path \<Rightarrow> fs_error + fs" where
  "unlinkSync refused fs p =
     (if p \<notin> dom fs then Inl ENOENT
      else if refused p then Inl EPERM
      else Inr (fs(p := None)))"

definition try_unlink :: "(path \<Rightarrow> bool) \<Rightarrow> fs \<Rightarrow> path \<Rightarrow> fs" where
  "try_unlink refused fs p = (case unlinkSync refused fs p of Inr fs' \<Rightarrow> fs' | Inl e \<Rightarrow> fs)"

definition existsSync :: "fs \<Rightarrow> path \<Rightarrow> bool" where
  "existsSync fs p = (p \<in> dom fs)"

text \<open>One entry of \<^verbatim>\<open>req.files\<close>: where multer stored the upload, and its bytes.\<close>

record upload_file =
  file_path :: path
  file_bytes :: string

text \<open>
  multer (\<^verbatim>\<open>upload.array('videos', 10)\<close> with \<^verbatim>\<open>dest: tmpdir()\<close>) runs before
  the handler and writes the uploaded files into the temp directory.
\<close>

definition multer_store :: "fs \<Rightarrow> upload_file list \<Rightarrow> fs" where
  "multer_store fs files = foldl (\<lambda>m f. m(file_path f \<mapsto> file_bytes f)) fs files"

datatype exec_result = ExecOk | ExecFail string

text \<open>
  What the handler reads from outside: the clock, the temp directory's name,
  the outcome of \<^verbatim>\<open>ffmpeg -version\<close>, the outcome of the concat command, the
  bytes that command left at the output path (\<open>None\<close> when it wrote no file),
  and the files the system refuses to remove.
\<close>

record combine_env =
  tmpdir :: path
  now_start :: nat
  now_send :: nat
  ffmpeg_version :: exec_result
  ffmpeg_run :: exec_result
  ffmpeg_written :: "string option"
  unlink_refused :: "path \<Rightarrow> bool"

text \<open>
  A response: the status, the headers the handler has set with
  \<^verbatim>\<open>res.setHeader\<close> (Express completes them when it sends: the length of the
  body, and the JSON content type when the handler set no content type), and
  the body. \<open>ErrorPage\<close> is the page of Express's own error handler, the server
  having none, for the error named.
\<close>

datatype response_body = Json "(string \<times> string) list" | Buffer string | ErrorPage string

record response =
  res_status :: nat
  res_headers :: "(string \<times> string) list"
  res_body :: response_body

text \<open>\<^verbatim>\<open>res.status(code).json({...})\<close> on a response with no header set.\<close>

definition json_response :: "nat \<Rightarrow> (string \<times> string) list \<Rightarrow> response" where
  "json_response code kvs = \<lparr>res_status = code, res_headers = [], res_body = Json kvs\<rparr>"

definition join_path :: "path \<Rightarrow> string \<Rightarrow> path" where
  "join_path dir name = dir @ ''/'' @ name"

definition outputPath :: "combine_env \<Rightarrow> path" where
  "outputPath env = join_path (tmpdir env) (''combined-'' @ show_nat (now_start env) @ ''.mp4'')"

text \<open>The encoder subprocess: it may write the output file, whatever its exit status.\<close>

definition run_ffmpeg :: "combine_env \<Rightarrow> fs \<Rightarrow> fs" where
  "run_ffmpeg env fs =
     (case ffmpeg_written env of
        Some bytes \<Rightarrow> fs(outputPath env \<mapsto> bytes)
      | None \<Rightarrow> fs)"

text \<open>The success response: the combined bytes, sent as an attachment.\<close>

definition video_response :: "combine_env \<Rightarrow> string \<Rightarrow> response" where
  "video_response env videoBuffer =
     \<lparr>res_status = 200,
      res_headers =
        [(''Content-Type'', ''video/mp4''),
         (''Content-Disposition'',
          ''attachment; filename='' @ [CHR 0x22] @ ''combined-''
            @ show_nat (now_send env) @ ''.mp4'' @ [CHR 0x22])],
      res_body = Buffer videoBuffer\<rparr>"

text \<open>The cleanup loop over a list of paths.\<close>

definition cleanup :: "combine_env \<Rightarrow> fs \<Rightarrow> path list \<Rightarrow> fs" where
  "cleanup env fs paths = foldl (try_unlink (unlink_refused env)) fs paths"

text \<open>
  The body of the \<^verbatim>\<open>try\<close> after both early returns: \<open>Inl msg\<close> is a thrown
  \<^verbatim>\<open>Error(msg)\<close>, \<open>Inr\<close> the response sent. Both carry the temp directory
  as it is at that point; \<open>tempFiles\<close> already holds every input path and
  the output path.
\<close>

definition combine_pipeline ::
  "combine_env \<Rightarrow> fs \<Rightarrow> path list \<Rightarrow> fs \<times> (string + response)" where
  "combine_pipeline env fs tempFiles =
     (let fs1 = run_ffmpeg env fs in
      case ffmpeg_run env of
        ExecFail m \<Rightarrow> (fs1, Inl (''FFmpeg failed: '' @ m))
      | ExecOk \<Rightarrow>
          if \<not> existsSync fs1 (outputPath env)
          then (fs1, Inl ''Combined video file was not created'')
          else
            (let videoBuffer = the (fs1 (outputPath env));
                 fs2 = cleanup env fs1 tempFiles
             in (fs2, Inr (video_response env videoBuffer))))"

text \<open>
  The handler. \<open>files\<close> is \<^verbatim>\<open>req.files\<close> (\<open>None\<close> when undefined); the
  result is the temp directory afterwards and the response sent. Nothing has
  been sent when the \<^verbatim>\<open>catch\<close> runs, so its test of \<^verbatim>\<open>res.headersSent\<close> always
  lets the 500 through.
\<close>

definition combine_handler ::
  "combine_env \<Rightarrow> fs \<Rightarrow> upload_file list option \<Rightarrow> fs \<times> response" where
  "combine_handler env fs files =
     (case files of
        None \<Rightarrow> (fs, json_response 400 [(''error'', ''Need at least 2 videos to combine'')])
      | Some fl \<Rightarrow>
          if length fl < 2
          then (fs, json_response 400 [(''error'', ''Need at least 2 videos to combine'')])
          else
            (case ffmpeg_version env of
               ExecFail m \<Rightarrow>
                 (cleanup env fs (map file_path fl),
                  json_response 503
                    [(''error'', ''FFmpeg is not available. Please ensure FFmpeg is bundled with the application.''),
                     (''suggestion'', ''FFmpeg should be bundled with the application. If this error persists, please contact support.'')])
             | ExecOk \<Rightarrow>
                 (let tempFiles = map file_path fl @ [outputPath env] in
                  case combine_pipeline env fs tempFiles of
                    (fs', Inr res) \<Rightarrow> (fs', res)
                  | (fs', Inl msg) \<Rightarrow>
                      (cleanup env fs' tempFiles,
                       json_response 500
                         [(''error'', if truthy msg then msg else ''Video combination failed'')]))))"

text \<open>
  A whole combine attempt on the files of the \<^verbatim>\<open>videos\<close> field, in the order
  they arrive. multer stores up to ten files of at most 500 MB each, and the
  handler runs on them. An eleventh file (\<^verbatim>\<open>LIMIT_UNEXPECTED_FILE\<close>) or a file
  over the size limit (\<^verbatim>\<open>LIMIT_FILE_SIZE\<close>, the file stored cut at the limit)
  makes multer fail: it removes the files it has stored, the handler never
  runs, and Express answers the error with status 500 and its error page.
  \<open>multer_scan n files\<close> gives the files stored, and the error if there is one.
\<close>

definition fileSize :: nat where
  "fileSize = 500 * 1024 * 1024"

fun multer_scan :: "nat \<Rightarrow> upload_file list \<Rightarrow> upload_file list \<times> string option" where
  "multer_scan n [] = ([], None)"
| "multer_scan n (f # fs) =
     (if n = 0 then ([], Some ''LIMIT_UNEXPECTED_FILE'')
      else if fileSize < length (file_bytes f)
      then ([f\<lparr>file_bytes := take fileSize (file_bytes f)\<rparr>], Some ''LIMIT_FILE_SIZE'')
      else (f # fst (multer_scan (n - 1) fs), snd (multer_scan (n - 1) fs)))"

definition combine_request ::
  "combine_env \<Rightarrow> fs \<Rightarrow> upload_file list \<Rightarrow> fs \<times> response" where
  "combine_request env fs0 files =
     (case multer_scan 10 files of
        (stored, None) \<Rightarrow> combine_handler env (multer_store fs0 stored) (Some stored)
      | (stored, Some e) \<Rightarrow>
          (cleanup env (multer_store fs0 stored) (map file_path stored),
           \<lparr>res_status = 500, res_headers = [], res_body = ErrorPage e\<rparr>))"

definition file_count :: "fs \<Rightarrow> nat" where
  "file_count fs = card (dom fs)"


section \<open>Request dispatcher: \<^verbatim>\<open>executeProxiedRequest\<close> (services/apiClient.ts)\<close>

subsection \<open>Data\<close>

datatype service_type = Veo | Imagen | Nanobanana

definition service_name :: "service_type \<Rightarrow> string" where
  "service_name t = (case t of Veo \<Rightarrow> ''veo'' | Imagen \<Rightarrow> ''imagen'' | Nanobanana \<Rightarrow> ''nanobanana'')"

text \<open>
  The fields of the stored \<^verbatim>\<open>User\<close> that this module reads. The item
  \<^verbatim>\<open>currentUser\<close> of localStorage is a \<open>user option\<close>: \<open>None\<close> when the item
  is missing or does not parse, which every reader turns into \<^verbatim>\<open>null\<close>.
\<close>

record user =
  user_id :: string
  username :: "string option"
  personalAuthToken :: "string option"
  recaptchaToken :: "string option"

text \<open>
  The request payload. The source types it \<^verbatim>\<open>any\<close>; every caller builds an
  object literal whose \<^verbatim>\<open>clientContext\<close>, when present, is an object literal
  with string fields, and that shape is the type here. \<open>body_rest\<close> stands for
  the fields the dispatcher never reads.
\<close>

record client_context =
  cc_recaptchaToken :: "string option"
  sessionId :: "string option"
  projectId :: "string option"

record request_item =
  item_clientContext :: "client_context option"
  item_rest :: string

record request_body =
  clientContext :: "client_context option"
  requests :: "request_item list option"
  body_rest :: string

text \<open>A row of \<^verbatim>\<open>token_ultra_registrations\<close>; \<open>expires_at\<close> is \<open>None\<close> for an invalid date.\<close>

record registration =
  reg_status :: string
  expires_at :: "nat option"
  allow_master_token :: "bool option"

datatype ultra_result = UltraResult bool "registration option" | UltraThrows
datatype master_result = MasterResult bool "string option" | MasterThrows
datatype captcha_result = Solved "string option" | SolveThrows
datatype db_result = DbError | DbRow "string option" | DbThrows

text \<open>
  A JSON value, as \<^verbatim>\<open>JSON.parse\<close> gives it: the body of a response can be
  any of them. The proxy server's own envelope is the object
  \<^verbatim>\<open>{ error: '...' }\<close>; the provider's error, which the proxy forwards as it
  is, is an object whose \<^verbatim>\<open>error\<close> is an object with a \<^verbatim>\<open>message\<close>.
\<close>

datatype json =
    JNull
  | JBool bool
  | JNum real
  | JStr string
  | JArr "json list"
  | JObj "(string \<times> json) list"

text \<open>
  An HTTP response: \<open>resp_json\<close> is \<^verbatim>\<open>JSON.parse(textResponse)\<close>, \<open>None\<close>
  when it throws.
\<close>

record api_response =
  status :: nat
  resp_text :: string
  resp_json :: "json option"

datatype fetch_outcome = FetchThrows string | FetchResponse api_response

text \<open>
  What the dispatcher itself does, in order: the calls that leave the
  module, status updates and diagnostic entries. \<open>AwaitDone\<close> is the point
  where the dispatcher, having waited for the call just made to settle, goes
  on: it follows every call that is awaited and no other. \<open>Warn\<close> is the
  console warning of a handler that catches the failure of a call (the slot
  reservation, the usage record); other console output is left out.
\<close>

datatype event =
    StatusUpdate string
  | AwaitDone
  | Warn string
  | RegistrationLookup string
  | MasterTokenFetch
  | SolveCaptcha string "string option"
  | RequestSlot nat string
  | TokenQuery string
  | RecordUsage string string
  | Fetch string string string request_body
  | LogEntry string string string

text \<open>
  Everything the dispatcher reads from the browser and from the services it
  calls: the environment tests, session and local storage, the clock, and for
  each service outside this module (solving service, entitlement lookup, master
  key, slot coordinator, profile store, usage record, the proxy itself) what
  its call gives. \<open>localhostServerUrl\<close> is \<^verbatim>\<open>getLocalhostServerUrl()\<close> of
  serverConfig. \<open>type_error_text\<close> is the message the engine gives the
  \<^verbatim>\<open>TypeError\<close> it throws for reading a property of \<^verbatim>\<open>null\<close> and for
  calling a method a value has not; the texts differ between engines.
\<close>

datatype type_error = ReadOfNull | NotAFunction

record client_env =
  isElectron :: bool
  isLocalhost :: bool
  localhostServerUrl :: string
  selectedProxyServer :: "string option"
  currentUser :: "user option"
  antiCaptchaProjectId :: "string option"
  session_registration :: "string \<Rightarrow> registration option"
  master_recaptcha_token :: "string option"
  now :: nat
  ultra_lookup :: "string \<Rightarrow> ultra_result"
  master_fetch :: master_result
  solveCaptcha :: "string \<Rightarrow> string option \<Rightarrow> captcha_result"
  slot_rpc_throws :: bool
  token_query :: "string \<Rightarrow> db_result"
  usage_record_fails :: bool
  fetch_result :: fetch_outcome
  type_error_text :: "type_error \<Rightarrow> string"

record dispatch_args =
  relativePath :: string
  serviceType :: service_type
  requestBody :: request_body
  logContext :: string
  specificToken :: "string option"
  onStatusUpdate :: bool
  overrideServerUrl :: "string option"

datatype source_label = Specific | Personal

record dispatch_result =
  data :: json
  successfulToken :: string
  successfulServerUrl :: string

text \<open>
  What a dispatch leaves behind: what the dispatcher itself did (\<open>trace\<close>);
  what the handlers of promises it did not wait for do when those settle, at
  some later time (\<open>detached\<close>); the caller's payload object and the stored user
  afterwards; and the value returned (\<open>Inr\<close>) or the message of the error
  thrown (\<open>Inl\<close>).
\<close>

record dispatch_outcome =
  trace :: "event list"
  detached :: "event list"
  payload_after :: request_body
  user_after :: "user option"
  result :: "string + dispatch_result"

subsection \<open>Endpoint selection\<close>

definition select_proxy :: "client_env \<Rightarrow> string" where
  "select_proxy env =
     (let localhostUrl = localhostServerUrl env in
      if isElectron env then localhostUrl
      else if isLocalhost env then
        (let userSelectedProxy = selectedProxyServer env in
         if \<not> truthy_opt userSelectedProxy \<or> userSelectedProxy = Some localhostUrl
         then localhostUrl
         else the userSelectedProxy)
      else
        (let userSelectedProxy = selectedProxyServer env in
         if truthy_opt userSelectedProxy then the userSelectedProxy
         else ''https://s1.monoklix.com''))"

text \<open>The three selectors of the source have the same body.\<close>

definition getVeoProxyUrl :: "client_env \<Rightarrow> string" where
  "getVeoProxyUrl env = select_proxy env"

definition getImagenProxyUrl :: "client_env \<Rightarrow> string" where
  "getImagenProxyUrl env = select_proxy env"

definition getNanobanana2ProxyUrl :: "client_env \<Rightarrow> string" where
  "getNanobanana2ProxyUrl env = select_proxy env"

definition currentServerUrl :: "dispatch_args \<Rightarrow> client_env \<Rightarrow> string" where
  "currentServerUrl args env =
     (if truthy_opt (overrideServerUrl args) then the (overrideServerUrl args)
      else case serviceType args of
             Veo \<Rightarrow> getVeoProxyUrl env
           | Imagen \<Rightarrow> getImagenProxyUrl env
           | Nanobanana \<Rightarrow> getNanobanana2ProxyUrl env)"

subsection \<open>Stored user and credential sources\<close>

definition getPersonalTokenLocal :: "user option \<Rightarrow> string option" where
  "getPersonalTokenLocal stored =
     (case stored of
        None \<Rightarrow> None
      | Some u \<Rightarrow>
          (case personalAuthToken u of
             None \<Rightarrow> None
           | Some t \<Rightarrow> if length (trim t) > 0 then Some t else None))"

definition getCurrentUserInternal :: "user option \<Rightarrow> user option" where
  "getCurrentUserInternal stored =
     (case stored of
        None \<Rightarrow> None
      | Some u \<Rightarrow> if truthy (user_id u) then Some u else None)"

text \<open>
  The fallback: ask the profile store and wait for its answer. Returns the
  calls made, the stored user afterwards (a token found is written back) and
  the token.
\<close>

definition getFreshPersonalTokenFromDB ::
  "client_env \<Rightarrow> user option \<Rightarrow> event list \<times> user option \<times> string option" where
  "getFreshPersonalTokenFromDB env stored =
     (case stored of
        None \<Rightarrow> ([], stored, None)
      | Some u \<Rightarrow>
          if \<not> truthy (user_id u) then ([], stored, None)
          else
            (case token_query env (user_id u) of
               DbThrows \<Rightarrow> ([TokenQuery (user_id u), AwaitDone], stored, None)
             | DbError \<Rightarrow> ([TokenQuery (user_id u), AwaitDone], stored, None)
             | DbRow tok \<Rightarrow>
                 if truthy_opt tok
                 then ([TokenQuery (user_id u), AwaitDone], Some (u\<lparr>personalAuthToken := tok\<rparr>), tok)
                 else ([TokenQuery (user_id u), AwaitDone], stored, None)))"

subsection \<open>Captcha solver adapter\<close>

definition status_update :: "bool \<Rightarrow> string \<Rightarrow> event list" where
  "status_update cb s = (if cb then [StatusUpdate s] else [])"

text \<open>\<^verbatim>\<open>a || d\<close> for a string \<open>d\<close>.\<close>

definition js_or_default :: "string option \<Rightarrow> string \<Rightarrow> string" where
  "js_or_default a d = (case a of Some s \<Rightarrow> (if truthy s then s else d) | None \<Rightarrow> d)"

text \<open>\<^verbatim>\<open>projectId || localStorage.getItem('antiCaptchaProjectId') || undefined\<close>\<close>

definition finalProjectId :: "client_env \<Rightarrow> string option \<Rightarrow> string option" where
  "finalProjectId env pid =
     (let v = js_or pid (antiCaptchaProjectId env) in if truthy_opt v then v else None)"

text \<open>
  The awaited call to the solving service. A rejection is caught by the
  \<^verbatim>\<open>try\<close>/\<^verbatim>\<open>catch\<close> around the body of both adapters, which return
  \<^verbatim>\<open>null\<close>.
\<close>

definition solve :: "client_env \<Rightarrow> string \<Rightarrow> string option \<Rightarrow> event list \<times> string option" where
  "solve env apiKey pid =
     ([SolveCaptcha apiKey pid, AwaitDone],
      case solveCaptcha env apiKey pid of Solved t \<Rightarrow> t | SolveThrows \<Rightarrow> None)"

definition getPersonalRecaptchaToken ::
  "client_env \<Rightarrow> user option \<Rightarrow> string option \<Rightarrow> bool \<Rightarrow> event list \<times> string option" where
  "getPersonalRecaptchaToken env stored pid cb =
     (case getCurrentUserInternal stored of
        None \<Rightarrow> ([], None)
      | Some cu \<Rightarrow>
          (let personalKey = js_or_default (recaptchaToken cu) [] in
           if \<not> truthy (trim personalKey)
           then (status_update cb ''Personal Anti-Captcha API key required'', None)
           else
             (let (ev, token) = solve env (trim personalKey) (finalProjectId env pid)
              in (status_update cb ''Solving reCAPTCHA...'' @ ev, token))))"

text \<open>
  The registration of the elevated entitlement: the cached copy, else an
  awaited lookup. The outer \<open>None\<close> is a lookup that threw.
\<close>

definition lookup_registration ::
  "client_env \<Rightarrow> string \<Rightarrow> event list \<times> registration option option" where
  "lookup_registration env uid =
     (case session_registration env uid of
        Some r \<Rightarrow> ([], Some (Some r))
      | None \<Rightarrow>
          (case ultra_lookup env uid of
             UltraThrows \<Rightarrow> ([RegistrationLookup uid, AwaitDone], None)
           | UltraResult active reg \<Rightarrow>
               ([RegistrationLookup uid, AwaitDone], Some (if active then reg else None))))"

text \<open>Which key the general adapter solves with; \<open>None\<close> is a fetch that threw.\<close>

definition choose_api_key ::
  "client_env \<Rightarrow> string \<Rightarrow> registration option \<Rightarrow> event list \<times> string option" where
  "choose_api_key env personal reg =
     (case reg of
        None \<Rightarrow> ([], Some personal)
      | Some r \<Rightarrow>
          (let isActive = (reg_status r = ''active''
                           \<and> (case expires_at r of Some e \<Rightarrow> now env < e | None \<Rightarrow> False)) in
           if isActive then
             (let isBlockedFromMaster = (allow_master_token r = Some False) in
              if \<not> isBlockedFromMaster then
                (let cachedMasterToken = master_recaptcha_token env in
                 if truthy_opt cachedMasterToken \<and> truthy (trim (the cachedMasterToken))
                 then ([], Some (the cachedMasterToken))
                 else
                   (case master_fetch env of
                      MasterThrows \<Rightarrow> ([MasterTokenFetch, AwaitDone], None)
                    | MasterResult success apiKey \<Rightarrow>
                        if success \<and> truthy_opt apiKey
                        then ([MasterTokenFetch, AwaitDone], Some (the apiKey))
                        else ([MasterTokenFetch, AwaitDone], Some personal)))
              else ([], Some personal))
           else ([], Some personal)))"

definition getRecaptchaToken ::
  "client_env \<Rightarrow> user option \<Rightarrow> string option \<Rightarrow> bool \<Rightarrow> event list \<times> string option" where
  "getRecaptchaToken env stored pid cb =
     (case getCurrentUserInternal stored of
        None \<Rightarrow> ([], None)
      | Some cu \<Rightarrow>
          (let personal = js_or_default (recaptchaToken cu) [];
               (ev1, reg) = lookup_registration env (user_id cu)
           in case reg of
                None \<Rightarrow> (ev1, None)
              | Some tokenUltraReg \<Rightarrow>
                  (let (ev2, key) = choose_api_key env personal tokenUltraReg
                   in case key of
                        None \<Rightarrow> (ev1 @ ev2, None)
                      | Some apiKey \<Rightarrow>
                          if \<not> truthy (trim apiKey) then (ev1 @ ev2, None)
                          else
                            (let (ev3, token) = solve env (trim apiKey) (finalProjectId env pid)
                             in (ev1 @ ev2 @ status_update cb ''Solving reCAPTCHA...'' @ ev3,
                                 token)))))"

subsection \<open>Dispatcher\<close>

definition isStatusCheck :: "dispatch_args \<Rightarrow> bool" where
  "isStatusCheck args = (logContext args = ''VEO STATUS'')"

definition isGenerationRequest :: "dispatch_args \<Rightarrow> bool" where
  "isGenerationRequest args =
     (includes_str (logContext args) ''GENERATE'' \<or> includes_str (logContext args) ''RECIPE''
      \<or> includes_str (logContext args) ''UPLOAD'' \<or> includes_str (logContext args) ''HEALTH CHECK'')"

definition needsRecaptcha :: "dispatch_args \<Rightarrow> bool" where
  "needsRecaptcha args =
     ((includes_str (logContext args) ''GENERATE'' \<or> includes_str (logContext args) ''HEALTH CHECK'')
      \<and> (serviceType args = Veo \<or> serviceType args = Nanobanana))"

text \<open>
  \<^verbatim>\<open>requestBody.clientContext?.projectId || requestBody.requests?.[0]?.clientContext?.projectId\<close>
\<close>

definition projectIdFromBody :: "request_body \<Rightarrow> string option" where
  "projectIdFromBody body =
     js_or (case clientContext body of None \<Rightarrow> None | Some cc \<Rightarrow> projectId cc)
           (case requests body of
              None \<Rightarrow> None
            | Some [] \<Rightarrow> None
            | Some (r # rs) \<Rightarrow>
                (case item_clientContext r of None \<Rightarrow> None | Some cc \<Rightarrow> projectId cc))"

text \<open>
  The assignment into the caller's payload object: only a top-level
  \<^verbatim>\<open>clientContext\<close> receives the token; the session identifier is kept when
  truthy and synthesized from the clock otherwise.
\<close>

definition inject_recaptcha :: "request_body \<Rightarrow> string \<Rightarrow> nat \<Rightarrow> request_body" where
  "inject_recaptcha body tok t =
     (case clientContext body of
        None \<Rightarrow> body
      | Some cc \<Rightarrow>
          body\<lparr>clientContext :=
                 Some (cc\<lparr>cc_recaptchaToken := Some tok,
                          sessionId := (if truthy_opt (sessionId cc) then sessionId cc
                                        else Some ('';'' @ show_nat t))\<rparr>)\<rparr>)"

text \<open>Step 1: the calls made, the token obtained, and the payload afterwards.\<close>

definition captcha_phase ::
  "dispatch_args \<Rightarrow> client_env \<Rightarrow> event list \<times> string option \<times> request_body" where
  "captcha_phase args env =
     (if needsRecaptcha args then
        (let pid = projectIdFromBody (requestBody args);
             (ev, token) =
               (if serviceType args = Nanobanana
                then getPersonalRecaptchaToken env (currentUser env) pid (onStatusUpdate args)
                else getRecaptchaToken env (currentUser env) pid (onStatusUpdate args))
         in if truthy_opt token
            then (ev, token, inject_recaptcha (requestBody args) (the token) (now env))
            else (ev, token, requestBody args))
      else ([], None, requestBody args))"

text \<open>
  Step 2: the slot reservation, awaited inside a \<^verbatim>\<open>try\<close>; a failure is caught
  and warned about before the dispatcher goes on.
\<close>

definition slot_phase :: "dispatch_args \<Rightarrow> client_env \<Rightarrow> string \<Rightarrow> event list" where
  "slot_phase args env url =
     (if isGenerationRequest args
      then status_update (onStatusUpdate args) ''Queueing...''
             @ [RequestSlot 10 url, AwaitDone]
             @ (if slot_rpc_throws env then [Warn ''Slot request failed, proceeding anyway:''] else [])
             @ status_update (onStatusUpdate args) ''Processing...''
      else [])"

text \<open>Step 3: the credential and where it came from.\<close>

definition resolve_token ::
  "dispatch_args \<Rightarrow> client_env \<Rightarrow> user option
     \<Rightarrow> event list \<times> user option \<times> (string \<times> source_label) option" where
  "resolve_token args env stored =
     (if truthy_opt (specificToken args) then ([], stored, Some (the (specificToken args), Specific))
      else
        (case getPersonalTokenLocal stored of
           Some t \<Rightarrow> ([], stored, Some (t, Personal))
         | None \<Rightarrow>
             (let (ev, stored', freshToken) = getFreshPersonalTokenFromDB env stored
              in if truthy_opt freshToken
                 then (ev, stored', Some (the freshToken, Personal))
                 else (ev, stored', None))))"

text \<open>
  Step 4.5: the usage record. The call is made and its promise is left with
  a \<^verbatim>\<open>catch\<close> handler; the dispatcher does not wait for it. The first
  component is what the dispatcher itself does, the second what the handler
  does when the promise is rejected, whenever that is.
  \<^verbatim>\<open>updateUserProxyServer\<close> is a function of userService; what is taken from
  it is whether the promise it returns is rejected.
\<close>

definition record_usage ::
  "dispatch_args \<Rightarrow> client_env \<Rightarrow> user option \<Rightarrow> string \<Rightarrow> event list \<times> event list" where
  "record_usage args env cu url =
     (case cu of
        None \<Rightarrow> ([], [])
      | Some u \<Rightarrow>
          if \<not> isElectron env \<and> truthy url \<and> \<not> isStatusCheck args
          then ([RecordUsage (user_id u) url],
                if usage_record_fails env then [Warn ''Failed to record server usage:''] else [])
          else ([], []))"

definition endpoint :: "dispatch_args \<Rightarrow> client_env \<Rightarrow> string \<Rightarrow> string" where
  "endpoint args env url =
     (let isLocalhostServer = includes_str url ''localhost:3001'' in
      if isElectron env \<or> \<not> isLocalhostServer
      then url @ ''/api/'' @ service_name (serviceType args) @ relativePath args
      else ''/api/'' @ service_name (serviceType args) @ relativePath args)"

text \<open>
  JavaScript on JSON values. A value that may be \<^verbatim>\<open>undefined\<close> is a
  \<open>json option\<close>. \<open>js_get v k\<close> reads the property \<open>k\<close>, one of \<^verbatim>\<open>error\<close> and
  \<^verbatim>\<open>message\<close>, of a value that is not \<^verbatim>\<open>null\<close>: an object has it when the
  key is there (the last one, if repeated), a text, a number, a truth value
  and an array have not. Reading a property of \<^verbatim>\<open>null\<close> throws, which the
  callers of \<open>js_get\<close> test for.
\<close>

definition js_get :: "json \<Rightarrow> string \<Rightarrow> json option" where
  "js_get v k = (case v of JObj kvs \<Rightarrow> map_of (rev kvs) k | _ \<Rightarrow> None)"

definition js_truthy :: "json option \<Rightarrow> bool" where
  "js_truthy v =
     (case v of
        None \<Rightarrow> False
      | Some JNull \<Rightarrow> False
      | Some (JBool b) \<Rightarrow> b
      | Some (JNum x) \<Rightarrow> x \<noteq> 0
      | Some (JStr s) \<Rightarrow> s \<noteq> []
      | Some (JArr xs) \<Rightarrow> True
      | Some (JObj kvs) \<Rightarrow> True)"

definition js_or_json :: "json option \<Rightarrow> json option \<Rightarrow> json option" where
  "js_or_json a b = (if js_truthy a then a else b)"

text \<open>\<^verbatim>\<open>v?.message\<close>\<close>

definition optional_message :: "json option \<Rightarrow> json option" where
  "optional_message v =
     (case v of None \<Rightarrow> None | Some JNull \<Rightarrow> None | Some e \<Rightarrow> js_get e ''message'')"

definition parse_data :: "api_response \<Rightarrow> json" where
  "parse_data r =
     (case resp_json r of
        Some d \<Rightarrow> d
      | None \<Rightarrow>
          JObj [(''error'',
                 JObj [(''message'',
                        JStr (''Proxy returned non-JSON ('' @ show_nat (status r) @ ''): ''
                              @ take 100 (resp_text r)))])])"

definition response_ok :: "api_response \<Rightarrow> bool" where
  "response_ok r = (200 \<le> status r \<and> status r \<le> 299)"

text \<open>
  \<^verbatim>\<open>data.error?.message || data.message || `API call failed (${status})`\<close>:
  the value of \<^verbatim>\<open>errorMessage\<close>, or the error of reading \<^verbatim>\<open>data.error\<close> when
  the body is \<^verbatim>\<open>null\<close>.
\<close>

definition errorMessage :: "api_response \<Rightarrow> type_error + json" where
  "errorMessage r =
     (if parse_data r = JNull then Inl ReadOfNull
      else
        (case js_or_json (js_or_json (optional_message (js_get (parse_data r) ''error''))
                                     (js_get (parse_data r) ''message''))
                         (Some (JStr (''API call failed ('' @ show_nat (status r) @ '')''))) of
           Some v \<Rightarrow> Inr v
         | None \<Rightarrow> Inr (JStr (''API call failed ('' @ show_nat (status r) @ '')''))))"

text \<open>
  What is thrown for a response that is not ok: the hard error, whose message
  is prefixed with the status; the plain one; or the \<^verbatim>\<open>TypeError\<close> of
  \<^verbatim>\<open>data.error\<close> on a \<^verbatim>\<open>null\<close> body and of \<^verbatim>\<open>errorMessage.toLowerCase()\<close> on
  a value that is not a text.
\<close>

datatype failure = HardError nat string | PlainError string | TypeError type_error

definition thrown_message :: "client_env \<Rightarrow> failure \<Rightarrow> string" where
  "thrown_message env f =
     (case f of
        HardError st m \<Rightarrow> ''['' @ show_nat st @ ''] '' @ m
      | PlainError m \<Rightarrow> m
      | TypeError e \<Rightarrow> type_error_text env e)"

definition classify :: "api_response \<Rightarrow> failure + json" where
  "classify r =
     (if \<not> response_ok r then
        (case errorMessage r of
           Inl e \<Rightarrow> Inl (TypeError e)
         | Inr (JStr m) \<Rightarrow>
             (let lowerMsg = toLowerCase m in
              if status r = 400 \<or> includes_str lowerMsg ''safety'' \<or> includes_str lowerMsg ''blocked''
              then Inl (HardError (status r) m)
              else Inl (PlainError m))
         | Inr v \<Rightarrow> Inl (TypeError NotAFunction))
      else Inr (parse_data r))"

definition label_name :: "source_label \<Rightarrow> string" where
  "label_name l = (case l of Specific \<Rightarrow> ''Specific'' | Personal \<Rightarrow> ''Personal'')"

text \<open>The \<^verbatim>\<open>catch\<close> of step 5: at most one diagnostic entry, then the error is thrown again.\<close>

definition on_error :: "dispatch_args \<Rightarrow> source_label \<Rightarrow> string \<Rightarrow> event list" where
  "on_error args sourceLabel errMsg =
     (let isSafetyError = (includes_str errMsg ''[400]''
                           \<or> includes_str (toLowerCase errMsg) ''safety''
                           \<or> includes_str (toLowerCase errMsg) ''blocked'') in
      if \<not> truthy_opt (specificToken args) \<and> \<not> isSafetyError \<and> \<not> isStatusCheck args
      then [LogEntry (logContext args) (''Failed using '' @ label_name sourceLabel @ '' token'') errMsg]
      else [])"

definition auth_failed :: string where
  "auth_failed = ''Authentication failed: No Personal Token found. Please go to Settings > Token & API and set your token.''"

text \<open>
  Step 5, once a credential is there: the awaited call, with the reading of
  its body, and what comes of the response.
\<close>

definition execute ::
  "dispatch_args \<Rightarrow> client_env \<Rightarrow> string \<Rightarrow> request_body \<Rightarrow> user option
     \<Rightarrow> string \<Rightarrow> source_label \<Rightarrow> event list \<times> (string + dispatch_result)" where
  "execute args env url body cu finalToken sourceLabel =
     (let call = Fetch (endpoint args env url) finalToken
                   (js_or_default (case cu of None \<Rightarrow> None | Some u \<Rightarrow> username u) ''unknown'')
                   body
      in case fetch_result env of
           FetchThrows m \<Rightarrow> (call # AwaitDone # on_error args sourceLabel m, Inl m)
         | FetchResponse r \<Rightarrow>
             (case classify r of
                Inl f \<Rightarrow>
                  (call # AwaitDone # on_error args sourceLabel (thrown_message env f),
                   Inl (thrown_message env f))
              | Inr d \<Rightarrow>
                  ([call, AwaitDone],
                   Inr \<lparr>data = d, successfulToken = finalToken, successfulServerUrl = url\<rparr>)))"

definition executeProxiedRequest :: "dispatch_args \<Rightarrow> client_env \<Rightarrow> dispatch_outcome" where
  "executeProxiedRequest args env =
     (let url = currentServerUrl args env;
          (ev1, token, body) = captcha_phase args env;
          ev2 = slot_phase args env url;
          (ev3, stored, cred) = resolve_token args env (currentUser env)
      in case cred of
           None \<Rightarrow>
             \<lparr>trace = ev1 @ ev2 @ ev3, detached = [], payload_after = body,
              user_after = stored, result = Inl auth_failed\<rparr>
         | Some (finalToken, sourceLabel) \<Rightarrow>
             (let cu = getCurrentUserInternal stored;
                  (ev4, later) = record_usage args env cu url;
                  (ev5, res) = execute args env url body cu finalToken sourceLabel
              in \<lparr>trace = ev1 @ ev2 @ ev3 @ ev4 @ ev5, detached = later,
                  payload_after = body, user_after = stored, result = res\<rparr>))"


section \<open>Sibling endpoint sampling: \<^verbatim>\<open>handleGenerate\<close> (Nanobanana2GenerationView.tsx)\<close>

text \<open>
  Numbers are IEEE 754 doubles. \<open>fl x\<close> is the double nearest to the real
  \<open>x\<close>, a tie going to the even significand: what an arithmetic operation on
  doubles returns when its exact result is \<open>x\<close>, below the overflow threshold.
  \<open>binade x\<close> is the exponent \<open>e\<close> with \<open>2\<^sup>e \<le> |x| < 2\<^sup>e\<^sup>+\<^sup>1\<close>, and \<open>-1022\<close> for
  the numbers below (the subnormal ones); the doubles of that binade are the
  multiples of \<open>ulp x = 2\<^sup>e\<^sup>-\<^sup>5\<^sup>2\<close>.
\<close>

definition round_half_even :: "real \<Rightarrow> int" where
  "round_half_even y =
     (if y - of_int \<lfloor>y\<rfloor> < 1 / 2 then \<lfloor>y\<rfloor>
      else if 1 / 2 < y - of_int \<lfloor>y\<rfloor> then \<lfloor>y\<rfloor> + 1
      else if even \<lfloor>y\<rfloor> then \<lfloor>y\<rfloor>
      else \<lfloor>y\<rfloor> + 1)"

definition binade :: "real \<Rightarrow> int" where
  "binade x = max (bitlen \<lfloor>\<bar>x\<bar> * 2 ^ 1074\<rfloor> - 1075) (- 1022)"

definition ulp :: "real \<Rightarrow> real" where
  "ulp x = 2 powi (binade x - 52)"

definition fl :: "real \<Rightarrow> real" where
  "fl x = of_int (round_half_even (x / ulp x)) * ulp x"

text \<open>
  \<open>ui_urls\<close> is \<^verbatim>\<open>UI_SERVER_LIST.map(s => s.url)\<close> (the list is configuration
  of serverConfig). \<open>random i\<close> is the double the \<open>i\<close>-th call of
  \<^verbatim>\<open>Math.random()\<close> in the loop returns, at least 0 and below 1.
  \<open>randomIndex\<close> is \<^verbatim>\<open>Math.floor(Math.random() * availableServers.length)\<close>: the
  product is a product of doubles. Reading an array out of range gives
  \<^verbatim>\<open>undefined\<close>, here \<open>None\<close>, which makes the dispatcher select the endpoint
  itself.
\<close>

definition availableServers :: "string list \<Rightarrow> string list" where
  "availableServers ui_urls = filter (\<lambda>url. \<not> includes_str url ''localhost'') ui_urls"

definition selected_is_localhost :: "string option \<Rightarrow> bool" where
  "selected_is_localhost selectedServer =
     (case selectedServer of None \<Rightarrow> False | Some s \<Rightarrow> includes_str s ''localhost'')"

definition randomIndex :: "real \<Rightarrow> nat \<Rightarrow> nat" where
  "randomIndex r n = nat \<lfloor>fl (r * real n)\<rfloor>"

definition array_get :: "'a list \<Rightarrow> nat \<Rightarrow> 'a option" where
  "array_get xs i = (if i < length xs then Some (xs ! i) else None)"

definition serverUrls ::
  "string option \<Rightarrow> string list \<Rightarrow> nat \<Rightarrow> (nat \<Rightarrow> real) \<Rightarrow> string option list" where
  "serverUrls selectedServer ui_urls numberOfImages random =
     (if selected_is_localhost selectedServer
      then map (\<lambda>i. selectedServer) [0..<numberOfImages]
      else
        (let pool = availableServers ui_urls in
         if length pool > 0
         then map (\<lambda>i. array_get pool (randomIndex (random i) (length pool))) [0..<numberOfImages]
         else map (\<lambda>i. None) [0..<numberOfImages]))"


section \<open>Media relay: \<^verbatim>\<open>GET /api/veo/download-video\<close> (server/index.js)\<close>

text \<open>
  The upstream response: status line, the two headers read, and the body as
  the chunks its stream delivers before it ends or fails.
\<close>

datatype stream_end = Ended | Errored string

record upstream_response =
  up_status :: nat
  up_statusText :: string
  up_contentType :: "string option"
  up_contentLength :: "string option"
  up_chunks :: "string list"
  up_end :: stream_end

datatype upstream_outcome = FetchFailed string | Upstream upstream_response

text \<open>
  What the handler sends: a complete response, or the headers followed by
  the chunks piped so far. After those the response is \<open>Closed\<close> when the
  source ran to its end, which makes \<^verbatim>\<open>pipe\<close> end the response; it is
  \<open>LeftOpen\<close> when the source failed: \<^verbatim>\<open>pipe\<close> does not end its destination
  on an error of the source, and the handler neither ends nor destroys the
  response.
\<close>

datatype stream_state = Closed | LeftOpen

datatype relay_reply = Reply response | Piped "(string \<times> string) list" "string list" stream_state

definition upstream_ok :: "upstream_response \<Rightarrow> bool" where
  "upstream_ok r = (200 \<le> up_status r \<and> up_status r \<le> 299)"

text \<open>\<^verbatim>\<open>res.headersSent\<close> while piping: the first chunk written sends the headers.\<close>

definition headersSent :: "string list \<Rightarrow> bool" where
  "headersSent written = (written \<noteq> [])"

definition relay_headers :: "upstream_response \<Rightarrow> nat \<Rightarrow> (string \<times> string) list" where
  "relay_headers r t =
     [(''Content-Type'', js_or_default (up_contentType r) ''video/mp4'')]
     @ (if truthy_opt (up_contentLength r) then [(''Content-Length'', the (up_contentLength r))] else [])
     @ [(''Content-Disposition'',
         ''inline; filename='' @ [CHR 0x22] @ ''monoklix-video-'' @ show_nat t @ ''.mp4'' @ [CHR 0x22]),
        (''Accept-Ranges'', ''bytes'')]"

text \<open>
  The handler: \<open>videoUrl\<close> is \<^verbatim>\<open>req.query.url\<close> when it is a string, \<open>t\<close> the
  clock, \<open>up\<close> what \<^verbatim>\<open>fetch(videoUrl)\<close> gives. The result lists every
  response the handler sends. The 500 for a stream that fails before its
  first chunk is sent on the response that already has the video headers set.
\<close>

definition download_video :: "string option \<Rightarrow> nat \<Rightarrow> upstream_outcome \<Rightarrow> relay_reply list" where
  "download_video videoUrl t up =
     (if \<not> truthy_opt videoUrl
      then [Reply (json_response 400 [(''error'', ''Video URL is required'')])]
      else
        (case up of
           FetchFailed m \<Rightarrow> [Reply (json_response 500 [(''error'', m)])]
         | Upstream r \<Rightarrow>
             if \<not> upstream_ok r then
               (case up_end r of
                  Errored m \<Rightarrow> [Reply (json_response 500 [(''error'', m)])]
                | Ended \<Rightarrow>
                    [Reply (json_response (up_status r)
                       [(''error'', ''Failed to download: '' @ up_statusText r),
                        (''details'', concat (up_chunks r))])])
             else
               (case up_end r of
                  Ended \<Rightarrow> [Piped (relay_headers r t) (up_chunks r) Closed]
                | Errored m \<Rightarrow>
                    if \<not> headersSent (up_chunks r)
                    then [Reply \<lparr>res_status = 500, res_headers = relay_headers r t,
                                 res_body = Json [(''error'', ''Error streaming video'')]\<rparr>]
                    else [Piped (relay_headers r t) (up_chunks r) LeftOpen])))"


section \<open>Observations and sample inputs\<close>

text \<open>Whether a JSON body has a field of the given name.\<close>

definition json_has_field :: "response_body \<Rightarrow> string \<Rightarrow> bool" where
  "json_has_field b k =
     (case b of Json kvs \<Rightarrow> map_of kvs k \<noteq> None | Buffer bytes \<Rightarrow> False | ErrorPage e \<Rightarrow> False)"

text \<open>
  A combine job with the encoder present or not, on a system that removes
  every file it is asked to.
\<close>

definition sample_combine_env :: "exec_result \<Rightarrow> combine_env" where
  "sample_combine_env version =
     \<lparr>tmpdir = ''/tmp'', now_start = 1700, now_send = 1701, ffmpeg_version = version,
      ffmpeg_run = ExecOk, ffmpeg_written = Some ''joined'', unlink_refused = (\<lambda>p. False)\<rparr>"

definition one_upload :: "upload_file list" where
  "one_upload = [\<lparr>file_path = ''/tmp/upload-a'', file_bytes = ''a''\<rparr>]"

definition two_uploads :: "upload_file list" where
  "two_uploads = [\<lparr>file_path = ''/tmp/upload-a'', file_bytes = ''a''\<rparr>,
                  \<lparr>file_path = ''/tmp/upload-b'', file_bytes = ''b''\<rparr>]"

text \<open>Reading a trace: the calls of one kind, in order.\<close>

fun is_slot :: "event \<Rightarrow> bool" where
  "is_slot (RequestSlot c u) = True"
| "is_slot e = False"

fun is_fetch :: "event \<Rightarrow> bool" where
  "is_fetch (Fetch ep tok un b) = True"
| "is_fetch e = False"

fun is_usage :: "event \<Rightarrow> bool" where
  "is_usage (RecordUsage uid u) = True"
| "is_usage e = False"

fun is_query :: "event \<Rightarrow> bool" where
  "is_query (TokenQuery uid) = True"
| "is_query e = False"

fun is_solve :: "event \<Rightarrow> bool" where
  "is_solve (SolveCaptcha k pid) = True"
| "is_solve e = False"

text \<open>What the captcha adapters can do: their calls, each of them awaited.\<close>

fun captcha_event :: "event \<Rightarrow> bool" where
  "captcha_event (StatusUpdate s) = True"
| "captcha_event AwaitDone = True"
| "captcha_event (RegistrationLookup uid) = True"
| "captcha_event MasterTokenFetch = True"
| "captcha_event (SolveCaptcha k pid) = True"
| "captcha_event e = False"

definition slot_requests :: "event list \<Rightarrow> event list" where
  "slot_requests tr = filter is_slot tr"

definition fetches :: "event list \<Rightarrow> event list" where
  "fetches tr = filter is_fetch tr"

definition usage_records :: "event list \<Rightarrow> event list" where
  "usage_records tr = filter is_usage tr"

definition token_queries :: "event list \<Rightarrow> event list" where
  "token_queries tr = filter is_query tr"

text \<open>
  What the dispatcher does right after each event of a kind: \<open>AwaitDone\<close>
  after a call it waits for, its next step after a call it does not wait for.
\<close>

fun followers :: "(event \<Rightarrow> bool) \<Rightarrow> event list \<Rightarrow> event list" where
  "followers P [] = []"
| "followers P (e # tr) = (if P e then take 1 tr else []) @ followers P tr"

text \<open>The bearer tokens and the bodies of the outbound calls in a trace.\<close>

definition bearer_tokens :: "event list \<Rightarrow> string list" where
  "bearer_tokens tr = concat (map (\<lambda>e. case e of Fetch ep tok un b \<Rightarrow> [tok] | _ \<Rightarrow> []) tr)"

definition sent_bodies :: "event list \<Rightarrow> request_body list" where
  "sent_bodies tr = concat (map (\<lambda>e. case e of Fetch ep tok un b \<Rightarrow> [b] | _ \<Rightarrow> []) tr)"

text \<open>The keys the solving service was called with.\<close>

definition solve_keys :: "event list \<Rightarrow> string list" where
  "solve_keys tr = concat (map (\<lambda>e. case e of SolveCaptcha k pid \<Rightarrow> [k] | _ \<Rightarrow> []) tr)"

text \<open>
  Sample dispatches: a stored user with both tokens, a browser away from
  localhost with nothing selected, and a provider that answers as given.
\<close>

definition sample_user :: user where
  "sample_user =
     \<lparr>user_id = ''u1'', username = Some ''amir'', personalAuthToken = Some ''tok-local'',
      recaptchaToken = Some ''key-personal''\<rparr>"

definition sample_response :: "nat \<Rightarrow> string \<Rightarrow> api_response" where
  "sample_response st msg =
     \<lparr>status = st, resp_text = [],
      resp_json = Some (JObj [(''error'', JObj [(''message'', JStr msg)])])\<rparr>"

definition envelope_response :: "nat \<Rightarrow> string \<Rightarrow> api_response" where
  "envelope_response st msg =
     \<lparr>status = st, resp_text = [],
      resp_json = Some (JObj [(''error'', JStr msg)])\<rparr>"

definition sample_env :: "user option \<Rightarrow> fetch_outcome \<Rightarrow> client_env" where
  "sample_env stored outcome =
     \<lparr>isElectron = False, isLocalhost = False, localhostServerUrl = ''http://localhost:3001'',
      selectedProxyServer = None, currentUser = stored, antiCaptchaProjectId = None,
      session_registration = (\<lambda>uid. None), master_recaptcha_token = Some ''key-master'',
      now = 1700, ultra_lookup = (\<lambda>uid. UltraResult False None),
      master_fetch = MasterResult True (Some ''key-master''),
      solveCaptcha = (\<lambda>k pid. Solved (Some ''solved'')), slot_rpc_throws = False,
      token_query = (\<lambda>uid. DbRow None), usage_record_fails = False, fetch_result = outcome,
      type_error_text =
        (\<lambda>e. case e of
               ReadOfNull \<Rightarrow> ''Cannot read properties of null''
             | NotAFunction \<Rightarrow> ''errorMessage.toLowerCase is not a function'')\<rparr>"

definition sample_body :: "client_context option \<Rightarrow> request_body" where
  "sample_body cc = \<lparr>clientContext = cc, requests = None, body_rest = ''prompt''\<rparr>"

definition sample_args :: "service_type \<Rightarrow> string \<Rightarrow> request_body \<Rightarrow> dispatch_args" where
  "sample_args svc ctx body =
     \<lparr>relativePath = ''/generate'', serviceType = svc, requestBody = body, logContext = ctx,
      specificToken = None, onStatusUpdate = False, overrideServerUrl = None\<rparr>"

definition no_token_user :: user where
  "no_token_user = sample_user\<lparr>personalAuthToken := None\<rparr>"

definition explicit_args :: dispatch_args where
  "explicit_args =
     (sample_args Imagen ''IMAGEN GENERATE'' (sample_body None))\<lparr>specificToken := Some ''tok-explicit''\<rparr>"

definition plain_args :: dispatch_args where
  "plain_args = sample_args Imagen ''IMAGEN GENERATE'' (sample_body None)"

definition ok_env :: "user option \<Rightarrow> client_env" where
  "ok_env stored = sample_env stored (FetchResponse (sample_response 200 []))"

definition db_env :: client_env where
  "db_env = (ok_env (Some no_token_user))\<lparr>token_query := (\<lambda>uid. DbRow (Some ''tok-db''))\<rparr>"

text \<open>The caller's own captcha key, as both adapters read it from the stored user.\<close>

definition personal_key :: "user option \<Rightarrow> string" where
  "personal_key stored =
     (case getCurrentUserInternal stored of
        None \<Rightarrow> []
      | Some cu \<Rightarrow> js_or_default (recaptchaToken cu) [])"

text \<open>The calls that only the pooled-key path of the general adapter makes.\<close>

fun is_pooled_key_call :: "event \<Rightarrow> bool" where
  "is_pooled_key_call (RegistrationLookup uid) = True"
| "is_pooled_key_call MasterTokenFetch = True"
| "is_pooled_key_call e = False"

definition nanobanana_generate :: dispatch_args where
  "nanobanana_generate =
     sample_args Nanobanana ''NANOBANANA 2 T2I GENERATE''
       (sample_body (Some \<lparr>cc_recaptchaToken = Some [], sessionId = Some '';1699'', projectId = None\<rparr>))"

definition no_key_user :: user where
  "no_key_user = sample_user\<lparr>recaptchaToken := None\<rparr>"

text \<open>
  An error body as the provider sends it and the dispatcher itself builds it
  for a response that is not JSON: not \<^verbatim>\<open>null\<close>; its \<^verbatim>\<open>error\<close>, when it
  has one, an object; and the \<^verbatim>\<open>message\<close> of that object and of the body,
  when there is one, a text.
\<close>

definition absent_or_text :: "json option \<Rightarrow> bool" where
  "absent_or_text v =
     (case v of None \<Rightarrow> True | Some JNull \<Rightarrow> True | Some (JStr s) \<Rightarrow> True | Some other \<Rightarrow> False)"

definition provider_error_body :: "json \<Rightarrow> bool" where
  "provider_error_body d =
     (d \<noteq> JNull
      \<and> (case js_get d ''error'' of
            None \<Rightarrow> True
          | Some JNull \<Rightarrow> True
          | Some (JObj kvs) \<Rightarrow> absent_or_text (js_get (JObj kvs) ''message'')
          | Some other \<Rightarrow> False)
      \<and> absent_or_text (js_get d ''message''))"

text \<open>The message of a response that is not ok, when it is a text.\<close>

definition message_text :: "api_response \<Rightarrow> string" where
  "message_text r = (case errorMessage r of Inr (JStr m) \<Rightarrow> m | other \<Rightarrow> [])"

text \<open>The safety or content-block signal the dispatcher looks for in a message.\<close>

definition safety_signal :: "string \<Rightarrow> bool" where
  "safety_signal m =
     (includes_str (toLowerCase m) ''safety'' \<or> includes_str (toLowerCase m) ''blocked'')"

definition nanobanana_prefilled :: dispatch_args where
  "nanobanana_prefilled =
     sample_args Nanobanana ''NANOBANANA 2 T2I GENERATE''
       (sample_body (Some \<lparr>cc_recaptchaToken = Some ''solved'', sessionId = Some '';1699'',
                            projectId = None\<rparr>))"

definition nanobanana_no_context :: dispatch_args where
  "nanobanana_no_context = sample_args Nanobanana ''NANOBANANA 2 T2I GENERATE'' (sample_body None)"

text \<open>A relay of a missing object, and a server list with one loopback entry.\<close>

definition not_found_upstream :: upstream_response where
  "not_found_upstream =
     \<lparr>up_status = 404, up_statusText = ''Not Found'', up_contentType = Some ''text/plain'',
      up_contentLength = None, up_chunks = [''go'', ''ne''], up_end = Ended\<rparr>"

definition broken_stream :: "string list \<Rightarrow> upstream_response" where
  "broken_stream chunks =
     \<lparr>up_status = 200, up_statusText = ''OK'', up_contentType = Some ''video/mp4'',
      up_contentLength = Some ''9'', up_chunks = chunks, up_end = Errored ''socket hang up''\<rparr>"

definition sample_ui_urls :: "string list" where
  "sample_ui_urls = [''http://localhost:3001'', ''https://s1.monoklix.com'', ''https://s2.monoklix.com'']"

definition sample_random :: "nat \<Rightarrow> real" where
  "sample_random i = (if i = 0 then 1 / 4 else 3 / 4)"

text \<open>
  Eleven uploads, one more than multer takes, and a system that refuses to
  remove the first of two uploads.
\<close>

definition eleven_uploads :: "upload_file list" where
  "eleven_uploads =
     map (\<lambda>c. \<lparr>file_path = ''/tmp/upload-'' @ [c], file_bytes = ''v''\<rparr>) ''abcdefghijk''"

definition locked_env :: combine_env where
  "locked_env =
     (sample_combine_env (ExecFail ''not found''))\<lparr>unlink_refused := (\<lambda>p. p = ''/tmp/upload-a'')\<rparr>"

text \<open>
  A server list with ten remote entries, and the double nearest to 0.7, as
  \<^verbatim>\<open>Math.random()\<close> can return it.
\<close>

definition ten_ui_urls :: "string list" where
  "ten_ui_urls =
     [''http://localhost:3001'', ''https://s1.monoklix.com'', ''https://s2.monoklix.com'',
      ''https://s3.monoklix.com'', ''https://s4.monoklix.com'', ''https://s5.monoklix.com'',
      ''https://s6.monoklix.com'', ''https://s7.monoklix.com'', ''https://s8.monoklix.com'',
      ''https://s9.monoklix.com'', ''https://s10.monoklix.com'']"

definition draw_0_7 :: real where
  "draw_0_7 = 6305039478318694 / 2 ^ 53"

definition draws_0_7 :: "nat \<Rightarrow> real" where
  "draws_0_7 i = draw_0_7"

text \<open>What a reply puts on the wire by piping: the headers and the chunks.\<close>

fun piped_part :: "relay_reply \<Rightarrow> ((string \<times> string) list \<times> string list) option" where
  "piped_part (Piped hs chunks st) = Some (hs, chunks)"
| "piped_part (Reply res) = None"

section \<open>Properties of the media combiner\<close>

lemma show_nat_numeral:
  "show_nat (numeral k) =
     (if numeral k < (10::nat) then [''0123456789'' ! numeral k]
      else show_nat (numeral k div 10) @ [''0123456789'' ! (numeral k mod 10)])"
  by (rule show_nat.simps)

lemma show_nat_small: "show_nat 0 = ''0''" "show_nat 1 = ''1''" "show_nat (Suc 0) = ''1''"
  by (simp_all add: show_nat.simps)


lemma dom_try_unlink:
  "dom (try_unlink refused fs p) = dom fs - (if refused p then {} else {p})"
  by (auto simp: try_unlink_def unlinkSync_def split: if_splits)

lemma dom_cleanup:
  "dom (cleanup env fs ps) = dom fs - {p \<in> set ps. \<not> unlink_refused env p}"
  unfolding cleanup_def
  by (induction ps arbitrary: fs) (auto simp: dom_try_unlink)

lemma dom_multer_store: "dom (multer_store fs files) = dom fs \<union> file_path ` set files"
  unfolding multer_store_def
  by (induction files arbitrary: fs) auto

lemma multer_scan_accepts:
  "length files \<le> n \<Longrightarrow> \<forall>f \<in> set files. length (file_bytes f) \<le> fileSize
   \<Longrightarrow> multer_scan n files = (files, None)"
  by (induction files arbitrary: n) auto

lemma combine_request_accepted:
  assumes "length files \<le> 10" and "\<forall>f \<in> set files. length (file_bytes f) \<le> fileSize"
  shows "combine_request env fs0 files = combine_handler env (multer_store fs0 files) (Some files)"
  using multer_scan_accepts[OF assms] by (simp add: combine_request_def)

lemma dom_run_ffmpeg:
  "dom (run_ffmpeg env fs)
   = dom fs \<union> (case ffmpeg_written env of None \<Rightarrow> {} | Some b \<Rightarrow> {outputPath env})"
  by (auto simp: run_ffmpeg_def split: option.splits)

lemma pipeline_final_dom:
  assumes "combine_pipeline env fs tf = (fs', r)"
  shows "dom (case r of Inr res \<Rightarrow> fs' | Inl msg \<Rightarrow> cleanup env fs' tf)
         = dom (run_ffmpeg env fs) - {p \<in> set tf. \<not> unlink_refused env p}"
proof (cases "ffmpeg_run env")
  case ExecOk
  show ?thesis
  proof (cases "existsSync (run_ffmpeg env fs) (outputPath env)")
    case True
    with ExecOk assms obtain res where "r = Inr res" "fs' = cleanup env (run_ffmpeg env fs) tf"
      by (auto simp: combine_pipeline_def Let_def)
    then show ?thesis by (simp add: dom_cleanup)
  next
    case False
    with ExecOk assms obtain msg where "r = Inl msg" "fs' = run_ffmpeg env fs"
      by (auto simp: combine_pipeline_def Let_def)
    then show ?thesis by (simp add: dom_cleanup)
  qed
next
  case (ExecFail m)
  with assms obtain msg where "r = Inl msg" "fs' = run_ffmpeg env fs"
    by (auto simp: combine_pipeline_def Let_def)
  then show ?thesis by (simp add: dom_cleanup)
qed

lemma combine_handler_dom:
  assumes "2 \<le> length files" and "ffmpeg_version env = ExecOk"
    and "\<And>p. \<not> unlink_refused env p"
  shows "dom (fst (combine_handler env fs (Some files)))
         = dom fs - file_path ` set files - {outputPath env}"
proof -
  obtain fs' r where p: "combine_pipeline env fs (map file_path files @ [outputPath env]) = (fs', r)"
    by (cases "combine_pipeline env fs (map file_path files @ [outputPath env])")
  have "fst (combine_handler env fs (Some files))
        = (case r of Inr res \<Rightarrow> fs' | Inl msg \<Rightarrow> cleanup env fs' (map file_path files @ [outputPath env]))"
    using assms p by (simp add: combine_handler_def split: sum.splits)
  then show ?thesis
    using pipeline_final_dom[OF p] assms(3) by (auto simp: dom_run_ffmpeg split: option.splits)
qed

text \<open>
  With two to ten uploads within the size limit, stored under fresh names, an
  output name that is not in use and a system that removes every file it is
  asked to, every exit path leaves the temp directory with the files it had
  before the attempt.
\<close>

lemma combine_two_or_more_restores:
  assumes "2 \<le> length files" and "length files \<le> 10"
    and "\<forall>f \<in> set files. length (file_bytes f) \<le> fileSize"
    and "file_path ` set files \<inter> dom fs0 = {}"
    and "outputPath env \<notin> dom fs0"
    and "\<And>p. \<not> unlink_refused env p"
  shows "dom (fst (combine_request env fs0 files)) = dom fs0"
proof (cases "ffmpeg_version env")
  case ExecOk
  with assms show ?thesis
    by (auto simp: combine_request_accepted combine_handler_dom dom_multer_store)
next
  case (ExecFail m)
  with assms show ?thesis
    by (auto simp: combine_request_accepted combine_handler_def dom_cleanup dom_multer_store)
qed

text \<open>
  C8. When the encoder cannot be invoked, a combine request with two to ten
  uploaded files, each within the size limit of the upload, is answered with
  status 503 and a JSON body that has an \<open>error\<close> and a \<open>suggestion\<close> field.
  Before the response is sent the removal of every uploaded file has been
  attempted: an upload is left in the temp directory exactly when the system
  refused to remove it, and the refusal changes nothing in the response.
\<close>

theorem combine_encoder_unavailable:
  assumes "ffmpeg_version env = ExecFail m"
    and "2 \<le> length files" and "length files \<le> 10"
    and "\<forall>f \<in> set files. length (file_bytes f) \<le> fileSize"
  shows "res_status (snd (combine_request env fs0 files)) = 503
       \<and> json_has_field (res_body (snd (combine_request env fs0 files))) ''error''
       \<and> json_has_field (res_body (snd (combine_request env fs0 files))) ''suggestion''
       \<and> (\<forall>f \<in> set files. existsSync (fst (combine_request env fs0 files)) (file_path f)
                            = unlink_refused env (file_path f))"
  using assms(1,2)
  by (auto simp: combine_request_accepted[OF assms(3,4)] combine_handler_def json_response_def
      json_has_field_def existsSync_def dom_cleanup dom_multer_store)

theorem combine_encoder_unavailable_witness:
  "ffmpeg_version locked_env = ExecFail ''not found''
   \<and> 2 \<le> length two_uploads \<and> length two_uploads \<le> 10
   \<and> length (file_bytes (two_uploads ! 0)) \<le> fileSize
   \<and> length (file_bytes (two_uploads ! 1)) \<le> fileSize
   \<and> unlink_refused locked_env ''/tmp/upload-a''
   \<and> \<not> unlink_refused locked_env ''/tmp/upload-b''
   \<and> res_status (snd (combine_request locked_env Map.empty two_uploads)) = 503
   \<and> json_has_field (res_body (snd (combine_request locked_env Map.empty two_uploads))) ''error''
   \<and> json_has_field (res_body (snd (combine_request locked_env Map.empty two_uploads))) ''suggestion''
   \<and> existsSync (fst (combine_request locked_env Map.empty two_uploads)) ''/tmp/upload-a''
   \<and> \<not> existsSync (fst (combine_request locked_env Map.empty two_uploads)) ''/tmp/upload-b''"
proof -
  have h1: "ffmpeg_version locked_env = ExecFail ''not found''"
    by (simp add: locked_env_def sample_combine_env_def)
  have h2: "2 \<le> length two_uploads" and h3: "length two_uploads \<le> 10"
    by (simp_all add: two_uploads_def)
  have h4: "\<forall>f \<in> set two_uploads. length (file_bytes f) \<le> fileSize"
    by (simp add: two_uploads_def fileSize_def)
  have r: "unlink_refused locked_env ''/tmp/upload-a''" "\<not> unlink_refused locked_env ''/tmp/upload-b''"
    by (simp_all add: locked_env_def)
  show ?thesis
    using combine_encoder_unavailable [OF h1 h2 h3 h4, of Map.empty] h1 h2 h3 r
    by (simp add: two_uploads_def fileSize_def)
qed

text \<open>
  The same request with eleven uploads is answered by the upload middleware,
  with status 500; and an upload the system refuses to remove is still in the
  temp directory when the 503 is sent.
\<close>

theorem combine_unavailable_beyond_upload_limit:
  "length eleven_uploads = 11
   \<and> ffmpeg_version (sample_combine_env (ExecFail ''not found'')) = ExecFail ''not found''
   \<and> res_status (snd (combine_request (sample_combine_env (ExecFail ''not found'')) Map.empty
                        eleven_uploads)) = 500
   \<and> res_body (snd (combine_request (sample_combine_env (ExecFail ''not found'')) Map.empty
                      eleven_uploads)) = ErrorPage ''LIMIT_UNEXPECTED_FILE''
   \<and> res_status (snd (combine_request locked_env Map.empty two_uploads)) = 503
   \<and> existsSync (fst (combine_request locked_env Map.empty two_uploads)) ''/tmp/upload-a''"
  by (simp add: eleven_uploads_def combine_request_def fileSize_def sample_combine_env_def
      locked_env_def two_uploads_def combine_handler_def json_response_def existsSync_def
      cleanup_def try_unlink_def unlinkSync_def multer_store_def)

text \<open>
  C1. Every combine attempt is to leave the temp directory with as many
  files as it had before. It does not when a single file is uploaded: the
  request is rejected with status 400 before anything is deleted, the upload
  stays behind, and the directory, empty before, holds one file afterwards.
\<close>

theorem combine_single_upload_left_behind:
  "file_count Map.empty = 0
   \<and> file_count (fst (combine_request (sample_combine_env ExecOk) Map.empty one_upload)) = 1
   \<and> existsSync (fst (combine_request (sample_combine_env ExecOk) Map.empty one_upload)) ''/tmp/upload-a''
   \<and> res_status (snd (combine_request (sample_combine_env ExecOk) Map.empty one_upload)) = 400"
  by (simp add: file_count_def combine_request_def combine_handler_def multer_store_def
      one_upload_def json_response_def existsSync_def fileSize_def)

section \<open>Properties of the dispatcher\<close>

subsection \<open>The calls of each step\<close>

lemma lookup_registration_events:
  "e \<in> set (fst (lookup_registration env uid)) \<Longrightarrow> captcha_event e"
  by (auto simp: lookup_registration_def split: option.splits ultra_result.splits)

lemma choose_api_key_events:
  "e \<in> set (fst (choose_api_key env personal reg)) \<Longrightarrow> captcha_event e"
  by (auto simp: choose_api_key_def Let_def split: option.splits master_result.splits if_splits)

lemma solve_events: "e \<in> set (fst (solve env k pid)) \<Longrightarrow> captcha_event e"
  by (auto simp: solve_def)

lemma status_update_events: "e \<in> set (status_update cb s) \<Longrightarrow> captcha_event e"
  by (auto simp: status_update_def split: if_splits)

lemma getPersonalRecaptchaToken_events:
  "e \<in> set (fst (getPersonalRecaptchaToken env stored pid cb)) \<Longrightarrow> captcha_event e"
  by (auto simp: getPersonalRecaptchaToken_def Let_def solve_def status_update_def
      split: option.splits if_splits prod.splits)

lemma getRecaptchaToken_events:
  assumes "e \<in> set (fst (getRecaptchaToken env stored pid cb))"
  shows "captcha_event e"
proof (cases "getCurrentUserInternal stored")
  case None
  with assms show ?thesis by (simp add: getRecaptchaToken_def)
next
  case (Some cu)
  obtain ev1 reg where l: "lookup_registration env (user_id cu) = (ev1, reg)"
    by (cases "lookup_registration env (user_id cu)")
  have e1: "\<And>x. x \<in> set ev1 \<Longrightarrow> captcha_event x"
    using lookup_registration_events[of _ env "user_id cu"] l by simp
  show ?thesis
  proof (cases reg)
    case None
    with assms Some l e1 show ?thesis by (simp add: getRecaptchaToken_def)
  next
    case (Some r)
    obtain ev2 key where c: "choose_api_key env (js_or_default (recaptchaToken cu) []) r = (ev2, key)"
      by (cases "choose_api_key env (js_or_default (recaptchaToken cu) []) r")
    have e2: "\<And>x. x \<in> set ev2 \<Longrightarrow> captcha_event x"
      using choose_api_key_events[of _ env "js_or_default (recaptchaToken cu) []" r] c by simp
    from assms \<open>getCurrentUserInternal stored = Some cu\<close> l Some c e1 e2 show ?thesis
      by (auto simp: getRecaptchaToken_def Let_def solve_def status_update_def
          split: option.splits if_splits)
  qed
qed

lemma captcha_phase_events:
  "e \<in> set (fst (captcha_phase args env)) \<Longrightarrow> captcha_event e"
  by (auto simp: captcha_phase_def Let_def split_beta split: if_splits
      dest: getPersonalRecaptchaToken_events getRecaptchaToken_events)

lemma slot_phase_slots:
  "filter is_slot (slot_phase args env url)
   = (if isGenerationRequest args then [RequestSlot 10 url] else [])"
  by (simp add: slot_phase_def status_update_def)

lemma getFreshPersonalTokenFromDB_events:
  "e \<in> set (fst (getFreshPersonalTokenFromDB env stored)) \<Longrightarrow> is_query e \<or> e = AwaitDone"
  by (auto simp: getFreshPersonalTokenFromDB_def split: option.splits db_result.splits if_splits)

lemma resolve_token_events:
  "e \<in> set (fst (resolve_token args env stored)) \<Longrightarrow> is_query e \<or> e = AwaitDone"
  using getFreshPersonalTokenFromDB_events[of e env stored]
  by (auto simp: resolve_token_def Let_def split: option.splits if_splits prod.splits)

lemma record_usage_events:
  "e \<in> set (fst (record_usage args env cu url)) \<Longrightarrow> is_usage e"
  by (auto simp: record_usage_def split: option.splits if_splits)

lemma execute_events:
  "fst (execute args env url body cu tok lab)
   = Fetch (endpoint args env url) tok
       (js_or_default (case cu of None \<Rightarrow> None | Some u \<Rightarrow> username u) ''unknown'') body
     # filter (\<lambda>e. \<not> is_fetch e) (fst (execute args env url body cu tok lab))"
  by (auto simp: execute_def Let_def on_error_def split: fetch_outcome.splits sum.splits)

text \<open>The trace of a dispatch, step by step.\<close>

lemma trace_steps:
  "trace (executeProxiedRequest args env)
   = fst (captcha_phase args env)
     @ slot_phase args env (currentServerUrl args env)
     @ fst (resolve_token args env (currentUser env))
     @ (case snd (snd (resolve_token args env (currentUser env))) of
          None \<Rightarrow> []
        | Some (tok, lab) \<Rightarrow>
            fst (record_usage args env
                   (getCurrentUserInternal (fst (snd (resolve_token args env (currentUser env)))))
                   (currentServerUrl args env))
            @ fst (execute args env (currentServerUrl args env) (snd (snd (captcha_phase args env)))
                     (getCurrentUserInternal (fst (snd (resolve_token args env (currentUser env)))))
                     tok lab))"
  by (simp add: executeProxiedRequest_def Let_def split: prod.splits option.splits)

lemma filter_none: "(\<And>e. e \<in> set es \<Longrightarrow> \<not> P e) \<Longrightarrow> filter P es = []"
  by (induction es) auto

subsection \<open>Slot reservation\<close>

lemma captcha_event_kind:
  "captcha_event e \<Longrightarrow> \<not> is_slot e \<and> \<not> is_fetch e \<and> \<not> is_usage e \<and> \<not> is_query e"
  by (cases e) simp_all

lemma query_kind:
  "is_query e \<or> e = AwaitDone
   \<Longrightarrow> \<not> is_slot e \<and> \<not> is_fetch e \<and> \<not> is_usage e \<and> \<not> is_solve e"
  by (cases e) simp_all

lemma usage_kind:
  "is_usage e \<Longrightarrow> \<not> is_slot e \<and> \<not> is_fetch e \<and> \<not> is_query e \<and> \<not> is_solve e"
  by (cases e) simp_all

lemma status_update_no_slot: "filter is_slot (status_update cb s) = []"
  by (simp add: status_update_def)

lemma slot_requests_trace:
  "slot_requests (trace (executeProxiedRequest args env))
   = (if isGenerationRequest args then [RequestSlot 10 (currentServerUrl args env)] else [])"
proof -
  have c: "filter is_slot (fst (captcha_phase args env)) = []"
    by (rule filter_none) (auto dest!: captcha_phase_events captcha_event_kind)
  have r: "filter is_slot (fst (resolve_token args env (currentUser env))) = []"
    by (rule filter_none) (auto dest!: resolve_token_events query_kind)
  have u: "\<And>cu. filter is_slot (fst (record_usage args env cu (currentServerUrl args env))) = []"
    by (rule filter_none) (auto dest!: record_usage_events usage_kind)
  have x: "\<And>body cu tok lab.
      filter is_slot (fst (execute args env (currentServerUrl args env) body cu tok lab)) = []"
    by (auto simp: execute_def Let_def on_error_def split: fetch_outcome.splits sum.splits)
  show ?thesis
    by (simp add: slot_requests_def trace_steps c r u x slot_phase_slots split: option.splits)
qed

lemma status_check_not_generation: "isStatusCheck args \<Longrightarrow> \<not> isGenerationRequest args"
  by (simp add: isStatusCheck_def isGenerationRequest_def)

text \<open>
  C2, as the code has it. The reservation is requested once when the log
  context contains GENERATE, RECIPE, UPLOAD or HEALTH CHECK, and not at all
  otherwise. So it is never requested for a status poll, and it is requested
  for an upload.
\<close>

theorem slot_reserved_iff_generation_class:
  "slot_requests (trace (executeProxiedRequest args env))
     = (if isGenerationRequest args then [RequestSlot 10 (currentServerUrl args env)] else [])
   \<and> (isStatusCheck args \<longrightarrow> slot_requests (trace (executeProxiedRequest args env)) = [])
   \<and> (includes_str (logContext args) ''UPLOAD'' \<longrightarrow>
        slot_requests (trace (executeProxiedRequest args env))
          = [RequestSlot 10 (currentServerUrl args env)])"
  using status_check_not_generation[of args]
  by (auto simp: slot_requests_trace isGenerationRequest_def)

theorem slot_reserved_iff_generation_class_witness:
  "isStatusCheck (sample_args Veo ''VEO STATUS'' (sample_body None))
   \<and> slot_requests (trace (executeProxiedRequest (sample_args Veo ''VEO STATUS'' (sample_body None))
        (sample_env (Some sample_user) (FetchResponse (sample_response 200 []))))) = []
   \<and> includes_str (logContext (sample_args Imagen ''IMAGEN UPLOAD'' (sample_body None))) ''UPLOAD''
   \<and> slot_requests (trace (executeProxiedRequest (sample_args Imagen ''IMAGEN UPLOAD'' (sample_body None))
        (sample_env (Some sample_user) (FetchResponse (sample_response 200 [])))))
      = [RequestSlot 10 ''https://s1.monoklix.com'']"
proof -
  have h1: "isStatusCheck (sample_args Veo ''VEO STATUS'' (sample_body None))"
    by (simp add: isStatusCheck_def sample_args_def)
  have h2: "includes_str (logContext (sample_args Imagen ''IMAGEN UPLOAD'' (sample_body None))) ''UPLOAD''"
    by (simp add: sample_args_def)
  have u: "currentServerUrl (sample_args Imagen ''IMAGEN UPLOAD'' (sample_body None))
             (sample_env (Some sample_user) (FetchResponse (sample_response 200 [])))
           = ''https://s1.monoklix.com''"
    by (simp add: currentServerUrl_def getImagenProxyUrl_def select_proxy_def sample_args_def
        sample_env_def truthy_opt_def)
  have a: "slot_requests (trace (executeProxiedRequest (sample_args Veo ''VEO STATUS'' (sample_body None))
        (sample_env (Some sample_user) (FetchResponse (sample_response 200 []))))) = []"
    using h1 slot_reserved_iff_generation_class
        [of "sample_args Veo ''VEO STATUS'' (sample_body None)"
            "sample_env (Some sample_user) (FetchResponse (sample_response 200 []))"]
    by blast
  have b: "slot_requests (trace (executeProxiedRequest (sample_args Imagen ''IMAGEN UPLOAD'' (sample_body None))
        (sample_env (Some sample_user) (FetchResponse (sample_response 200 [])))))
      = [RequestSlot 10 (currentServerUrl (sample_args Imagen ''IMAGEN UPLOAD'' (sample_body None))
             (sample_env (Some sample_user) (FetchResponse (sample_response 200 []))))]"
    using h2 slot_reserved_iff_generation_class
        [of "sample_args Imagen ''IMAGEN UPLOAD'' (sample_body None)"
            "sample_env (Some sample_user) (FetchResponse (sample_response 200 []))"]
    by blast
  show ?thesis
    using h1 h2 a b by (simp only: u simp_thms)
qed

text \<open>
  C2 as stated fails for an upload: the upload request of the image service,
  which needs no captcha, still makes the reservation call.
\<close>

theorem upload_reserves_slot:
  "\<not> needsRecaptcha (sample_args Imagen ''IMAGEN UPLOAD'' (sample_body None))
   \<and> slot_requests (trace (executeProxiedRequest (sample_args Imagen ''IMAGEN UPLOAD'' (sample_body None))
        (sample_env (Some sample_user) (FetchResponse (sample_response 200 [])))))
      = [RequestSlot 10 ''https://s1.monoklix.com'']"
  by (simp add: slot_requests_trace isGenerationRequest_def needsRecaptcha_def sample_args_def
      currentServerUrl_def getImagenProxyUrl_def select_proxy_def sample_env_def truthy_opt_def)

subsection \<open>Credential resolution\<close>

lemma bearer_tokens_append [simp]: "bearer_tokens (xs @ ys) = bearer_tokens xs @ bearer_tokens ys"
  by (simp add: bearer_tokens_def)

lemma sent_bodies_append [simp]: "sent_bodies (xs @ ys) = sent_bodies xs @ sent_bodies ys"
  by (simp add: sent_bodies_def)

lemma bearer_tokens_Nil [simp]: "bearer_tokens [] = []"
  by (simp add: bearer_tokens_def)

lemma sent_bodies_Nil [simp]: "sent_bodies [] = []"
  by (simp add: sent_bodies_def)

lemma no_fetch_no_token: "(\<And>e. e \<in> set es \<Longrightarrow> \<not> is_fetch e) \<Longrightarrow> bearer_tokens es = []"
proof (induction es)
  case Nil
  show ?case by (simp add: bearer_tokens_def)
next
  case (Cons e es)
  from Cons.prems[of e] have "\<not> is_fetch e" by simp
  then have "bearer_tokens [e] = []" by (cases e) (simp_all add: bearer_tokens_def)
  moreover have "bearer_tokens es = []" using Cons by simp
  ultimately show ?case using bearer_tokens_append[of "[e]" es] by simp
qed

lemma no_fetch_no_body: "(\<And>e. e \<in> set es \<Longrightarrow> \<not> is_fetch e) \<Longrightarrow> sent_bodies es = []"
proof (induction es)
  case Nil
  show ?case by (simp add: sent_bodies_def)
next
  case (Cons e es)
  from Cons.prems[of e] have "\<not> is_fetch e" by simp
  then have "sent_bodies [e] = []" by (cases e) (simp_all add: sent_bodies_def)
  moreover have "sent_bodies es = []" using Cons by simp
  ultimately show ?case using sent_bodies_append[of "[e]" es] by simp
qed

lemma slot_phase_no_fetch: "e \<in> set (slot_phase args env url) \<Longrightarrow> \<not> is_fetch e"
  by (auto simp: slot_phase_def status_update_def split: if_splits)

lemma execute_tokens: "bearer_tokens (fst (execute args env url body cu tok lab)) = [tok]"
  by (auto simp: execute_def Let_def on_error_def bearer_tokens_def
      split: fetch_outcome.splits sum.splits)

lemma execute_bodies: "sent_bodies (fst (execute args env url body cu tok lab)) = [body]"
  by (auto simp: execute_def Let_def on_error_def sent_bodies_def
      split: fetch_outcome.splits sum.splits)

lemma execute_fetches: "length (fetches (fst (execute args env url body cu tok lab))) = 1"
  by (auto simp: execute_def Let_def on_error_def fetches_def
      split: fetch_outcome.splits sum.splits)

text \<open>The bearer tokens of a dispatch: that of the resolved credential, if there is one.\<close>

lemma bearer_tokens_trace:
  "bearer_tokens (trace (executeProxiedRequest args env))
   = (case snd (snd (resolve_token args env (currentUser env))) of
        None \<Rightarrow> []
      | Some (tok, lab) \<Rightarrow> [tok])"
proof -
  have c: "bearer_tokens (fst (captcha_phase args env)) = []"
    by (rule no_fetch_no_token) (auto dest!: captcha_phase_events captcha_event_kind)
  have s: "bearer_tokens (slot_phase args env (currentServerUrl args env)) = []"
    by (rule no_fetch_no_token) (auto dest!: slot_phase_no_fetch)
  have r: "bearer_tokens (fst (resolve_token args env (currentUser env))) = []"
    by (rule no_fetch_no_token) (auto dest!: resolve_token_events query_kind)
  have u: "\<And>cu. bearer_tokens (fst (record_usage args env cu (currentServerUrl args env))) = []"
    by (rule no_fetch_no_token) (auto dest!: record_usage_events usage_kind)
  show ?thesis
    by (simp add: trace_steps c s r u execute_tokens split: option.splits)
qed

lemma fetches_trace:
  "fetches (trace (executeProxiedRequest args env))
   = (case snd (snd (resolve_token args env (currentUser env))) of
        None \<Rightarrow> []
      | Some (tok, lab) \<Rightarrow>
          fetches (fst (execute args env (currentServerUrl args env) (snd (snd (captcha_phase args env)))
                     (getCurrentUserInternal (fst (snd (resolve_token args env (currentUser env)))))
                     tok lab)))"
proof -
  have c: "filter is_fetch (fst (captcha_phase args env)) = []"
    by (rule filter_none) (auto dest!: captcha_phase_events captcha_event_kind)
  have s: "filter is_fetch (slot_phase args env (currentServerUrl args env)) = []"
    by (rule filter_none) (auto dest!: slot_phase_no_fetch)
  have r: "filter is_fetch (fst (resolve_token args env (currentUser env))) = []"
    by (rule filter_none) (auto dest!: resolve_token_events query_kind)
  have u: "\<And>cu. filter is_fetch (fst (record_usage args env cu (currentServerUrl args env))) = []"
    by (rule filter_none) (auto dest!: record_usage_events usage_kind)
  show ?thesis
    by (simp add: fetches_def trace_steps c s r u split: option.splits)
qed

lemma token_queries_trace:
  "token_queries (trace (executeProxiedRequest args env))
   = filter is_query (fst (resolve_token args env (currentUser env)))"
proof -
  have c: "filter is_query (fst (captcha_phase args env)) = []"
    by (rule filter_none) (auto dest!: captcha_phase_events captcha_event_kind)
  have s: "filter is_query (slot_phase args env (currentServerUrl args env)) = []"
    by (auto simp: slot_phase_def status_update_def)
  have u: "\<And>cu. filter is_query (fst (record_usage args env cu (currentServerUrl args env))) = []"
    by (rule filter_none) (auto dest!: record_usage_events usage_kind)
  have x: "\<And>body cu tok lab.
      filter is_query (fst (execute args env (currentServerUrl args env) body cu tok lab)) = []"
    by (auto simp: execute_def Let_def on_error_def split: fetch_outcome.splits sum.splits)
  show ?thesis
    by (simp add: token_queries_def trace_steps c s u x split: option.splits)
qed

lemma result_steps:
  "result (executeProxiedRequest args env)
   = (case snd (snd (resolve_token args env (currentUser env))) of
        None \<Rightarrow> Inl auth_failed
      | Some (tok, lab) \<Rightarrow>
          snd (execute args env (currentServerUrl args env) (snd (snd (captcha_phase args env)))
                 (getCurrentUserInternal (fst (snd (resolve_token args env (currentUser env)))))
                 tok lab))"
  by (simp add: executeProxiedRequest_def Let_def split: prod.splits option.splits)

lemma fresh_token_truthy:
  "snd (snd (getFreshPersonalTokenFromDB env stored)) = Some t \<Longrightarrow> truthy_opt (Some t)"
  by (auto simp: getFreshPersonalTokenFromDB_def split: option.splits db_result.splits if_splits)

lemma resolve_specific:
  "truthy_opt (specificToken args) \<Longrightarrow>
   resolve_token args env stored = ([], stored, Some (the (specificToken args), Specific))"
  by (simp add: resolve_token_def)

lemma resolve_local:
  "\<not> truthy_opt (specificToken args) \<Longrightarrow> getPersonalTokenLocal stored = Some t \<Longrightarrow>
   resolve_token args env stored = ([], stored, Some (t, Personal))"
  by (simp add: resolve_token_def)

lemma resolve_fresh:
  "\<not> truthy_opt (specificToken args) \<Longrightarrow> getPersonalTokenLocal stored = None \<Longrightarrow>
   snd (snd (resolve_token args env stored))
   = (case snd (snd (getFreshPersonalTokenFromDB env stored)) of
        None \<Rightarrow> None
      | Some t \<Rightarrow> Some (t, Personal))"
  using fresh_token_truthy[of env stored]
  by (auto simp: resolve_token_def Let_def split_beta truthy_opt_def split: option.splits)

text \<open>
  C4. The credential of the outbound call is the explicit token when one is
  given; else the personal token of the stored user; else the token the profile
  store returns. The profile store is not queried in the first two cases. When
  all three yield nothing the dispatch fails with the authentication error and
  no outbound call is made.
\<close>

theorem credential_resolution_order:
  "(truthy_opt (specificToken args) \<longrightarrow>
      bearer_tokens (trace (executeProxiedRequest args env)) = [the (specificToken args)]
      \<and> token_queries (trace (executeProxiedRequest args env)) = [])
   \<and> (\<not> truthy_opt (specificToken args) \<and> getPersonalTokenLocal (currentUser env) = Some t \<longrightarrow>
      bearer_tokens (trace (executeProxiedRequest args env)) = [t]
      \<and> token_queries (trace (executeProxiedRequest args env)) = [])
   \<and> (\<not> truthy_opt (specificToken args) \<and> getPersonalTokenLocal (currentUser env) = None
       \<and> snd (snd (getFreshPersonalTokenFromDB env (currentUser env))) = Some t \<longrightarrow>
      bearer_tokens (trace (executeProxiedRequest args env)) = [t])
   \<and> (\<not> truthy_opt (specificToken args) \<and> getPersonalTokenLocal (currentUser env) = None
       \<and> snd (snd (getFreshPersonalTokenFromDB env (currentUser env))) = None \<longrightarrow>
      result (executeProxiedRequest args env) = Inl auth_failed
      \<and> fetches (trace (executeProxiedRequest args env)) = [])"
proof (intro conjI impI)
  assume "truthy_opt (specificToken args)"
  then show "bearer_tokens (trace (executeProxiedRequest args env)) = [the (specificToken args)]"
    and "token_queries (trace (executeProxiedRequest args env)) = []"
    by (simp_all add: bearer_tokens_trace token_queries_trace resolve_specific)
next
  assume "\<not> truthy_opt (specificToken args) \<and> getPersonalTokenLocal (currentUser env) = Some t"
  then show "bearer_tokens (trace (executeProxiedRequest args env)) = [t]"
    and "token_queries (trace (executeProxiedRequest args env)) = []"
    by (simp_all add: bearer_tokens_trace token_queries_trace resolve_local)
next
  assume "\<not> truthy_opt (specificToken args) \<and> getPersonalTokenLocal (currentUser env) = None
          \<and> snd (snd (getFreshPersonalTokenFromDB env (currentUser env))) = Some t"
  then show "bearer_tokens (trace (executeProxiedRequest args env)) = [t]"
    by (simp add: bearer_tokens_trace resolve_fresh)
next
  assume "\<not> truthy_opt (specificToken args) \<and> getPersonalTokenLocal (currentUser env) = None
          \<and> snd (snd (getFreshPersonalTokenFromDB env (currentUser env))) = None"
  then show "result (executeProxiedRequest args env) = Inl auth_failed"
    and "fetches (trace (executeProxiedRequest args env)) = []"
    by (simp_all add: result_steps fetches_trace resolve_fresh)
qed

theorem credential_resolution_order_witness:
  "truthy_opt (specificToken explicit_args)
   \<and> bearer_tokens (trace (executeProxiedRequest explicit_args (ok_env (Some sample_user))))
       = [''tok-explicit'']
   \<and> token_queries (trace (executeProxiedRequest explicit_args (ok_env (Some sample_user)))) = []
   \<and> \<not> truthy_opt (specificToken plain_args)
   \<and> getPersonalTokenLocal (currentUser (ok_env (Some sample_user))) = Some ''tok-local''
   \<and> bearer_tokens (trace (executeProxiedRequest plain_args (ok_env (Some sample_user))))
       = [''tok-local'']
   \<and> token_queries (trace (executeProxiedRequest plain_args (ok_env (Some sample_user)))) = []
   \<and> getPersonalTokenLocal (currentUser db_env) = None
   \<and> snd (snd (getFreshPersonalTokenFromDB db_env (currentUser db_env))) = Some ''tok-db''
   \<and> bearer_tokens (trace (executeProxiedRequest plain_args db_env)) = [''tok-db'']
   \<and> getPersonalTokenLocal (currentUser (ok_env (Some no_token_user))) = None
   \<and> snd (snd (getFreshPersonalTokenFromDB (ok_env (Some no_token_user))
                  (currentUser (ok_env (Some no_token_user))))) = None
   \<and> result (executeProxiedRequest plain_args (ok_env (Some no_token_user))) = Inl auth_failed
   \<and> fetches (trace (executeProxiedRequest plain_args (ok_env (Some no_token_user)))) = []"
proof -
  have e: "truthy_opt (specificToken explicit_args)"
    by (simp add: explicit_args_def truthy_opt_def truthy_def)
  have p: "\<not> truthy_opt (specificToken plain_args)"
    by (simp add: plain_args_def sample_args_def truthy_opt_def)
  have l: "getPersonalTokenLocal (currentUser (ok_env (Some sample_user))) = Some ''tok-local''"
    by (simp add: ok_env_def sample_env_def sample_user_def getPersonalTokenLocal_def trim_def
        is_space_def)
  have n1: "getPersonalTokenLocal (currentUser db_env) = None"
    by (simp add: db_env_def ok_env_def sample_env_def no_token_user_def getPersonalTokenLocal_def)
  have d1: "snd (snd (getFreshPersonalTokenFromDB db_env (currentUser db_env))) = Some ''tok-db''"
    by (simp add: db_env_def ok_env_def sample_env_def no_token_user_def sample_user_def
        getFreshPersonalTokenFromDB_def truthy_opt_def truthy_def)
  have n2: "getPersonalTokenLocal (currentUser (ok_env (Some no_token_user))) = None"
    by (simp add: ok_env_def sample_env_def no_token_user_def getPersonalTokenLocal_def)
  have d2: "snd (snd (getFreshPersonalTokenFromDB (ok_env (Some no_token_user))
                        (currentUser (ok_env (Some no_token_user))))) = None"
    by (simp add: ok_env_def sample_env_def no_token_user_def sample_user_def
        getFreshPersonalTokenFromDB_def truthy_opt_def truthy_def)
  have a: "bearer_tokens (trace (executeProxiedRequest explicit_args (ok_env (Some sample_user))))
             = [the (specificToken explicit_args)]
           \<and> token_queries (trace (executeProxiedRequest explicit_args (ok_env (Some sample_user)))) = []"
    using e credential_resolution_order[of explicit_args "ok_env (Some sample_user)"] by blast
  have b: "bearer_tokens (trace (executeProxiedRequest plain_args (ok_env (Some sample_user))))
             = [''tok-local'']
           \<and> token_queries (trace (executeProxiedRequest plain_args (ok_env (Some sample_user)))) = []"
    using p l credential_resolution_order[of plain_args "ok_env (Some sample_user)" "''tok-local''"]
    by blast
  have c: "bearer_tokens (trace (executeProxiedRequest plain_args db_env)) = [''tok-db'']"
    using p n1 d1 credential_resolution_order[of plain_args db_env "''tok-db''"] by blast
  have d: "result (executeProxiedRequest plain_args (ok_env (Some no_token_user))) = Inl auth_failed
           \<and> fetches (trace (executeProxiedRequest plain_args (ok_env (Some no_token_user)))) = []"
    using p n2 d2 credential_resolution_order[of plain_args "ok_env (Some no_token_user)"] by blast
  have t: "the (specificToken explicit_args) = ''tok-explicit''"
    by (simp add: explicit_args_def)
  show ?thesis
    using e p l n1 d1 n2 d2 a b c d by (simp only: t simp_thms)
qed

subsection \<open>Usage record\<close>

lemma execute_no_usage: "filter is_usage (fst (execute args env url body cu tok lab)) = []"
  by (auto simp: execute_def Let_def on_error_def split: fetch_outcome.splits sum.splits)

lemma execute_no_usage_mem:
  "e \<in> set (fst (execute args env url body cu tok lab)) \<Longrightarrow> \<not> is_usage e"
  by (auto simp: execute_def Let_def on_error_def split: fetch_outcome.splits sum.splits if_splits)

lemma execute_fetch_list:
  "fetches (fst (execute args env url body cu tok lab))
   = [Fetch (endpoint args env url) tok
        (js_or_default (case cu of None \<Rightarrow> None | Some u \<Rightarrow> username u) ''unknown'') body]"
  by (auto simp: execute_def Let_def on_error_def fetches_def
      split: fetch_outcome.splits sum.splits)

lemma execute_head:
  "take (Suc 0) (fst (execute args env url body cu tok lab))
   = [Fetch (endpoint args env url) tok
        (js_or_default (case cu of None \<Rightarrow> None | Some u \<Rightarrow> username u) ''unknown'') body]"
  by (auto simp: execute_def Let_def split: fetch_outcome.splits sum.splits)

lemma record_usage_all_usage:
  "filter is_usage (fst (record_usage args env cu url)) = fst (record_usage args env cu url)"
  by (auto simp: filter_id_conv dest: record_usage_events)

lemma usage_records_trace:
  "usage_records (trace (executeProxiedRequest args env))
   = (case snd (snd (resolve_token args env (currentUser env))) of
        None \<Rightarrow> []
      | Some c \<Rightarrow>
          fst (record_usage args env
                 (getCurrentUserInternal (fst (snd (resolve_token args env (currentUser env)))))
                 (currentServerUrl args env)))"
proof -
  have c: "filter is_usage (fst (captcha_phase args env)) = []"
    by (rule filter_none) (auto dest!: captcha_phase_events captcha_event_kind)
  have s: "filter is_usage (slot_phase args env (currentServerUrl args env)) = []"
    by (auto simp: slot_phase_def status_update_def)
  have r: "filter is_usage (fst (resolve_token args env (currentUser env))) = []"
    by (rule filter_none) (auto dest!: resolve_token_events query_kind)
  show ?thesis
    by (simp add: usage_records_def trace_steps c s r execute_no_usage record_usage_all_usage
        split: option.splits)
qed

lemma usage_records_before_fetch:
  "usage_records (takeWhile (\<lambda>e. \<not> is_fetch e) (trace (executeProxiedRequest args env)))
   = usage_records (trace (executeProxiedRequest args env))"
proof -
  let ?url = "currentServerUrl args env"
  let ?before = "fst (captcha_phase args env) @ slot_phase args env ?url
                 @ fst (resolve_token args env (currentUser env))"
  have before: "\<And>e. e \<in> set ?before \<Longrightarrow> \<not> is_fetch e"
    by (auto dest!: captcha_phase_events captcha_event_kind slot_phase_no_fetch
        resolve_token_events query_kind)
  show ?thesis
  proof (cases "snd (snd (resolve_token args env (currentUser env)))")
    case None
    then have t: "trace (executeProxiedRequest args env) = ?before"
      by (simp add: trace_steps)
    have "takeWhile (\<lambda>e. \<not> is_fetch e) ?before = ?before"
      using before by (simp only: takeWhile_eq_all_conv) blast
    then show ?thesis by (simp only: t)
  next
    case (Some c)
    obtain tok lab where c: "c = (tok, lab)" by (cases c)
    let ?cu = "getCurrentUserInternal (fst (snd (resolve_token args env (currentUser env))))"
    let ?u = "fst (record_usage args env ?cu ?url)"
    let ?x = "fst (execute args env ?url (snd (snd (captcha_phase args env))) ?cu tok lab)"
    have t: "trace (executeProxiedRequest args env) = (?before @ ?u) @ ?x"
      using Some c by (simp add: trace_steps)
    have bu: "\<And>e. e \<in> set (?before @ ?u) \<Longrightarrow> \<not> is_fetch e"
      using before by (auto dest!: record_usage_events usage_kind)
    obtain rest where x: "?x = Fetch (endpoint args env ?url) tok
        (js_or_default (case ?cu of None \<Rightarrow> None | Some u \<Rightarrow> username u) ''unknown'')
        (snd (snd (captcha_phase args env))) # rest"
      using execute_events[of args env ?url "snd (snd (captcha_phase args env))" ?cu tok lab]
      by blast
    have "takeWhile (\<lambda>e. \<not> is_fetch e) ((?before @ ?u) @ ?x) = ?before @ ?u"
      using bu by (subst takeWhile_append2) (auto simp: x)
    then have "usage_records (takeWhile (\<lambda>e. \<not> is_fetch e) (trace (executeProxiedRequest args env)))
               = usage_records (?before @ ?u)"
      by (simp only: t)
    also have "\<dots> = usage_records ((?before @ ?u) @ ?x)"
      using execute_no_usage[of args env ?url "snd (snd (captcha_phase args env))" ?cu tok lab]
      by (simp add: usage_records_def)
    finally show ?thesis by (simp only: t)
  qed
qed

text \<open>What follows a call in a trace.\<close>

lemma followers_none: "(\<And>e. e \<in> set xs \<Longrightarrow> \<not> P e) \<Longrightarrow> followers P xs = []"
  by (induction xs) auto

lemma followers_append_none:
  "(\<And>e. e \<in> set xs \<Longrightarrow> \<not> P e) \<Longrightarrow> followers P (xs @ ys) = followers P ys"
  by (induction xs) auto

lemma record_usage_shape:
  "fst (record_usage args env cu url) = []
   \<or> (\<exists>uid. fst (record_usage args env cu url) = [RecordUsage uid url])"
  by (auto simp: record_usage_def split: option.splits)

text \<open>
  The step after the usage record is the outbound call: the dispatcher has
  not waited.
\<close>

lemma followers_usage_trace:
  "followers is_usage (trace (executeProxiedRequest args env))
   = (if usage_records (trace (executeProxiedRequest args env)) = [] then []
      else fetches (trace (executeProxiedRequest args env)))"
proof -
  let ?url = "currentServerUrl args env"
  let ?before = "fst (captcha_phase args env) @ slot_phase args env ?url
                 @ fst (resolve_token args env (currentUser env))"
  have before: "\<And>e. e \<in> set ?before \<Longrightarrow> \<not> is_usage e"
    by (auto simp: slot_phase_def status_update_def split: if_splits
        dest!: captcha_phase_events captcha_event_kind resolve_token_events query_kind)
  show ?thesis
  proof (cases "snd (snd (resolve_token args env (currentUser env)))")
    case None
    then have t: "trace (executeProxiedRequest args env) = ?before"
      by (simp add: trace_steps)
    have "followers is_usage ?before = []"
      by (rule followers_none) (use before in blast)
    moreover have "usage_records (trace (executeProxiedRequest args env)) = []"
      using None by (simp add: usage_records_trace)
    ultimately show ?thesis by (simp add: t)
  next
    case (Some c)
    obtain tok lab where c: "c = (tok, lab)" by (cases c)
    let ?cu = "getCurrentUserInternal (fst (snd (resolve_token args env (currentUser env))))"
    let ?u = "fst (record_usage args env ?cu ?url)"
    let ?x = "fst (execute args env ?url (snd (snd (captcha_phase args env))) ?cu tok lab)"
    have t: "trace (executeProxiedRequest args env) = ?before @ (?u @ ?x)"
      using Some c by (simp add: trace_steps)
    have f: "followers is_usage (trace (executeProxiedRequest args env)) = followers is_usage (?u @ ?x)"
      unfolding t by (rule followers_append_none) (use before in blast)
    have x0: "followers is_usage ?x = []"
      by (rule followers_none) (use execute_no_usage_mem in blast)
    have ur: "usage_records (trace (executeProxiedRequest args env)) = ?u"
      using Some by (simp add: usage_records_trace)
    have fe: "fetches (trace (executeProxiedRequest args env)) = take 1 ?x"
      using Some c by (simp add: fetches_trace execute_fetch_list execute_head)
    show ?thesis
    proof (cases "?u = []")
      case True
      then show ?thesis using f x0 ur by simp
    next
      case False
      then obtain uid where u: "?u = [RecordUsage uid ?url]"
        using record_usage_shape[of args env ?cu ?url] by blast
      have "followers is_usage (?u @ ?x) = take 1 ?x"
        using x0 by (simp add: u)
      then show ?thesis using f ur fe False by simp
    qed
  qed
qed

text \<open>
  The slot reservation, which is awaited, is followed by the dispatcher going
  on after the wait; a failed reservation shows in the trace itself.
\<close>

lemma execute_no_slot:
  "e \<in> set (fst (execute args env url body cu tok lab)) \<Longrightarrow> \<not> is_slot e"
  by (auto simp: execute_def Let_def on_error_def split: fetch_outcome.splits sum.splits if_splits)

lemma slot_phase_followers:
  "followers is_slot (slot_phase args env url @ ys)
   = (if isGenerationRequest args then [AwaitDone] else []) @ followers is_slot ys"
  by (simp add: slot_phase_def status_update_def)

lemma slot_request_awaited:
  "followers is_slot (trace (executeProxiedRequest args env))
   = (if isGenerationRequest args then [AwaitDone] else [])"
proof -
  let ?rest = "fst (resolve_token args env (currentUser env))
     @ (case snd (snd (resolve_token args env (currentUser env))) of
          None \<Rightarrow> []
        | Some (tok, lab) \<Rightarrow>
            fst (record_usage args env
                   (getCurrentUserInternal (fst (snd (resolve_token args env (currentUser env)))))
                   (currentServerUrl args env))
            @ fst (execute args env (currentServerUrl args env) (snd (snd (captcha_phase args env)))
                     (getCurrentUserInternal (fst (snd (resolve_token args env (currentUser env)))))
                     tok lab))"
  have c: "\<And>e. e \<in> set (fst (captcha_phase args env)) \<Longrightarrow> \<not> is_slot e"
    by (auto dest!: captcha_phase_events captcha_event_kind)
  have r: "\<And>e. e \<in> set ?rest \<Longrightarrow> \<not> is_slot e"
    by (auto split: option.splits
        dest!: resolve_token_events query_kind record_usage_events usage_kind execute_no_slot)
  have "followers is_slot (trace (executeProxiedRequest args env))
        = followers is_slot (slot_phase args env (currentServerUrl args env) @ ?rest)"
    unfolding trace_steps by (rule followers_append_none) (use c in blast)
  also have "\<dots> = (if isGenerationRequest args then [AwaitDone] else []) @ followers is_slot ?rest"
    by (rule slot_phase_followers)
  also have "followers is_slot ?rest = []"
    by (rule followers_none) (use r in blast)
  finally show ?thesis by simp
qed

lemma slot_failure_in_trace:
  "isGenerationRequest args \<Longrightarrow> slot_rpc_throws env
   \<Longrightarrow> Warn ''Slot request failed, proceeding anyway:'' \<in> set (trace (executeProxiedRequest args env))"
  by (simp add: trace_steps slot_phase_def)

text \<open>Which fields of the environment each step reads.\<close>

lemma captcha_phase_cong:
  assumes "currentUser e' = currentUser e" and "now e' = now e"
    and "solveCaptcha e' = solveCaptcha e" and "antiCaptchaProjectId e' = antiCaptchaProjectId e"
    and "session_registration e' = session_registration e"
    and "master_recaptcha_token e' = master_recaptcha_token e"
    and "ultra_lookup e' = ultra_lookup e" and "master_fetch e' = master_fetch e"
  shows "captcha_phase args e' = captcha_phase args e"
  unfolding captcha_phase_def getPersonalRecaptchaToken_def getRecaptchaToken_def
    lookup_registration_def choose_api_key_def solve_def finalProjectId_def assms ..

lemma resolve_token_cong:
  assumes "token_query e' = token_query e"
  shows "resolve_token args e' stored = resolve_token args e stored"
  unfolding resolve_token_def getFreshPersonalTokenFromDB_def assms ..

lemma currentServerUrl_cong:
  assumes "isElectron e' = isElectron e" and "isLocalhost e' = isLocalhost e"
    and "localhostServerUrl e' = localhostServerUrl e"
    and "selectedProxyServer e' = selectedProxyServer e"
  shows "currentServerUrl args e' = currentServerUrl args e"
  unfolding currentServerUrl_def getVeoProxyUrl_def getImagenProxyUrl_def
    getNanobanana2ProxyUrl_def select_proxy_def assms ..

lemma slot_phase_cong:
  assumes "slot_rpc_throws e' = slot_rpc_throws e"
  shows "slot_phase args e' url = slot_phase args e url"
  unfolding slot_phase_def assms ..

lemma record_usage_events_cong:
  assumes "isElectron e' = isElectron e"
  shows "fst (record_usage args e' cu url) = fst (record_usage args e cu url)"
  by (cases cu) (auto simp: record_usage_def assms)

lemma execute_cong:
  assumes "isElectron e' = isElectron e" and "fetch_result e' = fetch_result e"
    and "type_error_text e' = type_error_text e"
  shows "execute args e' url body cu tok lab = execute args e url body cu tok lab"
  unfolding execute_def endpoint_def thrown_message_def assms ..

lemma user_steps:
  "user_after (executeProxiedRequest args env) = fst (snd (resolve_token args env (currentUser env)))"
  by (simp add: executeProxiedRequest_def Let_def split: prod.splits option.splits)

lemma payload_steps:
  "payload_after (executeProxiedRequest args env) = snd (snd (captcha_phase args env))"
  by (simp add: executeProxiedRequest_def Let_def split: prod.splits option.splits)

lemma detached_steps:
  "detached (executeProxiedRequest args env)
   = (case snd (snd (resolve_token args env (currentUser env))) of
        None \<Rightarrow> []
      | Some c \<Rightarrow>
          snd (record_usage args env
                 (getCurrentUserInternal (fst (snd (resolve_token args env (currentUser env)))))
                 (currentServerUrl args env)))"
  by (simp add: executeProxiedRequest_def Let_def split: prod.splits option.splits)

text \<open>
  Whether the usage record fails changes nothing in what the dispatcher does,
  returns or leaves behind.
\<close>

lemma usage_flag:
  "result (executeProxiedRequest args (env\<lparr>usage_record_fails := b\<rparr>))
     = result (executeProxiedRequest args env)"
  "trace (executeProxiedRequest args (env\<lparr>usage_record_fails := b\<rparr>))
     = trace (executeProxiedRequest args env)"
  "payload_after (executeProxiedRequest args (env\<lparr>usage_record_fails := b\<rparr>))
     = payload_after (executeProxiedRequest args env)"
  "user_after (executeProxiedRequest args (env\<lparr>usage_record_fails := b\<rparr>))
     = user_after (executeProxiedRequest args env)"
proof -
  let ?e = "env\<lparr>usage_record_fails := b\<rparr>"
  have c: "captcha_phase args ?e = captcha_phase args env"
    by (rule captcha_phase_cong) simp_all
  have r: "\<And>stored. resolve_token args ?e stored = resolve_token args env stored"
    by (rule resolve_token_cong) simp
  have u: "currentServerUrl args ?e = currentServerUrl args env"
    by (rule currentServerUrl_cong) simp_all
  have x: "\<And>url body cu tok lab.
      execute args ?e url body cu tok lab = execute args env url body cu tok lab"
    by (rule execute_cong) simp_all
  have g: "\<And>cu url. fst (record_usage args ?e cu url) = fst (record_usage args env cu url)"
    by (rule record_usage_events_cong) simp
  have l: "\<And>url. slot_phase args ?e url = slot_phase args env url"
    by (rule slot_phase_cong) simp
  have s: "currentUser ?e = currentUser env" by simp
  show "result (executeProxiedRequest args ?e) = result (executeProxiedRequest args env)"
    unfolding result_steps c r u x s ..
  show "trace (executeProxiedRequest args ?e) = trace (executeProxiedRequest args env)"
    unfolding trace_steps c r u x g l s ..
  show "payload_after (executeProxiedRequest args ?e) = payload_after (executeProxiedRequest args env)"
    unfolding payload_steps c ..
  show "user_after (executeProxiedRequest args ?e) = user_after (executeProxiedRequest args env)"
    unfolding user_steps r s ..
qed

text \<open>The usage record does not depend on what the outbound call gives.\<close>

lemma usage_records_any_outcome:
  "usage_records (trace (executeProxiedRequest args (env\<lparr>fetch_result := f\<rparr>)))
   = usage_records (trace (executeProxiedRequest args env))"
proof -
  let ?e = "env\<lparr>fetch_result := f\<rparr>"
  have r: "\<And>stored. resolve_token args ?e stored = resolve_token args env stored"
    by (rule resolve_token_cong) simp
  have u: "currentServerUrl args ?e = currentServerUrl args env"
    by (rule currentServerUrl_cong) simp_all
  have g: "\<And>cu url. fst (record_usage args ?e cu url) = fst (record_usage args env cu url)"
    by (rule record_usage_events_cong) simp
  have s: "currentUser ?e = currentUser env" by simp
  show ?thesis unfolding usage_records_trace r u g s ..
qed

lemma detached_usage:
  "detached (executeProxiedRequest args env)
   = (if usage_record_fails env \<and> usage_records (trace (executeProxiedRequest args env)) \<noteq> []
      then [Warn ''Failed to record server usage:''] else [])"
  by (simp add: detached_steps usage_records_trace record_usage_def split: option.splits)

text \<open>
  C3, as the code has it. For a request that is not a status poll, the usage
  record is started once a credential is resolved, outside the desktop build,
  when a current user is stored and the endpoint is not empty. It is started
  before the outbound call and whatever that call then gives; it is never
  started for a status poll. The dispatcher does not wait for it: its step
  after starting the record is the outbound call itself. A failure of the
  record is handled outside the dispatch, by a warning, and changes nothing in
  the steps of the dispatch, the value returned, the payload or the stored
  user.
\<close>

theorem usage_recorded_before_outbound_call:
  "usage_records (trace (executeProxiedRequest args env))
     = (case snd (snd (resolve_token args env (currentUser env))) of
          None \<Rightarrow> []
        | Some c \<Rightarrow>
            (case getCurrentUserInternal (fst (snd (resolve_token args env (currentUser env)))) of
               None \<Rightarrow> []
             | Some u \<Rightarrow>
                 if \<not> isElectron env \<and> truthy (currentServerUrl args env) \<and> \<not> isStatusCheck args
                 then [RecordUsage (user_id u) (currentServerUrl args env)]
                 else []))
   \<and> usage_records (trace (executeProxiedRequest args (env\<lparr>fetch_result := f\<rparr>)))
     = usage_records (trace (executeProxiedRequest args env))
   \<and> usage_records (takeWhile (\<lambda>e. \<not> is_fetch e) (trace (executeProxiedRequest args env)))
     = usage_records (trace (executeProxiedRequest args env))
   \<and> (isStatusCheck args \<longrightarrow> usage_records (trace (executeProxiedRequest args env)) = [])
   \<and> followers is_usage (trace (executeProxiedRequest args env))
     = (if usage_records (trace (executeProxiedRequest args env)) = [] then []
        else fetches (trace (executeProxiedRequest args env)))
   \<and> (usage_records (trace (executeProxiedRequest args env)) \<noteq> [] \<longrightarrow>
        length (fetches (trace (executeProxiedRequest args env))) = 1)
   \<and> detached (executeProxiedRequest args env)
     = (if usage_record_fails env \<and> usage_records (trace (executeProxiedRequest args env)) \<noteq> []
        then [Warn ''Failed to record server usage:''] else [])
   \<and> trace (executeProxiedRequest args (env\<lparr>usage_record_fails := b\<rparr>))
     = trace (executeProxiedRequest args env)
   \<and> result (executeProxiedRequest args (env\<lparr>usage_record_fails := b\<rparr>))
     = result (executeProxiedRequest args env)
   \<and> payload_after (executeProxiedRequest args (env\<lparr>usage_record_fails := b\<rparr>))
     = payload_after (executeProxiedRequest args env)
   \<and> user_after (executeProxiedRequest args (env\<lparr>usage_record_fails := b\<rparr>))
     = user_after (executeProxiedRequest args env)"
proof -
  have 1: "usage_records (trace (executeProxiedRequest args env))
     = (case snd (snd (resolve_token args env (currentUser env))) of
          None \<Rightarrow> []
        | Some c \<Rightarrow>
            (case getCurrentUserInternal (fst (snd (resolve_token args env (currentUser env)))) of
               None \<Rightarrow> []
             | Some u \<Rightarrow>
                 if \<not> isElectron env \<and> truthy (currentServerUrl args env) \<and> \<not> isStatusCheck args
                 then [RecordUsage (user_id u) (currentServerUrl args env)]
                 else []))"
    by (simp add: usage_records_trace record_usage_def split: option.splits)
  have 4: "isStatusCheck args \<longrightarrow> usage_records (trace (executeProxiedRequest args env)) = []"
    by (simp add: 1 split: option.splits)
  have 6: "usage_records (trace (executeProxiedRequest args env)) \<noteq> [] \<longrightarrow>
        length (fetches (trace (executeProxiedRequest args env))) = 1"
    by (auto simp: usage_records_trace fetches_trace execute_fetches split: option.splits)
  show ?thesis
    using 1 4 6 usage_records_any_outcome[where args=args and env=env and f=f]
      usage_records_before_fetch[of args env] followers_usage_trace[of args env]
      detached_usage[of args env] usage_flag[where args=args and env=env and b=b]
    by blast
qed

theorem usage_recorded_before_outbound_call_witness:
  "isStatusCheck (sample_args Veo ''VEO STATUS'' (sample_body None))
   \<and> usage_records (trace (executeProxiedRequest (sample_args Veo ''VEO STATUS'' (sample_body None))
        (ok_env (Some sample_user)))) = []
   \<and> usage_records (trace (executeProxiedRequest plain_args (ok_env (Some sample_user))))
     = [RecordUsage ''u1'' ''https://s1.monoklix.com'']
   \<and> length (fetches (trace (executeProxiedRequest plain_args (ok_env (Some sample_user))))) = 1
   \<and> followers is_usage (trace (executeProxiedRequest plain_args (ok_env (Some sample_user))))
     = fetches (trace (executeProxiedRequest plain_args (ok_env (Some sample_user))))
   \<and> detached (executeProxiedRequest plain_args ((ok_env (Some sample_user))\<lparr>usage_record_fails := True\<rparr>))
     = [Warn ''Failed to record server usage:'']
   \<and> trace (executeProxiedRequest plain_args ((ok_env (Some sample_user))\<lparr>usage_record_fails := True\<rparr>))
     = trace (executeProxiedRequest plain_args (ok_env (Some sample_user)))
   \<and> result (executeProxiedRequest plain_args ((ok_env (Some sample_user))\<lparr>usage_record_fails := True\<rparr>))
     = result (executeProxiedRequest plain_args (ok_env (Some sample_user)))"
proof -
  let ?env = "ok_env (Some sample_user)"
  let ?bad = "(ok_env (Some sample_user))\<lparr>usage_record_fails := True\<rparr>"
  have h: "isStatusCheck (sample_args Veo ''VEO STATUS'' (sample_body None))"
    by (simp add: isStatusCheck_def sample_args_def)
  have a: "usage_records (trace (executeProxiedRequest (sample_args Veo ''VEO STATUS'' (sample_body None))
        ?env)) = []"
    using h usage_recorded_before_outbound_call
      [of "sample_args Veo ''VEO STATUS'' (sample_body None)" ?env]
    by blast
  have r: "resolve_token plain_args ?env (currentUser ?env)
           = ([], Some sample_user, Some (''tok-local'', Personal))"
    by (simp add: resolve_token_def plain_args_def sample_args_def ok_env_def sample_env_def
        sample_user_def getPersonalTokenLocal_def truthy_opt_def trim_def is_space_def)
  have u: "currentServerUrl plain_args ?env = ''https://s1.monoklix.com''"
    by (simp add: currentServerUrl_def getImagenProxyUrl_def select_proxy_def plain_args_def
        sample_args_def ok_env_def sample_env_def truthy_opt_def)
  have k: "\<not> isElectron ?env \<and> \<not> isStatusCheck plain_args
           \<and> getCurrentUserInternal (Some sample_user) = Some sample_user
           \<and> user_id sample_user = ''u1''"
    by (simp add: ok_env_def sample_env_def isStatusCheck_def plain_args_def sample_args_def
        getCurrentUserInternal_def sample_user_def truthy_def)
  have "usage_records (trace (executeProxiedRequest plain_args ?env))
     = (case snd (snd (resolve_token plain_args ?env (currentUser ?env))) of
          None \<Rightarrow> []
        | Some c \<Rightarrow>
            (case getCurrentUserInternal (fst (snd (resolve_token plain_args ?env (currentUser ?env)))) of
               None \<Rightarrow> []
             | Some u \<Rightarrow>
                 if \<not> isElectron ?env \<and> truthy (currentServerUrl plain_args ?env)
                    \<and> \<not> isStatusCheck plain_args
                 then [RecordUsage (user_id u) (currentServerUrl plain_args ?env)]
                 else []))"
    using usage_recorded_before_outbound_call[of plain_args ?env] by blast
  then have b: "usage_records (trace (executeProxiedRequest plain_args ?env))
     = [RecordUsage ''u1'' ''https://s1.monoklix.com'']"
    by (simp add: r u k truthy_def)
  have c: "length (fetches (trace (executeProxiedRequest plain_args ?env))) = 1"
    using b usage_recorded_before_outbound_call[of plain_args ?env] by simp
  have d: "followers is_usage (trace (executeProxiedRequest plain_args ?env))
           = fetches (trace (executeProxiedRequest plain_args ?env))"
    using b usage_recorded_before_outbound_call[of plain_args ?env] by simp
  have t: "trace (executeProxiedRequest plain_args ?bad) = trace (executeProxiedRequest plain_args ?env)"
    and v: "result (executeProxiedRequest plain_args ?bad) = result (executeProxiedRequest plain_args ?env)"
    using usage_recorded_before_outbound_call[where args=plain_args and env="?env" and b=True]
    by blast+
  have "detached (executeProxiedRequest plain_args ?bad)
     = (if usage_record_fails ?bad \<and> usage_records (trace (executeProxiedRequest plain_args ?bad)) \<noteq> []
        then [Warn ''Failed to record server usage:''] else [])"
    using usage_recorded_before_outbound_call[of plain_args ?bad] by blast
  then have e: "detached (executeProxiedRequest plain_args ?bad) = [Warn ''Failed to record server usage:'']"
    by (simp add: t b)
  show ?thesis using h a b c d e t v by (simp only: simp_thms)
qed

text \<open>
  C3 as stated fails when the outbound call fails: the provider answers 500,
  the dispatch throws, and the usage record has been made all the same.
\<close>

theorem usage_recorded_for_failed_call:
  "result (executeProxiedRequest plain_args
       (sample_env (Some sample_user) (FetchResponse (sample_response 500 ''boom''))))
     = Inl ''boom''
   \<and> usage_records (trace (executeProxiedRequest plain_args
       (sample_env (Some sample_user) (FetchResponse (sample_response 500 ''boom'')))))
     = [RecordUsage ''u1'' ''https://s1.monoklix.com'']"
proof -
  let ?env = "sample_env (Some sample_user) (FetchResponse (sample_response 500 ''boom''))"
  have r: "resolve_token plain_args ?env (currentUser ?env)
           = ([], Some sample_user, Some (''tok-local'', Personal))"
    by (simp add: resolve_token_def plain_args_def sample_args_def sample_env_def sample_user_def
        getPersonalTokenLocal_def truthy_opt_def trim_def is_space_def)
  have u: "currentServerUrl plain_args ?env = ''https://s1.monoklix.com''"
    by (simp add: currentServerUrl_def getImagenProxyUrl_def select_proxy_def plain_args_def
        sample_args_def sample_env_def truthy_opt_def)
  have m: "errorMessage (sample_response 500 ''boom'') = Inr (JStr ''boom'')"
    by (simp add: errorMessage_def parse_data_def sample_response_def js_get_def js_or_json_def
        js_truthy_def optional_message_def)
  have c: "classify (sample_response 500 ''boom'') = Inl (PlainError ''boom'')"
    by (simp add: classify_def m response_ok_def toLowerCase_def lower_char_def)
       (simp add: sample_response_def)
  have x: "\<And>body cu. snd (execute plain_args ?env ''https://s1.monoklix.com'' body cu ''tok-local'' Personal)
           = Inl ''boom''"
    by (simp add: execute_def Let_def c thrown_message_def sample_env_def)
  have "result (executeProxiedRequest plain_args ?env) = Inl ''boom''"
    by (simp add: result_steps r u x)
  moreover have "usage_records (trace (executeProxiedRequest plain_args ?env))
     = fst (record_usage plain_args ?env (getCurrentUserInternal (Some sample_user))
              ''https://s1.monoklix.com'')"
    by (simp add: usage_records_trace r u)
  moreover have "fst (record_usage plain_args ?env (getCurrentUserInternal (Some sample_user))
              ''https://s1.monoklix.com'') = [RecordUsage ''u1'' ''https://s1.monoklix.com'']"
    by (simp add: record_usage_def getCurrentUserInternal_def sample_user_def truthy_def
        isStatusCheck_def plain_args_def sample_args_def sample_env_def)
  ultimately show ?thesis by simp
qed

subsection \<open>Captcha key of the restricted service\<close>

lemma solve_keys_append [simp]: "solve_keys (xs @ ys) = solve_keys xs @ solve_keys ys"
  by (simp add: solve_keys_def)

lemma solve_keys_Nil [simp]: "solve_keys [] = []"
  by (simp add: solve_keys_def)

lemma no_solve_no_key: "(\<And>e. e \<in> set es \<Longrightarrow> \<not> is_solve e) \<Longrightarrow> solve_keys es = []"
proof (induction es)
  case Nil
  show ?case by simp
next
  case (Cons e es)
  from Cons.prems[of e] have "\<not> is_solve e" by simp
  then have "solve_keys [e] = []" by (cases e) (simp_all add: solve_keys_def)
  moreover have "solve_keys es = []" using Cons by simp
  ultimately show ?case using solve_keys_append[of "[e]" es] by simp
qed

lemma slot_phase_no_solve: "e \<in> set (slot_phase args env url) \<Longrightarrow> \<not> is_solve e \<and> \<not> is_pooled_key_call e"
  by (auto simp: slot_phase_def status_update_def split: if_splits)

lemma execute_no_solve:
  "e \<in> set (fst (execute args env url body cu tok lab)) \<Longrightarrow> \<not> is_solve e \<and> \<not> is_pooled_key_call e"
  by (auto simp: execute_def Let_def on_error_def split: fetch_outcome.splits sum.splits if_splits)

lemma query_not_pooled: "is_query e \<or> e = AwaitDone \<Longrightarrow> \<not> is_pooled_key_call e"
  by (cases e) simp_all

lemma usage_not_pooled: "is_usage e \<Longrightarrow> \<not> is_pooled_key_call e"
  by (cases e) simp_all

text \<open>After the captcha step nothing calls the solving service or the pooled-key sources.\<close>

lemma later_steps_no_solve:
  assumes "e \<in> set (slot_phase args env url @ fst (resolve_token args env stored)
            @ (case cred of
                 None \<Rightarrow> []
               | Some (tok, lab) \<Rightarrow>
                   fst (record_usage args env cu url) @ fst (execute args env url body cu tok lab)))"
  shows "\<not> is_solve e \<and> \<not> is_pooled_key_call e"
  using assms
  by (auto split: option.splits
      dest: slot_phase_no_solve execute_no_solve
        resolve_token_events[THEN query_kind] resolve_token_events[THEN query_not_pooled]
        record_usage_events[THEN usage_kind] record_usage_events[THEN usage_not_pooled])

text \<open>The restricted adapter: which key it solves with, and when it gives nothing.\<close>

lemma getPersonalRecaptchaToken_keys:
  "solve_keys (fst (getPersonalRecaptchaToken env stored pid cb))
   = (if truthy (trim (personal_key stored)) then [trim (personal_key stored)] else [])"
  by (auto simp: getPersonalRecaptchaToken_def personal_key_def Let_def solve_def status_update_def
      solve_keys_def trim_def truthy_def split: option.splits)

lemma getPersonalRecaptchaToken_no_pooled:
  "filter is_pooled_key_call (fst (getPersonalRecaptchaToken env stored pid cb)) = []"
  by (auto simp: getPersonalRecaptchaToken_def Let_def solve_def status_update_def
      split: option.splits)

lemma getPersonalRecaptchaToken_blank:
  "\<not> truthy (trim (personal_key stored)) \<Longrightarrow>
   snd (getPersonalRecaptchaToken env stored pid cb) = None"
  by (auto simp: getPersonalRecaptchaToken_def personal_key_def Let_def split: option.splits)

lemma captcha_phase_nanobanana:
  assumes "serviceType args = Nanobanana"
  shows "fst (captcha_phase args env)
         = (if needsRecaptcha args
            then fst (getPersonalRecaptchaToken env (currentUser env)
                        (projectIdFromBody (requestBody args)) (onStatusUpdate args))
            else [])"
  using assms by (simp add: captcha_phase_def Let_def split_beta)

lemma captcha_phase_blank:
  assumes "serviceType args = Nanobanana" and "\<not> truthy (trim (personal_key (currentUser env)))"
  shows "snd (captcha_phase args env) = (None, requestBody args)"
  using assms getPersonalRecaptchaToken_blank[of "currentUser env" env]
  by (simp add: captcha_phase_def Let_def split_beta truthy_opt_def)

lemma sent_bodies_trace:
  "sent_bodies (trace (executeProxiedRequest args env))
   = (case snd (snd (resolve_token args env (currentUser env))) of
        None \<Rightarrow> []
      | Some c \<Rightarrow> [payload_after (executeProxiedRequest args env)])"
proof -
  have c: "sent_bodies (fst (captcha_phase args env)) = []"
    by (rule no_fetch_no_body) (auto dest!: captcha_phase_events captcha_event_kind)
  have s: "sent_bodies (slot_phase args env (currentServerUrl args env)) = []"
    by (rule no_fetch_no_body) (auto dest!: slot_phase_no_fetch)
  have r: "sent_bodies (fst (resolve_token args env (currentUser env))) = []"
    by (rule no_fetch_no_body) (auto dest!: resolve_token_events query_kind)
  have u: "\<And>cu. sent_bodies (fst (record_usage args env cu (currentServerUrl args env))) = []"
    by (rule no_fetch_no_body) (auto dest!: record_usage_events usage_kind)
  show ?thesis
    by (simp add: trace_steps payload_steps c s r u execute_bodies split: option.splits)
qed

lemma solve_keys_trace:
  "solve_keys (trace (executeProxiedRequest args env)) = solve_keys (fst (captcha_phase args env))"
proof -
  have "solve_keys (slot_phase args env (currentServerUrl args env)
          @ fst (resolve_token args env (currentUser env))
          @ (case snd (snd (resolve_token args env (currentUser env))) of
               None \<Rightarrow> []
             | Some (tok, lab) \<Rightarrow>
                 fst (record_usage args env
                        (getCurrentUserInternal (fst (snd (resolve_token args env (currentUser env)))))
                        (currentServerUrl args env))
                 @ fst (execute args env (currentServerUrl args env)
                          (snd (snd (captcha_phase args env)))
                          (getCurrentUserInternal (fst (snd (resolve_token args env (currentUser env)))))
                          tok lab))) = []"
    by (rule no_solve_no_key) (use later_steps_no_solve in blast)
  then show ?thesis
    using solve_keys_append[of "fst (captcha_phase args env)"] by (simp add: trace_steps)
qed

lemma pooled_calls_trace:
  "filter is_pooled_key_call (trace (executeProxiedRequest args env))
   = filter is_pooled_key_call (fst (captcha_phase args env))"
proof -
  have "filter is_pooled_key_call (slot_phase args env (currentServerUrl args env)
          @ fst (resolve_token args env (currentUser env))
          @ (case snd (snd (resolve_token args env (currentUser env))) of
               None \<Rightarrow> []
             | Some (tok, lab) \<Rightarrow>
                 fst (record_usage args env
                        (getCurrentUserInternal (fst (snd (resolve_token args env (currentUser env)))))
                        (currentServerUrl args env))
                 @ fst (execute args env (currentServerUrl args env)
                          (snd (snd (captcha_phase args env)))
                          (getCurrentUserInternal (fst (snd (resolve_token args env (currentUser env)))))
                          tok lab))) = []"
    by (rule filter_none) (use later_steps_no_solve in blast)
  then show ?thesis
    using filter_append[of is_pooled_key_call "fst (captcha_phase args env)"]
    by (simp add: trace_steps)
qed

text \<open>For the restricted service the dispatch reads none of the pooled-key sources.\<close>

lemma captcha_phase_nanobanana_cong:
  assumes "serviceType args = Nanobanana"
    and "currentUser e' = currentUser e" and "now e' = now e"
    and "solveCaptcha e' = solveCaptcha e" and "antiCaptchaProjectId e' = antiCaptchaProjectId e"
  shows "captcha_phase args e' = captcha_phase args e"
proof -
  have "\<And>pid cb. getPersonalRecaptchaToken e' (currentUser e) pid cb
                 = getPersonalRecaptchaToken e (currentUser e) pid cb"
    unfolding getPersonalRecaptchaToken_def solve_def finalProjectId_def assms ..
  then show ?thesis
    by (simp add: captcha_phase_def assms cong: if_cong)
qed

lemma nanobanana_ignores_pooled_key:
  assumes "serviceType args = Nanobanana"
  shows "executeProxiedRequest args
           (env\<lparr>session_registration := sr, ultra_lookup := ul,
                 master_recaptcha_token := mt, master_fetch := mf\<rparr>)
         = executeProxiedRequest args env"
proof -
  let ?e = "env\<lparr>session_registration := sr, ultra_lookup := ul,
                 master_recaptcha_token := mt, master_fetch := mf\<rparr>"
  have c: "captcha_phase args ?e = captcha_phase args env"
    by (rule captcha_phase_nanobanana_cong[OF assms]) simp_all
  have r: "\<And>stored. resolve_token args ?e stored = resolve_token args env stored"
    by (rule resolve_token_cong) simp
  have u: "currentServerUrl args ?e = currentServerUrl args env"
    by (rule currentServerUrl_cong) simp_all
  have x: "\<And>url body cu tok lab.
      execute args ?e url body cu tok lab = execute args env url body cu tok lab"
    by (rule execute_cong) simp_all
  have g: "\<And>cu url. record_usage args ?e cu url = record_usage args env cu url"
    by (simp add: record_usage_def cong: option.case_cong if_cong)
  have l: "\<And>url. slot_phase args ?e url = slot_phase args env url"
    by (simp add: slot_phase_def)
  have s: "currentUser ?e = currentUser env" by simp
  show ?thesis unfolding executeProxiedRequest_def c r u x g l s ..
qed

text \<open>
  C5. For a request of the restricted service, every call to the solving
  service uses the caller's own key (trimmed), the pooled-key sources are
  neither called nor read, and the outcome is the same whatever they hold.
  When the caller's key is absent or blank the adapter returns nothing, no
  solve call is made, the payload is left as passed, and the dispatch goes on:
  with a credential the provider is called with that unchanged payload.
\<close>

theorem nanobanana_solves_with_personal_key_only:
  assumes "serviceType args = Nanobanana"
  shows "(\<forall>k \<in> set (solve_keys (trace (executeProxiedRequest args env))).
            k = trim (personal_key (currentUser env)))
       \<and> filter is_pooled_key_call (trace (executeProxiedRequest args env)) = []
       \<and> executeProxiedRequest args
           (env\<lparr>session_registration := sr, ultra_lookup := ul,
                 master_recaptcha_token := mt, master_fetch := mf\<rparr>)
         = executeProxiedRequest args env
       \<and> (\<not> truthy (trim (personal_key (currentUser env))) \<longrightarrow>
            snd (getPersonalRecaptchaToken env (currentUser env)
                   (projectIdFromBody (requestBody args)) (onStatusUpdate args)) = None
            \<and> solve_keys (trace (executeProxiedRequest args env)) = []
            \<and> payload_after (executeProxiedRequest args env) = requestBody args
            \<and> (snd (snd (resolve_token args env (currentUser env))) \<noteq> None \<longrightarrow>
                 sent_bodies (trace (executeProxiedRequest args env)) = [requestBody args]))"
proof (intro conjI impI ballI)
  fix k
  assume "k \<in> set (solve_keys (trace (executeProxiedRequest args env)))"
  then show "k = trim (personal_key (currentUser env))"
    by (simp add: solve_keys_trace captcha_phase_nanobanana[OF assms]
        getPersonalRecaptchaToken_keys split: if_splits)
next
  show "filter is_pooled_key_call (trace (executeProxiedRequest args env)) = []"
    by (simp add: pooled_calls_trace captcha_phase_nanobanana[OF assms]
        getPersonalRecaptchaToken_no_pooled)
next
  show "executeProxiedRequest args
           (env\<lparr>session_registration := sr, ultra_lookup := ul,
                 master_recaptcha_token := mt, master_fetch := mf\<rparr>)
         = executeProxiedRequest args env"
    by (rule nanobanana_ignores_pooled_key[OF assms])
next
  assume b: "\<not> truthy (trim (personal_key (currentUser env)))"
  show "snd (getPersonalRecaptchaToken env (currentUser env)
               (projectIdFromBody (requestBody args)) (onStatusUpdate args)) = None"
    by (rule getPersonalRecaptchaToken_blank[OF b])
  show "solve_keys (trace (executeProxiedRequest args env)) = []"
    using b by (simp add: solve_keys_trace captcha_phase_nanobanana[OF assms]
        getPersonalRecaptchaToken_keys)
  show p: "payload_after (executeProxiedRequest args env) = requestBody args"
    by (simp add: payload_steps captcha_phase_blank[OF assms b])
  assume "snd (snd (resolve_token args env (currentUser env))) \<noteq> None"
  then show "sent_bodies (trace (executeProxiedRequest args env)) = [requestBody args]"
    by (auto simp: sent_bodies_trace p)
qed

theorem nanobanana_solves_with_personal_key_only_witness:
  "serviceType nanobanana_generate = Nanobanana
   \<and> needsRecaptcha nanobanana_generate
   \<and> solve_keys (trace (executeProxiedRequest nanobanana_generate (ok_env (Some sample_user))))
       = [''key-personal'']
   \<and> trim (personal_key (currentUser (ok_env (Some sample_user)))) = ''key-personal''
   \<and> \<not> truthy (trim (personal_key (currentUser (ok_env (Some no_key_user)))))
   \<and> solve_keys (trace (executeProxiedRequest nanobanana_generate (ok_env (Some no_key_user)))) = []
   \<and> payload_after (executeProxiedRequest nanobanana_generate (ok_env (Some no_key_user)))
       = requestBody nanobanana_generate
   \<and> snd (snd (resolve_token nanobanana_generate (ok_env (Some no_key_user))
                  (currentUser (ok_env (Some no_key_user))))) \<noteq> None
   \<and> sent_bodies (trace (executeProxiedRequest nanobanana_generate (ok_env (Some no_key_user))))
       = [requestBody nanobanana_generate]"
proof -
  have n: "serviceType nanobanana_generate = Nanobanana"
    by (simp add: nanobanana_generate_def sample_args_def)
  have g: "needsRecaptcha nanobanana_generate"
    by (simp add: needsRecaptcha_def nanobanana_generate_def sample_args_def)
  have k: "trim (personal_key (currentUser (ok_env (Some sample_user)))) = ''key-personal''"
    by (simp add: ok_env_def sample_env_def sample_user_def personal_key_def
        getCurrentUserInternal_def js_or_default_def truthy_def trim_def is_space_def)
  have b: "\<not> truthy (trim (personal_key (currentUser (ok_env (Some no_key_user)))))"
    by (simp add: ok_env_def sample_env_def no_key_user_def sample_user_def personal_key_def
        getCurrentUserInternal_def js_or_default_def truthy_def trim_def)
  have c: "snd (snd (resolve_token nanobanana_generate (ok_env (Some no_key_user))
                  (currentUser (ok_env (Some no_key_user))))) \<noteq> None"
    by (simp add: resolve_token_def nanobanana_generate_def sample_args_def ok_env_def
        sample_env_def no_key_user_def sample_user_def getPersonalTokenLocal_def truthy_opt_def
        trim_def is_space_def)
  have s: "solve_keys (trace (executeProxiedRequest nanobanana_generate (ok_env (Some sample_user))))
             = [''key-personal'']"
    using g k
    by (simp add: solve_keys_trace captcha_phase_nanobanana[OF n] getPersonalRecaptchaToken_keys
        truthy_def)
  have w: "solve_keys (trace (executeProxiedRequest nanobanana_generate (ok_env (Some no_key_user)))) = []
     \<and> payload_after (executeProxiedRequest nanobanana_generate (ok_env (Some no_key_user)))
         = requestBody nanobanana_generate
     \<and> sent_bodies (trace (executeProxiedRequest nanobanana_generate (ok_env (Some no_key_user))))
         = [requestBody nanobanana_generate]"
    using b c nanobanana_solves_with_personal_key_only
      [OF n, of "ok_env (Some no_key_user)"]
    by blast
  show ?thesis using n g k b c s w by (simp only: simp_thms)
qed

subsection \<open>Classification of a response that is not ok\<close>

lemma provider_error_text:
  assumes "provider_error_body (parse_data r)"
  shows "errorMessage r = Inr (JStr (message_text r))"
proof -
  have "\<exists>m. errorMessage r = Inr (JStr m)"
    using assms
    by (auto simp: provider_error_body_def absent_or_text_def errorMessage_def js_or_json_def
        js_truthy_def optional_message_def split: option.splits json.splits)
  then show ?thesis by (auto simp: message_text_def)
qed

lemma classify_text:
  assumes "\<not> response_ok r" and "errorMessage r = Inr (JStr m)"
  shows "classify r
         = (if status r = 400 \<or> safety_signal m
            then Inl (HardError (status r) m)
            else Inl (PlainError m))"
  using assms by (simp add: classify_def safety_signal_def Let_def)

lemma execute_not_ok:
  assumes "fetch_result env = FetchResponse r" and "\<not> response_ok r"
    and "errorMessage r = Inr (JStr m)"
  shows "snd (execute args env url body cu tok lab)
         = (if status r = 400 \<or> safety_signal m
            then Inl (''['' @ show_nat (status r) @ ''] '' @ m)
            else Inl m)"
  using assms(1) by (simp add: execute_def Let_def classify_text[OF assms(2,3)] thrown_message_def)

lemma fetches_at_most_one: "length (fetches (trace (executeProxiedRequest args env))) \<le> 1"
  by (simp add: fetches_trace execute_fetches split: option.splits)

text \<open>Where the message comes from.\<close>

lemma message_text_source:
  "optional_message (js_get (parse_data r) ''error'') = Some (JStr s) \<Longrightarrow> s \<noteq> []
   \<Longrightarrow> parse_data r \<noteq> JNull \<Longrightarrow> message_text r = s"
  "\<not> js_truthy (optional_message (js_get (parse_data r) ''error''))
   \<Longrightarrow> js_get (parse_data r) ''message'' = Some (JStr s) \<Longrightarrow> s \<noteq> []
   \<Longrightarrow> parse_data r \<noteq> JNull \<Longrightarrow> message_text r = s"
  "\<not> js_truthy (optional_message (js_get (parse_data r) ''error''))
   \<Longrightarrow> \<not> js_truthy (js_get (parse_data r) ''message'')
   \<Longrightarrow> parse_data r \<noteq> JNull
   \<Longrightarrow> message_text r = ''API call failed ('' @ show_nat (status r) @ '')''"
  by (simp_all add: message_text_def errorMessage_def js_or_json_def js_truthy_def)

text \<open>
  C6, as the code has it, for an error body as the provider sends it. The
  message of a response that is not ok is a text: \<^verbatim>\<open>error.message\<close> of the
  body, else \<^verbatim>\<open>message\<close>, else \<open>API call failed (status)\<close>. The hard-error
  \<^verbatim>\<open>throw\<close> is taken exactly when the status is 400 or that message carries a
  safety or content-block signal, and the error thrown then carries the
  message prefixed with the status in brackets; every other such response
  throws the message as it is. The outbound call is made once: nothing is
  retried.
\<close>

theorem non_ok_response_classification:
  assumes "fetch_result env = FetchResponse r" and "\<not> response_ok r"
    and "snd (snd (resolve_token args env (currentUser env))) = Some c"
    and "provider_error_body (parse_data r)"
  shows "errorMessage r = Inr (JStr (message_text r))
       \<and> (\<forall>s. optional_message (js_get (parse_data r) ''error'') = Some (JStr s) \<and> s \<noteq> []
               \<longrightarrow> message_text r = s)
       \<and> (\<forall>s. \<not> js_truthy (optional_message (js_get (parse_data r) ''error''))
               \<and> js_get (parse_data r) ''message'' = Some (JStr s) \<and> s \<noteq> []
               \<longrightarrow> message_text r = s)
       \<and> (\<not> js_truthy (optional_message (js_get (parse_data r) ''error''))
            \<and> \<not> js_truthy (js_get (parse_data r) ''message'')
            \<longrightarrow> message_text r = ''API call failed ('' @ show_nat (status r) @ '')'')
       \<and> (classify r = Inl (HardError (status r) (message_text r)))
           = (status r = 400 \<or> safety_signal (message_text r))
       \<and> (status r = 400 \<or> safety_signal (message_text r) \<longrightarrow>
            result (executeProxiedRequest args env)
              = Inl (''['' @ show_nat (status r) @ ''] '' @ message_text r))
       \<and> (\<not> (status r = 400 \<or> safety_signal (message_text r)) \<longrightarrow>
            classify r = Inl (PlainError (message_text r))
            \<and> result (executeProxiedRequest args env) = Inl (message_text r))
       \<and> length (fetches (trace (executeProxiedRequest args env))) = 1"
proof -
  obtain tok lab where c: "c = (tok, lab)" by (cases c)
  have m: "errorMessage r = Inr (JStr (message_text r))"
    by (rule provider_error_text[OF assms(4)])
  have d: "parse_data r \<noteq> JNull"
    using assms(4) by (simp add: provider_error_body_def)
  have res: "result (executeProxiedRequest args env)
        = (if status r = 400 \<or> safety_signal (message_text r)
           then Inl (''['' @ show_nat (status r) @ ''] '' @ message_text r)
           else Inl (message_text r))"
    using assms(3) c by (simp add: result_steps execute_not_ok[OF assms(1,2) m])
  have one: "length (fetches (trace (executeProxiedRequest args env))) = 1"
    using assms(3) c by (simp add: fetches_trace execute_fetches)
  have cl: "classify r
         = (if status r = 400 \<or> safety_signal (message_text r)
            then Inl (HardError (status r) (message_text r))
            else Inl (PlainError (message_text r)))"
    by (rule classify_text[OF assms(2) m])
  have src: "(\<forall>s. optional_message (js_get (parse_data r) ''error'') = Some (JStr s) \<and> s \<noteq> []
               \<longrightarrow> message_text r = s)
       \<and> (\<forall>s. \<not> js_truthy (optional_message (js_get (parse_data r) ''error''))
               \<and> js_get (parse_data r) ''message'' = Some (JStr s) \<and> s \<noteq> []
               \<longrightarrow> message_text r = s)
       \<and> (\<not> js_truthy (optional_message (js_get (parse_data r) ''error''))
            \<and> \<not> js_truthy (js_get (parse_data r) ''message'')
            \<longrightarrow> message_text r = ''API call failed ('' @ show_nat (status r) @ '')'')"
    using message_text_source(1)[OF _ _ d] message_text_source(2)[OF _ _ _ d]
      message_text_source(3)[OF _ _ d]
    by blast
  have hard: "(classify r = Inl (HardError (status r) (message_text r)))
           = (status r = 400 \<or> safety_signal (message_text r))"
    by (simp add: cl)
  have plain: "\<not> (status r = 400 \<or> safety_signal (message_text r)) \<longrightarrow>
            classify r = Inl (PlainError (message_text r))
            \<and> result (executeProxiedRequest args env) = Inl (message_text r)"
    by (simp add: cl res)
  have pre: "status r = 400 \<or> safety_signal (message_text r) \<longrightarrow>
            result (executeProxiedRequest args env)
              = Inl (''['' @ show_nat (status r) @ ''] '' @ message_text r)"
    by (simp add: res)
  show ?thesis
    using m src hard pre plain one by blast
qed

theorem non_ok_response_classification_witness:
  "fetch_result (sample_env (Some sample_user) (FetchResponse (sample_response 400 ''bad prompt'')))
     = FetchResponse (sample_response 400 ''bad prompt'')
   \<and> \<not> response_ok (sample_response 400 ''bad prompt'')
   \<and> snd (snd (resolve_token plain_args
         (sample_env (Some sample_user) (FetchResponse (sample_response 400 ''bad prompt'')))
         (currentUser (sample_env (Some sample_user) (FetchResponse (sample_response 400 ''bad prompt''))))))
     = Some (''tok-local'', Personal)
   \<and> provider_error_body (parse_data (sample_response 400 ''bad prompt''))
   \<and> status (sample_response 400 ''bad prompt'') = 400
   \<and> errorMessage (sample_response 400 ''bad prompt'') = Inr (JStr ''bad prompt'')
   \<and> classify (sample_response 400 ''bad prompt'') = Inl (HardError 400 ''bad prompt'')
   \<and> result (executeProxiedRequest plain_args
         (sample_env (Some sample_user) (FetchResponse (sample_response 400 ''bad prompt''))))
     = Inl ''[400] bad prompt''
   \<and> length (fetches (trace (executeProxiedRequest plain_args
         (sample_env (Some sample_user) (FetchResponse (sample_response 400 ''bad prompt'')))))) = 1"
proof -
  let ?r = "sample_response 400 ''bad prompt''"
  let ?env = "sample_env (Some sample_user) (FetchResponse ?r)"
  have f: "fetch_result ?env = FetchResponse ?r"
    by (simp add: sample_env_def)
  have n: "\<not> response_ok ?r"
    by (simp add: response_ok_def sample_response_def)
  have c: "snd (snd (resolve_token plain_args ?env (currentUser ?env))) = Some (''tok-local'', Personal)"
    by (simp add: resolve_token_def plain_args_def sample_args_def sample_env_def sample_user_def
        getPersonalTokenLocal_def truthy_opt_def trim_def is_space_def)
  have p: "provider_error_body (parse_data ?r)"
    by (simp add: provider_error_body_def absent_or_text_def parse_data_def sample_response_def
        js_get_def)
  have s: "status ?r = 400"
    by (simp add: sample_response_def)
  have o: "optional_message (js_get (parse_data ?r) ''error'') = Some (JStr ''bad prompt'')"
    by (simp add: optional_message_def parse_data_def sample_response_def js_get_def)
  have t: "message_text ?r = ''bad prompt''"
    using o non_ok_response_classification[OF f n c p] by blast
  have w: "errorMessage ?r = Inr (JStr (message_text ?r))
           \<and> classify ?r = Inl (HardError (status ?r) (message_text ?r))
           \<and> result (executeProxiedRequest plain_args ?env)
             = Inl (''['' @ show_nat (status ?r) @ ''] '' @ message_text ?r)
           \<and> length (fetches (trace (executeProxiedRequest plain_args ?env))) = 1"
    using s non_ok_response_classification[OF f n c p] by blast
  have "errorMessage ?r = Inr (JStr ''bad prompt'')
        \<and> classify ?r = Inl (HardError 400 ''bad prompt'')
        \<and> result (executeProxiedRequest plain_args ?env) = Inl ''[400] bad prompt''
        \<and> length (fetches (trace (executeProxiedRequest plain_args ?env))) = 1"
    using w by (simp add: t s show_nat_numeral show_nat_small)
  then show ?thesis using f n c p s by (simp only: simp_thms)
qed

text \<open>
  C6 as stated fails on the message surfaced. For a 400 whose body holds the
  provider's error object with the message \<open>blocked: unsafe content\<close>, the
  error thrown reads \<open>[400] blocked: unsafe content\<close>, not the message as it
  is.
\<close>

theorem blocked_message_not_surfaced_as_it_is:
  "errorMessage (sample_response 400 ''blocked: unsafe content'')
     = Inr (JStr ''blocked: unsafe content'')
   \<and> result (executeProxiedRequest plain_args
        (sample_env (Some sample_user) (FetchResponse (sample_response 400 ''blocked: unsafe content''))))
     = Inl ''[400] blocked: unsafe content''
   \<and> result (executeProxiedRequest plain_args
        (sample_env (Some sample_user) (FetchResponse (sample_response 400 ''blocked: unsafe content''))))
     \<noteq> Inl ''blocked: unsafe content''"
proof -
  let ?r = "sample_response 400 ''blocked: unsafe content''"
  let ?env = "sample_env (Some sample_user) (FetchResponse ?r)"
  have r: "snd (snd (resolve_token plain_args ?env (currentUser ?env)))
                = Some (''tok-local'', Personal)"
    by (simp add: resolve_token_def plain_args_def sample_args_def sample_env_def sample_user_def
        getPersonalTokenLocal_def truthy_opt_def trim_def is_space_def)
  have f: "fetch_result ?env = FetchResponse ?r"
    by (simp add: sample_env_def)
  have m: "errorMessage ?r = Inr (JStr ''blocked: unsafe content'')"
    by (simp add: errorMessage_def parse_data_def sample_response_def js_get_def js_or_json_def
        js_truthy_def optional_message_def)
  have s: "status ?r = 400" and k: "\<not> response_ok ?r"
    by (simp_all add: sample_response_def response_ok_def)
  have "result (executeProxiedRequest plain_args ?env)
        = (if status ?r = 400 \<or> safety_signal ''blocked: unsafe content''
           then Inl (''['' @ show_nat (status ?r) @ ''] '' @ ''blocked: unsafe content'')
           else Inl ''blocked: unsafe content'')"
    by (simp add: result_steps r execute_not_ok[OF f k m])
  then have 1: "result (executeProxiedRequest plain_args ?env) = Inl ''[400] blocked: unsafe content''"
    by (simp add: s show_nat_numeral show_nat_small)
  show ?thesis using m 1 by simp
qed

text \<open>
  Outside the provider's shapes. The envelope of the proxy server itself holds
  its error as a text, which is not where the message is read: the response
  is classified on \<open>API call failed (status)\<close>. A body that is \<^verbatim>\<open>null\<close>, and
  a message that is not a text, make the reading fail before anything is
  classified, and the error of that failure is what is thrown.
\<close>

lemma outside_provider_shape:
  "errorMessage (envelope_response 403 ''blocked: unsafe content'')
     = Inr (JStr ''API call failed (403)'')"
  "classify (envelope_response 403 ''blocked: unsafe content'')
     = Inl (PlainError ''API call failed (403)'')"
  "classify \<lparr>status = 500, resp_text = ''null'', resp_json = Some JNull\<rparr>
     = Inl (TypeError ReadOfNull)"
  "classify \<lparr>status = 500, resp_text = [], resp_json = Some (JObj [(''message'', JNum 7)])\<rparr>
     = Inl (TypeError NotAFunction)"
proof -
  show m: "errorMessage (envelope_response 403 ''blocked: unsafe content'')
     = Inr (JStr ''API call failed (403)'')"
    by (simp add: errorMessage_def parse_data_def envelope_response_def js_get_def js_or_json_def
        js_truthy_def optional_message_def show_nat_numeral show_nat_small)
  have k: "\<not> response_ok (envelope_response 403 ''blocked: unsafe content'')"
    and s: "status (envelope_response 403 ''blocked: unsafe content'') = 403"
    by (simp_all add: envelope_response_def response_ok_def)
  have n: "\<not> safety_signal ''API call failed (403)''"
    by (simp add: safety_signal_def toLowerCase_def lower_char_def)
  show "classify (envelope_response 403 ''blocked: unsafe content'')
     = Inl (PlainError ''API call failed (403)'')"
    by (simp add: classify_text[OF k m] s n)
  show "classify \<lparr>status = 500, resp_text = ''null'', resp_json = Some JNull\<rparr>
     = Inl (TypeError ReadOfNull)"
    by (simp add: classify_def response_ok_def errorMessage_def parse_data_def)
  show "classify \<lparr>status = 500, resp_text = [], resp_json = Some (JObj [(''message'', JNum 7)])\<rparr>
     = Inl (TypeError NotAFunction)"
    by (simp add: classify_def response_ok_def errorMessage_def parse_data_def js_get_def
        js_or_json_def js_truthy_def optional_message_def)
qed

subsection \<open>The caller's payload\<close>

lemma captcha_phase_payload:
  "snd (snd (captcha_phase args env))
   = (if truthy_opt (fst (snd (captcha_phase args env)))
      then inject_recaptcha (requestBody args) (the (fst (snd (captcha_phase args env)))) (now env)
      else requestBody args)"
  by (simp add: captcha_phase_def Let_def split_beta truthy_opt_def)

text \<open>
  C10, as the code has it. When the captcha step obtains a token, a payload
  with a top-level \<open>clientContext\<close> is the caller's payload with the token
  written into that object and the session identifier kept when truthy and
  synthesized otherwise; it equals what the caller passed only if that already
  held this token and a truthy session identifier. A payload without a
  top-level \<open>clientContext\<close> is left as passed. In both cases the body of the
  outbound call is the caller's payload as it then is.
\<close>

theorem captcha_token_written_into_payload:
  assumes "fst (snd (captcha_phase args env)) = Some tok" and "truthy tok"
  shows "(clientContext (requestBody args) = Some cc \<longrightarrow>
            payload_after (executeProxiedRequest args env)
              = (requestBody args)
                  \<lparr>clientContext :=
                     Some (cc\<lparr>cc_recaptchaToken := Some tok,
                              sessionId := (if truthy_opt (sessionId cc) then sessionId cc
                                            else Some ('';'' @ show_nat (now env)))\<rparr>)\<rparr>
            \<and> ((payload_after (executeProxiedRequest args env) = requestBody args)
                 = (cc_recaptchaToken cc = Some tok \<and> truthy_opt (sessionId cc))))
       \<and> (clientContext (requestBody args) = None \<longrightarrow>
            payload_after (executeProxiedRequest args env) = requestBody args)
       \<and> sent_bodies (trace (executeProxiedRequest args env))
           = (case snd (snd (resolve_token args env (currentUser env))) of
                None \<Rightarrow> []
              | Some c \<Rightarrow> [payload_after (executeProxiedRequest args env)])"
proof -
  have p: "payload_after (executeProxiedRequest args env)
           = inject_recaptcha (requestBody args) tok (now env)"
    using assms by (simp add: payload_steps captcha_phase_payload[of args env] truthy_opt_def)
  have a: "clientContext (requestBody args) = Some cc \<longrightarrow>
            payload_after (executeProxiedRequest args env)
              = (requestBody args)
                  \<lparr>clientContext :=
                     Some (cc\<lparr>cc_recaptchaToken := Some tok,
                              sessionId := (if truthy_opt (sessionId cc) then sessionId cc
                                            else Some ('';'' @ show_nat (now env)))\<rparr>)\<rparr>"
    by (simp add: p inject_recaptcha_def)
  have b: "clientContext (requestBody args) = Some cc \<longrightarrow>
            ((payload_after (executeProxiedRequest args env) = requestBody args)
             = (cc_recaptchaToken cc = Some tok \<and> truthy_opt (sessionId cc)))"
  proof
    assume cc: "clientContext (requestBody args) = Some cc"
    let ?cc' = "cc\<lparr>cc_recaptchaToken := Some tok,
                     sessionId := (if truthy_opt (sessionId cc) then sessionId cc
                                   else Some ('';'' @ show_nat (now env)))\<rparr>"
    have "(payload_after (executeProxiedRequest args env) = requestBody args)
          = (clientContext (payload_after (executeProxiedRequest args env))
             = clientContext (requestBody args))"
      using cc by (cases "requestBody args") (auto simp: p inject_recaptcha_def)
    also have "\<dots> = (?cc' = cc)"
      using cc by (simp add: p inject_recaptcha_def)
    also have "\<dots> = (cc_recaptchaToken cc = Some tok \<and> truthy_opt (sessionId cc))"
      by (cases cc) (auto simp: truthy_opt_def truthy_def)
    finally show "(payload_after (executeProxiedRequest args env) = requestBody args)
             = (cc_recaptchaToken cc = Some tok \<and> truthy_opt (sessionId cc))" .
  qed
  have n: "clientContext (requestBody args) = None \<longrightarrow>
            payload_after (executeProxiedRequest args env) = requestBody args"
    by (simp add: p inject_recaptcha_def)
  show ?thesis using a b n sent_bodies_trace[of args env] by blast
qed

lemma sample_captcha_token:
  "fst (snd (captcha_phase (sample_args Nanobanana ''NANOBANANA 2 T2I GENERATE'' body)
               (ok_env (Some sample_user)))) = Some ''solved''"
  by (simp add: captcha_phase_def needsRecaptcha_def sample_args_def ok_env_def sample_env_def
      getPersonalRecaptchaToken_def getCurrentUserInternal_def sample_user_def js_or_default_def
      truthy_def truthy_opt_def trim_def is_space_def solve_def Let_def)

theorem captcha_token_written_into_payload_witness:
  "fst (snd (captcha_phase nanobanana_generate (ok_env (Some sample_user)))) = Some ''solved''
   \<and> truthy ''solved''
   \<and> clientContext (requestBody nanobanana_generate)
       = Some \<lparr>cc_recaptchaToken = Some [], sessionId = Some '';1699'', projectId = None\<rparr>
   \<and> payload_after (executeProxiedRequest nanobanana_generate (ok_env (Some sample_user)))
       = sample_body (Some \<lparr>cc_recaptchaToken = Some ''solved'', sessionId = Some '';1699'',
                             projectId = None\<rparr>)
   \<and> payload_after (executeProxiedRequest nanobanana_generate (ok_env (Some sample_user)))
       \<noteq> requestBody nanobanana_generate
   \<and> fst (snd (captcha_phase nanobanana_no_context (ok_env (Some sample_user)))) = Some ''solved''
   \<and> clientContext (requestBody nanobanana_no_context) = None
   \<and> payload_after (executeProxiedRequest nanobanana_no_context (ok_env (Some sample_user)))
       = requestBody nanobanana_no_context"
proof -
  let ?env = "ok_env (Some sample_user)"
  let ?cc = "\<lparr>cc_recaptchaToken = Some [], sessionId = Some '';1699'', projectId = None\<rparr>"
  have t1: "fst (snd (captcha_phase nanobanana_generate ?env)) = Some ''solved''"
    unfolding nanobanana_generate_def by (rule sample_captcha_token)
  have t2: "fst (snd (captcha_phase nanobanana_no_context ?env)) = Some ''solved''"
    unfolding nanobanana_no_context_def by (rule sample_captcha_token)
  have tr: "truthy ''solved''" by (simp add: truthy_def)
  have c1: "clientContext (requestBody nanobanana_generate) = Some ?cc"
    by (simp add: nanobanana_generate_def sample_args_def sample_body_def)
  have c2: "clientContext (requestBody nanobanana_no_context) = None"
    by (simp add: nanobanana_no_context_def sample_args_def sample_body_def)
  have a: "payload_after (executeProxiedRequest nanobanana_generate ?env)
             = (requestBody nanobanana_generate)
                 \<lparr>clientContext :=
                    Some (?cc\<lparr>cc_recaptchaToken := Some ''solved'',
                              sessionId := (if truthy_opt (sessionId ?cc) then sessionId ?cc
                                            else Some ('';'' @ show_nat (now ?env)))\<rparr>)\<rparr>
           \<and> ((payload_after (executeProxiedRequest nanobanana_generate ?env)
                  = requestBody nanobanana_generate)
                = (cc_recaptchaToken ?cc = Some ''solved'' \<and> truthy_opt (sessionId ?cc)))"
    using c1 captcha_token_written_into_payload[OF t1 tr, of ?cc] by blast
  have b: "payload_after (executeProxiedRequest nanobanana_no_context ?env)
             = requestBody nanobanana_no_context"
    using c2 captcha_token_written_into_payload[OF t2 tr] by blast
  have a1: "payload_after (executeProxiedRequest nanobanana_generate ?env)
       = sample_body (Some \<lparr>cc_recaptchaToken = Some ''solved'', sessionId = Some '';1699'',
                             projectId = None\<rparr>)"
    using a[THEN conjunct1]
    by (simp add: nanobanana_generate_def sample_args_def sample_body_def truthy_opt_def
        truthy_def)
  have "\<not> (cc_recaptchaToken ?cc = Some ''solved'' \<and> truthy_opt (sessionId ?cc))"
    by simp
  then have a2: "payload_after (executeProxiedRequest nanobanana_generate ?env)
       \<noteq> requestBody nanobanana_generate"
    using a[THEN conjunct2] by blast
  show ?thesis using t1 t2 tr c1 c2 a1 a2 b by (simp only: simp_thms)
qed

text \<open>
  C10 as stated fails for a payload that already holds the token the solver
  returns, with a session identifier: the write changes nothing, and the
  caller's payload after the dispatch is what it passed in.
\<close>

theorem same_token_leaves_payload_unchanged:
  "fst (snd (captcha_phase nanobanana_prefilled (ok_env (Some sample_user)))) = Some ''solved''
   \<and> clientContext (requestBody nanobanana_prefilled)
       = Some \<lparr>cc_recaptchaToken = Some ''solved'', sessionId = Some '';1699'', projectId = None\<rparr>
   \<and> payload_after (executeProxiedRequest nanobanana_prefilled (ok_env (Some sample_user)))
       = requestBody nanobanana_prefilled"
proof -
  have t: "fst (snd (captcha_phase nanobanana_prefilled (ok_env (Some sample_user)))) = Some ''solved''"
    unfolding nanobanana_prefilled_def by (rule sample_captcha_token)
  have c: "clientContext (requestBody nanobanana_prefilled)
       = Some \<lparr>cc_recaptchaToken = Some ''solved'', sessionId = Some '';1699'', projectId = None\<rparr>"
    by (simp add: nanobanana_prefilled_def sample_args_def sample_body_def)
  have "payload_after (executeProxiedRequest nanobanana_prefilled (ok_env (Some sample_user)))
        = inject_recaptcha (requestBody nanobanana_prefilled) ''solved'' (now (ok_env (Some sample_user)))"
    using t by (simp add: payload_steps captcha_phase_payload[of nanobanana_prefilled] truthy_opt_def
        truthy_def)
  also have "\<dots> = requestBody nanobanana_prefilled"
    by (simp add: inject_recaptcha_def nanobanana_prefilled_def sample_args_def sample_body_def
        truthy_opt_def truthy_def)
  finally show ?thesis using t c by simp
qed

section \<open>Properties of the media relay\<close>

text \<open>
  C9, as the code has it. For a request with a URL: an upstream response that
  is not ok and whose body is read to its end is answered with the upstream
  status and a JSON body that carries the upstream body in \<open>details\<close>, next
  to an \<open>error\<close> made from the status text. A fetch that fails is answered
  with status 500, and so is a stream that fails before the first chunk is
  written, on the response that has the video headers set. A stream that
  fails after the first chunk gets no second response: the one thing sent is
  the headers and the chunks so far.
\<close>

theorem relay_error_paths:
  assumes "truthy_opt videoUrl"
  shows "(\<not> upstream_ok r \<and> up_end r = Ended \<longrightarrow>
            download_video videoUrl t (Upstream r)
              = [Reply (json_response (up_status r)
                   [(''error'', ''Failed to download: '' @ up_statusText r),
                    (''details'', concat (up_chunks r))])])
       \<and> download_video videoUrl t (FetchFailed m) = [Reply (json_response 500 [(''error'', m)])]
       \<and> (upstream_ok r \<and> up_end r = Errored m \<and> \<not> headersSent (up_chunks r) \<longrightarrow>
            download_video videoUrl t (Upstream r)
              = [Reply \<lparr>res_status = 500, res_headers = relay_headers r t,
                        res_body = Json [(''error'', ''Error streaming video'')]\<rparr>])
       \<and> (upstream_ok r \<and> up_end r = Errored m \<and> headersSent (up_chunks r) \<longrightarrow>
            map piped_part (download_video videoUrl t (Upstream r))
              = [Some (relay_headers r t, up_chunks r)])"
  using assms by (simp add: download_video_def)

theorem relay_error_paths_witness:
  "truthy_opt (Some ''https://storage.example/v.mp4'')
   \<and> \<not> upstream_ok not_found_upstream \<and> up_end not_found_upstream = Ended
   \<and> download_video (Some ''https://storage.example/v.mp4'') 1700 (Upstream not_found_upstream)
       = [Reply (json_response 404
            [(''error'', ''Failed to download: Not Found''), (''details'', ''gone'')])]
   \<and> upstream_ok (broken_stream []) \<and> up_end (broken_stream []) = Errored ''socket hang up''
   \<and> \<not> headersSent (up_chunks (broken_stream []))
   \<and> download_video (Some ''https://storage.example/v.mp4'') 1700 (Upstream (broken_stream []))
       = [Reply \<lparr>res_status = 500, res_headers = relay_headers (broken_stream []) 1700,
                 res_body = Json [(''error'', ''Error streaming video'')]\<rparr>]
   \<and> upstream_ok (broken_stream [''abc'']) \<and> up_end (broken_stream [''abc'']) = Errored ''socket hang up''
   \<and> headersSent (up_chunks (broken_stream [''abc'']))
   \<and> map piped_part
        (download_video (Some ''https://storage.example/v.mp4'') 1700 (Upstream (broken_stream [''abc''])))
       = [Some (relay_headers (broken_stream [''abc'']) 1700, [''abc''])]"
proof -
  let ?u = "Some ''https://storage.example/v.mp4''"
  have h: "truthy_opt ?u" by (simp add: truthy_opt_def truthy_def)
  have n: "\<not> upstream_ok not_found_upstream \<and> up_end not_found_upstream = Ended"
    by (simp add: upstream_ok_def not_found_upstream_def)
  have e: "upstream_ok (broken_stream []) \<and> up_end (broken_stream []) = Errored ''socket hang up''
           \<and> \<not> headersSent (up_chunks (broken_stream []))"
    by (simp add: upstream_ok_def broken_stream_def headersSent_def)
  have s: "upstream_ok (broken_stream [''abc'']) \<and> up_end (broken_stream [''abc'']) = Errored ''socket hang up''
           \<and> headersSent (up_chunks (broken_stream [''abc'']))"
    by (simp add: upstream_ok_def broken_stream_def headersSent_def)
  have a: "download_video ?u 1700 (Upstream not_found_upstream)
       = [Reply (json_response (up_status not_found_upstream)
            [(''error'', ''Failed to download: '' @ up_statusText not_found_upstream),
             (''details'', concat (up_chunks not_found_upstream))])]"
    using n relay_error_paths[OF h, where r=not_found_upstream and t=1700] by blast
  have b: "download_video ?u 1700 (Upstream (broken_stream []))
       = [Reply \<lparr>res_status = 500, res_headers = relay_headers (broken_stream []) 1700,
                 res_body = Json [(''error'', ''Error streaming video'')]\<rparr>]"
    using e relay_error_paths[OF h, where r="broken_stream []" and t=1700 and m="''socket hang up''"] by blast
  have c: "map piped_part (download_video ?u 1700 (Upstream (broken_stream [''abc''])))
       = [Some (relay_headers (broken_stream [''abc'']) 1700, up_chunks (broken_stream [''abc'']))]"
    using s relay_error_paths[OF h, where r="broken_stream [''abc'']" and t=1700 and m="''socket hang up''"] by blast
  have a': "download_video ?u 1700 (Upstream not_found_upstream)
       = [Reply (json_response 404
            [(''error'', ''Failed to download: Not Found''), (''details'', ''gone'')])]"
    using a by (simp add: not_found_upstream_def)
  have c': "map piped_part (download_video ?u 1700 (Upstream (broken_stream [''abc''])))
       = [Some (relay_headers (broken_stream [''abc'']) 1700, [''abc''])]"
    using c by (simp add: broken_stream_def)
  show ?thesis using h n e s a' b c' by (simp only: simp_thms)
qed

text \<open>
  C9 as stated fails on the body and on the connection. For an upstream 404
  with body \<open>gone\<close> the caller receives the status 404 but not that body: it
  receives a JSON object with the body in one of its fields. And when the
  stream fails after its first chunk, the response is not ended: it is left
  open after the chunks sent.
\<close>

theorem relay_wraps_upstream_body:
  "download_video (Some ''https://storage.example/v.mp4'') 1700 (Upstream not_found_upstream)
     = [Reply \<lparr>res_status = 404, res_headers = [],
               res_body = Json [(''error'', ''Failed to download: Not Found''),
                                (''details'', ''gone'')]\<rparr>]
   \<and> Json [(''error'', ''Failed to download: Not Found''), (''details'', ''gone'')] \<noteq> Buffer ''gone''
   \<and> download_video (Some ''https://storage.example/v.mp4'') 1700 (Upstream (broken_stream [''abc'']))
     = [Piped (relay_headers (broken_stream [''abc'']) 1700) [''abc''] LeftOpen]"
  by (simp add: download_video_def truthy_opt_def truthy_def upstream_ok_def not_found_upstream_def
      json_response_def broken_stream_def headersSent_def)

section \<open>Properties of the sibling endpoint sampling\<close>

subsection \<open>Rounding to a double\<close>

lemma rhe_ge: "of_int n \<le> y \<Longrightarrow> n \<le> round_half_even y"
proof -
  assume "of_int n \<le> y"
  then have "n \<le> \<lfloor>y\<rfloor>" by (simp add: le_floor_iff)
  then show ?thesis unfolding round_half_even_def by auto
qed

lemma rhe_le: "y \<le> of_int n \<Longrightarrow> round_half_even y \<le> n"
proof -
  assume a: "y \<le> of_int n"
  then have f: "\<lfloor>y\<rfloor> \<le> n" by (simp add: floor_le_iff)
  show ?thesis
  proof (cases "\<lfloor>y\<rfloor> = n")
    case True
    then have "y - of_int \<lfloor>y\<rfloor> \<le> 0" using a by simp
    then show ?thesis unfolding round_half_even_def using True by auto
  next
    case False
    with f have "\<lfloor>y\<rfloor> + 1 \<le> n" by simp
    then show ?thesis unfolding round_half_even_def by auto
  qed
qed

lemma rhe_lt: "y < of_int n - 1 / 2 \<Longrightarrow> round_half_even y < n"
proof -
  assume a: "y < of_int n - 1 / 2"
  have "of_int \<lfloor>y\<rfloor> \<le> y" by simp
  with a have "(of_int \<lfloor>y\<rfloor> :: real) < of_int n" by linarith
  then have f: "\<lfloor>y\<rfloor> < n" by simp
  show ?thesis
  proof (cases "\<lfloor>y\<rfloor> = n - 1")
    case True
    then have "y - of_int \<lfloor>y\<rfloor> < 1 / 2" using a by simp
    then show ?thesis unfolding round_half_even_def using True by auto
  next
    case False
    with f have "\<lfloor>y\<rfloor> + 1 < n" by simp
    then show ?thesis unfolding round_half_even_def by auto
  qed
qed

lemma binade_ge: "- 1022 \<le> binade x"
  by (simp add: binade_def)

lemma binade_lower: "binade x = - 1022 \<or> 2 powi (binade x) \<le> \<bar>x\<bar>"
proof (cases "binade x = - 1022")
  case True
  then show ?thesis by simp
next
  case False
  define N where "N = \<lfloor>\<bar>x\<bar> * 2 ^ 1074\<rfloor>"
  have b: "binade x = bitlen N - 1075" and g: "- 1022 < bitlen N - 1075"
    using False by (auto simp: binade_def N_def max_def split: if_splits)
  have "bitlen N \<noteq> 0" using g by simp
  then have pos: "0 < N" using bitlen_eq_zero_iff[of N] by auto
  have "2 ^ nat (bitlen N - 1) \<le> N" using bitlen_bounds[OF pos] ..
  then have "(of_int (2 ^ nat (bitlen N - 1)) :: real) \<le> of_int N" by (simp only: of_int_le_iff)
  then have "(2::real) ^ nat (bitlen N - 1) \<le> of_int N" by simp
  also have "of_int N \<le> \<bar>x\<bar> * 2 ^ 1074" by (simp add: N_def)
  finally have "(2::real) powi (bitlen N - 1) \<le> \<bar>x\<bar> * 2 powi 1074"
    using g by (simp add: power_int_def)
  moreover have "(2::real) powi (bitlen N - 1) = 2 powi (binade x) * 2 powi 1074"
  proof -
    have "(2::real) powi (bitlen N - 1) = 2 powi (binade x + 1074)" by (simp add: b)
    also have "\<dots> = 2 powi (binade x) * 2 powi 1074" by (rule power_int_add) simp
    finally show ?thesis .
  qed
  ultimately have "(2::real) powi (binade x) * 2 powi 1074 \<le> \<bar>x\<bar> * 2 powi 1074" by simp
  then have "(2::real) powi (binade x) \<le> \<bar>x\<bar>"
    by (rule mult_right_le_imp_le) simp
  then show ?thesis ..
qed

lemma binade_upper: "\<bar>x\<bar> < 2 powi (binade x + 1)"
proof -
  define N where "N = \<lfloor>\<bar>x\<bar> * 2 ^ 1074\<rfloor>"
  have b: "bitlen N - 1075 \<le> binade x" and b': "- 1022 \<le> binade x"
    by (simp_all add: binade_def N_def)
  have up: "\<bar>x\<bar> * 2 ^ 1074 < of_int N + 1" by (simp add: N_def)
  have n0: "0 \<le> N" by (simp add: N_def)
  have "\<bar>x\<bar> * 2 powi 1074 < 2 powi (binade x + 1) * 2 powi 1074"
  proof (cases "0 < N")
    case True
    have "N < 2 ^ nat (bitlen N)" using bitlen_bounds[OF True] ..
    then have "N + 1 \<le> 2 ^ nat (bitlen N)" by simp
    then have "(of_int (N + 1) :: real) \<le> of_int (2 ^ nat (bitlen N))" by (simp only: of_int_le_iff)
    then have "of_int N + 1 \<le> (2::real) ^ nat (bitlen N)" by simp
    also have "\<dots> = 2 powi (bitlen N)" using bitlen_nonneg[of N] by (simp add: power_int_def)
    also have "\<dots> \<le> 2 powi (binade x + 1075)" using b by (intro power_int_increasing) simp_all
    also have "\<dots> = 2 powi (binade x + 1 + 1074)"
      by (rule arg_cong[where f="\<lambda>e. 2 powi e"]) simp
    also have "\<dots> = 2 powi (binade x + 1) * 2 powi 1074" by (rule power_int_add) simp
    finally show ?thesis using up by (simp add: power_int_def)
  next
    case False
    with n0 have "N = 0" by simp
    with up have "\<bar>x\<bar> * 2 ^ 1074 < 1" by simp
    also have "(1::real) = 2 powi 0" by simp
    also have "\<dots> \<le> 2 powi (binade x + 1075)" using b' by (intro power_int_increasing) simp_all
    also have "\<dots> = 2 powi (binade x + 1 + 1074)"
      by (rule arg_cong[where f="\<lambda>e. 2 powi e"]) simp
    also have "\<dots> = 2 powi (binade x + 1) * 2 powi 1074" by (rule power_int_add) simp
    finally show ?thesis by (simp add: power_int_def)
  qed
  then show ?thesis by (rule mult_right_less_imp_less) simp
qed

lemma binade_eq:
  assumes "2 powi e \<le> \<bar>x\<bar>" and "\<bar>x\<bar> < 2 powi (e + 1)" and "- 1022 \<le> e"
  shows "binade x = e"
proof -
  have "(2::real) powi e < 2 powi (binade x + 1)"
    using assms(1) binade_upper[of x] by linarith
  then have "e < binade x + 1"
    by (metis linorder_not_less one_le_numeral power_int_increasing)
  moreover have "binade x \<le> e"
  proof (cases "binade x = - 1022")
    case True
    with assms(3) show ?thesis by simp
  next
    case False
    then have "2 powi (binade x) \<le> \<bar>x\<bar>" using binade_lower[of x] by blast
    with assms(2) have "(2::real) powi (binade x) < 2 powi (e + 1)" by linarith
    then have "binade x < e + 1"
      by (metis linorder_not_less one_le_numeral power_int_increasing)
    then show ?thesis by simp
  qed
  ultimately show ?thesis by simp
qed

lemma ulp_pos: "0 < ulp x"
  by (simp add: ulp_def)

lemma ulp_small:
  assumes "0 < x" and "x < n" and "1 \<le> n"
  shows "ulp x < n / 2 ^ 52"
proof -
  have "(2::real) powi (binade x) < n"
  proof (cases "binade x = - 1022")
    case True
    have "(2::real) powi (- 1022) < 2 powi 0" by (intro power_int_strict_increasing) simp_all
    with True assms(3) show ?thesis by simp
  next
    case False
    then have "2 powi (binade x) \<le> \<bar>x\<bar>" using binade_lower[of x] by blast
    with assms(1,2) show ?thesis by simp
  qed
  moreover have "ulp x = 2 powi (binade x) / 2 ^ 52"
    by (simp add: ulp_def power_int_diff)
  ultimately show ?thesis by (simp add: divide_strict_right_mono)
qed

lemma ulp_inv:
  assumes "\<bar>x\<bar> < 2 ^ 53"
  shows "\<exists>j::nat. ulp x * 2 ^ j = 1"
proof -
  have "binade x \<le> 52"
  proof (rule ccontr)
    assume "\<not> binade x \<le> 52"
    then have g: "53 \<le> binade x" by simp
    then have "2 powi (binade x) \<le> \<bar>x\<bar>" using binade_lower[of x] by auto
    moreover have "(2::real) powi 53 \<le> 2 powi (binade x)"
      using g by (intro power_int_increasing) simp_all
    ultimately show False using assms by (simp add: power_int_def)
  qed
  then have "ulp x * 2 ^ nat (52 - binade x) = 2 powi (binade x - 52) * 2 powi (52 - binade x)"
    by (simp add: ulp_def power_int_def[of _ "52 - binade x"])
  also have "\<dots> = 1" by (simp flip: power_int_add)
  finally show ?thesis by blast
qed

lemma fl_ge:
  assumes "\<bar>x\<bar> < 2 ^ 53" and "of_int k \<le> x"
  shows "of_int k \<le> fl x"
proof -
  obtain j :: nat where j: "ulp x * 2 ^ j = 1" using ulp_inv[OF assms(1)] by blast
  have u: "0 < ulp x" by (rule ulp_pos)
  have d: "x / ulp x = x * 2 ^ j" using j u by (simp add: field_simps)
  have "of_int (k * 2 ^ j) \<le> x / ulp x" using assms(2) by (simp add: d)
  then have "k * 2 ^ j \<le> round_half_even (x / ulp x)" by (rule rhe_ge)
  then have "(of_int (k * 2 ^ j) :: real) \<le> of_int (round_half_even (x / ulp x))"
    by (simp only: of_int_le_iff)
  then have "of_int (k * 2 ^ j) * ulp x \<le> fl x"
    unfolding fl_def using u by (intro mult_right_mono) simp_all
  moreover have "of_int (k * 2 ^ j) * ulp x = of_int k * (ulp x * 2 ^ j)" by simp
  moreover have "of_int k * (ulp x * 2 ^ j) = (of_int k :: real)" by (simp only: j mult_1_right)
  ultimately show ?thesis by linarith
qed

lemma fl_le:
  assumes "\<bar>x\<bar> < 2 ^ 53" and "x \<le> of_int k"
  shows "fl x \<le> of_int k"
proof -
  obtain j :: nat where j: "ulp x * 2 ^ j = 1" using ulp_inv[OF assms(1)] by blast
  have u: "0 < ulp x" by (rule ulp_pos)
  have d: "x / ulp x = x * 2 ^ j" using j u by (simp add: field_simps)
  have "x / ulp x \<le> of_int (k * 2 ^ j)" using assms(2) by (simp add: d)
  then have "round_half_even (x / ulp x) \<le> k * 2 ^ j" by (rule rhe_le)
  then have "(of_int (round_half_even (x / ulp x)) :: real) \<le> of_int (k * 2 ^ j)"
    by (simp only: of_int_le_iff)
  then have "fl x \<le> of_int (k * 2 ^ j) * ulp x"
    unfolding fl_def using u by (intro mult_right_mono) simp_all
  moreover have "of_int (k * 2 ^ j) * ulp x = of_int k * (ulp x * 2 ^ j)" by simp
  moreover have "of_int k * (ulp x * 2 ^ j) = (of_int k :: real)" by (simp only: j mult_1_right)
  ultimately show ?thesis by linarith
qed

lemma fl_lt:
  assumes "0 < x" and "x < 2 ^ 53" and "1 \<le> n" and "x \<le> of_int n * (1 - 1 / 2 ^ 53)"
  shows "fl x < of_int n"
proof -
  have a: "\<bar>x\<bar> < 2 ^ 53" using assms(1,2) by simp
  obtain j :: nat where j: "ulp x * 2 ^ j = 1" using ulp_inv[OF a] by blast
  have u: "0 < ulp x" by (rule ulp_pos)
  have d: "x / ulp x = x * 2 ^ j" using j u by (simp add: field_simps)
  have n1: "(1::real) \<le> of_int n" using assms(3) by simp
  have xn: "x < of_int n" using assms(4) n1 by (simp add: algebra_simps) 
  have us: "ulp x < of_int n / 2 ^ 52" by (rule ulp_small[OF assms(1) xn n1])
  have "x < of_int n - ulp x / 2" using assms(4) us by (simp add: algebra_simps)
  then have "x * 2 ^ j < (of_int n - ulp x / 2) * 2 ^ j" by simp
  also have "\<dots> = of_int (n * 2 ^ j) - (ulp x * 2 ^ j) / 2" by (simp add: algebra_simps)
  finally have "x / ulp x < of_int (n * 2 ^ j) - 1 / 2" by (simp add: d j)
  then have "round_half_even (x / ulp x) < n * 2 ^ j" by (rule rhe_lt)
  then have "(of_int (round_half_even (x / ulp x)) :: real) < of_int (n * 2 ^ j)"
    by (simp only: of_int_less_iff)
  then have "fl x < of_int (n * 2 ^ j) * ulp x"
    unfolding fl_def using u by (intro mult_strict_right_mono) simp_all
  moreover have "of_int (n * 2 ^ j) * ulp x = of_int n * (ulp x * 2 ^ j)" by simp
  moreover have "of_int n * (ulp x * 2 ^ j) = (of_int n :: real)" by (simp only: j mult_1_right)
  ultimately show ?thesis by linarith
qed

subsection \<open>The index drawn\<close>

lemma fl_zero: "fl 0 = 0"
  by (simp add: fl_def round_half_even_def)

lemma real_below_2_53: "m < 2 ^ 53 \<Longrightarrow> real m < 2 ^ 53"
  by (metis of_nat_less_iff of_nat_numeral of_nat_power)

lemma randomIndex_inner:
  assumes "real k \<le> r * real m" and "r * real m \<le> real (k + 1) * (1 - 1 / 2 ^ 53)"
    and "k < m" and "m < 2 ^ 53"
  shows "randomIndex r m = k"
proof -
  let ?x = "r * real m"
  have x0: "0 \<le> ?x" using assms(1) by (meson of_nat_0_le_iff order_trans)
  have "?x < real (k + 1)" using assms(2) by (simp add: algebra_simps) 
  also have "\<dots> \<le> real m" using assms(3) by simp
  also have "\<dots> < 2 ^ 53" by (rule real_below_2_53[OF assms(4)])
  finally have b: "?x < 2 ^ 53" .
  then have a: "\<bar>?x\<bar> < 2 ^ 53" using x0 by simp
  have lo: "of_int (int k) \<le> fl ?x" using assms(1) by (intro fl_ge[OF a]) simp
  have hi: "fl ?x < of_int (int k + 1)"
  proof (cases "?x = 0")
    case True
    then have "fl ?x = 0" by (simp only: fl_zero)
    then show ?thesis by simp
  next
    case False
    with x0 have "0 < ?x" by (metis order_le_less)
    then show ?thesis using b assms(2) by (intro fl_lt) simp_all
  qed
  have "\<lfloor>fl ?x\<rfloor> = int k" using lo hi by (simp add: floor_eq_iff)
  then show ?thesis by (simp add: randomIndex_def)
qed

lemma randomIndex_outer:
  assumes "0 \<le> r" and "r * real m < 2 ^ 53" and "randomIndex r m = k"
  shows "real k * (1 - 1 / 2 ^ 53) \<le> r * real m \<and> r * real m < real k + 1"
proof -
  let ?x = "r * real m"
  have x0: "0 \<le> ?x" using assms(1) by simp
  then have a: "\<bar>?x\<bar> < 2 ^ 53" using assms(2) by simp
  have "of_int 0 \<le> fl ?x" using x0 by (intro fl_ge[OF a]) simp
  then have "0 \<le> \<lfloor>fl ?x\<rfloor>" by simp
  then have f: "\<lfloor>fl ?x\<rfloor> = int k" using assms(3) unfolding randomIndex_def by linarith
  then have lo: "real k \<le> fl ?x" and hi: "fl ?x < real k + 1"
    by (simp_all add: floor_eq_iff)
  have 1: "?x < real k + 1"
  proof (rule ccontr)
    assume "\<not> ?x < real k + 1"
    then have "of_int (int k + 1) \<le> ?x" by simp
    then have "of_int (int k + 1) \<le> fl ?x" by (rule fl_ge[OF a])
    with hi show False by simp
  qed
  have 2: "real k * (1 - 1 / 2 ^ 53) \<le> ?x"
  proof (rule ccontr)
    assume n: "\<not> real k * (1 - 1 / 2 ^ 53) \<le> ?x"
    then have k: "1 \<le> int k" using x0 by (cases k) auto
    have "fl ?x < of_int (int k)"
    proof (cases "?x = 0")
      case True
      then have "fl ?x = 0" by (simp only: fl_zero)
      then show ?thesis using k by simp
    next
      case False
      with x0 have "0 < ?x" by (metis order_le_less)
      then show ?thesis using assms(2) k n by (intro fl_lt) simp_all
    qed
    with lo show False by simp
  qed
  show ?thesis using 1 2 by simp
qed

lemma randomIndex_in_range:
  assumes "0 \<le> r" and "r \<le> 1 - 1 / 2 ^ 53" and "0 < m" and "m < 2 ^ 53"
  shows "randomIndex r m < m"
proof (cases "r = 0")
  case True
  then show ?thesis using assms(3) by (simp add: randomIndex_def fl_zero)
next
  case False
  let ?x = "r * real m"
  have x0: "0 < ?x" using False assms(1,3) by simp
  have xm: "?x \<le> of_int (int m) * (1 - 1 / 2 ^ 53)"
    using assms(2,3) by (simp add: mult.commute mult_left_mono)
  also have "\<dots> < real m" using assms(3) by (simp add: algebra_simps)
  also have "\<dots> < 2 ^ 53" by (rule real_below_2_53[OF assms(4)])
  finally have b: "?x < 2 ^ 53" .
  have "fl ?x < of_int (int m)" using assms(3) by (intro fl_lt[OF x0 b _ xm]) simp
  then have "\<lfloor>fl ?x\<rfloor> < int m" by (simp add: floor_less_iff)
  moreover have "of_int 0 \<le> fl ?x" using x0 b by (intro fl_ge) simp_all
  then have "0 \<le> \<lfloor>fl ?x\<rfloor>" by simp
  ultimately show ?thesis unfolding randomIndex_def by linarith
qed

lemma availableServers_remote:
  "u \<in> set (availableServers ui) \<Longrightarrow> u \<in> set ui \<and> \<not> includes_str u ''localhost''"
  by (simp add: availableServers_def)

lemma serverUrls_remote:
  assumes "\<not> selected_is_localhost selectedServer" and "availableServers ui \<noteq> []"
  shows "serverUrls selectedServer ui n random
         = map (\<lambda>i. array_get (availableServers ui)
                       (randomIndex (random i) (length (availableServers ui)))) [0..<n]"
  using assms by (simp add: serverUrls_def Let_def)

lemma pool_size:
  assumes "length ui < 2 ^ 32"
  shows "length (availableServers ui) < 2 ^ 53"
proof -
  have "length (availableServers ui) \<le> length ui" by (simp add: availableServers_def)
  also have "\<dots> < 2 ^ 32" by (rule assms)
  also have "(2::nat) ^ 32 < 2 ^ 53" by simp
  finally show ?thesis .
qed

text \<open>
  C7, as the code has it. With no loopback server selected, every draw a
  double of \<open>[0, 1)\<close>, so at most \<open>1 - 2\<^sup>-\<^sup>5\<^sup>3\<close>, and a server list of fewer than
  \<open>2\<^sup>3\<^sup>2\<close> entries: one endpoint is chosen per sibling; every endpoint chosen
  is a member of the configured list that is not a loopback address; with a
  non-empty remote pool of size \<open>m\<close> sibling \<open>i\<close> gets the pool entry at the
  index computed from its own draw alone, the pool being the same for every
  sibling, and that index is within the pool. The index is computed in double
  arithmetic: entry \<open>k\<close> is chosen for every draw \<open>r\<close> with
  \<open>k \<le> r m \<le> (k + 1) (1 - 2\<^sup>-\<^sup>5\<^sup>3)\<close>, and only for draws with
  \<open>k (1 - 2\<^sup>-\<^sup>5\<^sup>3) \<le> r m < k + 1\<close>: the entries have equal shares of the
  draws up to one rounding step.
\<close>

theorem sibling_endpoints_sampled_from_remote_pool:
  assumes "\<not> selected_is_localhost selectedServer"
    and "\<forall>i<n. 0 \<le> random i \<and> random i \<le> 1 - 1 / 2 ^ 53"
    and "length ui < 2 ^ 32"
  shows "length (serverUrls selectedServer ui n random) = n
       \<and> (\<forall>i<n. \<forall>u. serverUrls selectedServer ui n random ! i = Some u \<longrightarrow>
             u \<in> set (availableServers ui) \<and> u \<in> set ui \<and> \<not> includes_str u ''localhost'')
       \<and> (availableServers ui \<noteq> [] \<longrightarrow>
            (\<forall>i<n. randomIndex (random i) (length (availableServers ui)) < length (availableServers ui)
               \<and> serverUrls selectedServer ui n random ! i
                   = Some (availableServers ui
                             ! randomIndex (random i) (length (availableServers ui)))))
       \<and> (\<forall>k<length (availableServers ui). \<forall>r. 0 \<le> r \<and> r \<le> 1 - 1 / 2 ^ 53 \<longrightarrow>
            (real k \<le> r * real (length (availableServers ui))
             \<and> r * real (length (availableServers ui)) \<le> real (k + 1) * (1 - 1 / 2 ^ 53)
             \<longrightarrow> randomIndex r (length (availableServers ui)) = k)
            \<and> (randomIndex r (length (availableServers ui)) = k
               \<longrightarrow> real k * (1 - 1 / 2 ^ 53) \<le> r * real (length (availableServers ui))
                   \<and> r * real (length (availableServers ui)) < real k + 1))"
proof (intro conjI allI impI)
  show "length (serverUrls selectedServer ui n random) = n"
    by (simp add: serverUrls_def Let_def)
next
  fix i u
  assume i: "i < n" and u: "serverUrls selectedServer ui n random ! i = Some u"
  show "u \<in> set (availableServers ui)"
  proof (cases "availableServers ui = []")
    case True
    with assms(1) i u show ?thesis by (simp add: serverUrls_def Let_def)
  next
    case False
    with assms(1) i u show ?thesis
      by (auto simp: serverUrls_remote array_get_def split: if_splits)
  qed
  then show "u \<in> set ui" and "\<not> includes_str u ''localhost''"
    using availableServers_remote by blast+
next
  fix i
  assume ne: "availableServers ui \<noteq> []" and i: "i < n"
  from assms(2) i have r: "0 \<le> random i" "random i \<le> 1 - 1 / 2 ^ 53" by auto
  show idx: "randomIndex (random i) (length (availableServers ui)) < length (availableServers ui)"
    using ne by (intro randomIndex_in_range[OF r _ pool_size[OF assms(3)]]) simp
  show "serverUrls selectedServer ui n random ! i
          = Some (availableServers ui ! randomIndex (random i) (length (availableServers ui)))"
    using assms(1) ne i idx by (simp add: serverUrls_remote array_get_def)
next
  fix k and r :: real
  assume k: "k < length (availableServers ui)" and r: "0 \<le> r \<and> r \<le> 1 - 1 / 2 ^ 53"
  assume "real k \<le> r * real (length (availableServers ui))
          \<and> r * real (length (availableServers ui)) \<le> real (k + 1) * (1 - 1 / 2 ^ 53)"
  then show "randomIndex r (length (availableServers ui)) = k"
    using k pool_size[OF assms(3)] by (intro randomIndex_inner) simp_all
next
  fix k and r :: real
  assume k: "k < length (availableServers ui)" and r: "0 \<le> r \<and> r \<le> 1 - 1 / 2 ^ 53"
  assume e: "randomIndex r (length (availableServers ui)) = k"
  have "r * real (length (availableServers ui)) \<le> 1 * real (length (availableServers ui))"
    using r by (intro mult_right_mono) simp_all
  also have "\<dots> < 2 ^ 53" using real_below_2_53[OF pool_size[OF assms(3)]] by simp
  finally have b: "r * real (length (availableServers ui)) < 2 ^ 53" .
  from randomIndex_outer[OF _ b e] r
  show "real k * (1 - 1 / 2 ^ 53) \<le> r * real (length (availableServers ui))"
    and "r * real (length (availableServers ui)) < real k + 1"
    by simp_all
qed

lemma sample_pool: "availableServers sample_ui_urls = [''https://s1.monoklix.com'', ''https://s2.monoklix.com'']"
  by (simp add: availableServers_def sample_ui_urls_def)

lemma binade_draw: "binade (draw_0_7 * 10) = 2"
  by (rule binade_eq) (simp_all add: draw_0_7_def power_int_def)

lemma fl_draw: "fl (draw_0_7 * 10) = 7"
proof -
  have u: "ulp (draw_0_7 * 10) = 1 / 2 ^ 50"
    by (simp add: ulp_def binade_draw power_int_def power_one_over)
  have y: "draw_0_7 * 10 / (1 / 2 ^ 50) = 15762598695796735 / 2"
    by (simp add: draw_0_7_def)
  have r: "round_half_even (15762598695796735 / 2) = 7881299347898368"
    by (simp add: round_half_even_def)
  show ?thesis
    unfolding fl_def u y r by simp
qed

lemma ten_pool:
  "availableServers ten_ui_urls
   = [''https://s1.monoklix.com'', ''https://s2.monoklix.com'',
      ''https://s3.monoklix.com'', ''https://s4.monoklix.com'', ''https://s5.monoklix.com'',
      ''https://s6.monoklix.com'', ''https://s7.monoklix.com'', ''https://s8.monoklix.com'',
      ''https://s9.monoklix.com'', ''https://s10.monoklix.com'']"
  by (simp add: availableServers_def ten_ui_urls_def)

theorem sibling_endpoints_sampled_from_remote_pool_witness:
  "\<not> selected_is_localhost None
   \<and> 0 \<le> sample_random 0 \<and> sample_random 0 \<le> 1 - 1 / 2 ^ 53
   \<and> 0 \<le> sample_random 1 \<and> sample_random 1 \<le> 1 - 1 / 2 ^ 53
   \<and> length sample_ui_urls < 2 ^ 32
   \<and> length (serverUrls None sample_ui_urls 2 sample_random) = 2
   \<and> availableServers sample_ui_urls \<noteq> []
   \<and> randomIndex (sample_random 0) (length (availableServers sample_ui_urls)) = 0
   \<and> randomIndex (sample_random 1) (length (availableServers sample_ui_urls)) = 1
   \<and> serverUrls None sample_ui_urls 2 sample_random ! 0 = Some ''https://s1.monoklix.com''
   \<and> serverUrls None sample_ui_urls 2 sample_random ! 1 = Some ''https://s2.monoklix.com''
   \<and> ''https://s2.monoklix.com'' \<in> set (availableServers sample_ui_urls)"
proof -
  have h1: "\<not> selected_is_localhost None"
    by (simp add: selected_is_localhost_def)
  have d: "0 \<le> sample_random 0 \<and> sample_random 0 \<le> 1 - 1 / 2 ^ 53
           \<and> 0 \<le> sample_random 1 \<and> sample_random 1 \<le> 1 - 1 / 2 ^ 53"
    by (simp add: sample_random_def)
  have h2: "\<forall>i<2. 0 \<le> sample_random i \<and> sample_random i \<le> 1 - 1 / 2 ^ 53"
    by (simp add: sample_random_def)
  have h3: "length sample_ui_urls < 2 ^ 32"
    by (simp add: sample_ui_urls_def)
  have ne: "availableServers sample_ui_urls \<noteq> []"
    by (simp add: sample_pool)
  note t = sibling_endpoints_sampled_from_remote_pool[OF h1 h2 h3]
  have l: "length (serverUrls None sample_ui_urls 2 sample_random) = 2"
    using t by (rule conjunct1)
  note cells = t[THEN conjunct2, THEN conjunct2, THEN conjunct2, rule_format]
  have i0: "randomIndex (sample_random 0) (length (availableServers sample_ui_urls)) = 0"
    using cells[of 0 "sample_random 0", THEN conjunct1]
    by (simp add: sample_pool sample_random_def)
  have i1: "randomIndex (sample_random 1) (length (availableServers sample_ui_urls)) = 1"
    using cells[of 1 "sample_random 1", THEN conjunct1]
    by (simp add: sample_pool sample_random_def)
  note entries = t[THEN conjunct2, THEN conjunct2, THEN conjunct1, rule_format, OF ne]
  have e0: "serverUrls None sample_ui_urls 2 sample_random ! 0
            = Some (availableServers sample_ui_urls
                      ! randomIndex (sample_random 0) (length (availableServers sample_ui_urls)))"
    using entries[of 0] by simp
  have e1: "serverUrls None sample_ui_urls 2 sample_random ! 1
            = Some (availableServers sample_ui_urls
                      ! randomIndex (sample_random 1) (length (availableServers sample_ui_urls)))"
    using entries[of 1] by simp
  have s0: "serverUrls None sample_ui_urls 2 sample_random ! 0 = Some ''https://s1.monoklix.com''"
    using e0 by (simp only: i0) (simp add: sample_pool)
  have s1: "serverUrls None sample_ui_urls 2 sample_random ! 1 = Some ''https://s2.monoklix.com''"
    using e1 by (simp only: i1) (simp add: sample_pool)
  note mem = t[THEN conjunct2, THEN conjunct1, rule_format]
  have m: "''https://s2.monoklix.com'' \<in> set (availableServers sample_ui_urls)"
    using mem[of 1, OF _ s1] by simp
  show ?thesis using h1 d h3 l ne i0 i1 s0 s1 m by (simp only: simp_thms)
qed

text \<open>
  C7 as stated fails on the equal shares. With ten remote servers the draw
  \<open>6305039478318694 / 2\<^sup>5\<^sup>3\<close>, the double nearest to 0.7, lies below 7/10,
  in the tenth of the unit interval that belongs to the seventh entry; its
  product with 10 is rounded to 7, and the eighth entry is chosen.
\<close>

theorem draw_below_seven_tenths_selects_eighth:
  "draw_0_7 < 7 / 10
   \<and> \<lfloor>draw_0_7 * 10\<rfloor> = 6
   \<and> length (availableServers ten_ui_urls) = 10
   \<and> randomIndex draw_0_7 (length (availableServers ten_ui_urls)) = 7
   \<and> serverUrls None ten_ui_urls 1 draws_0_7 = [Some ''https://s8.monoklix.com'']"
proof -
  have l: "length (availableServers ten_ui_urls) = 10"
    by (simp add: ten_pool)
  have j: "randomIndex draw_0_7 10 = 7"
    by (simp add: randomIndex_def fl_draw)
  then have i: "randomIndex draw_0_7 (length (availableServers ten_ui_urls)) = 7"
    by (simp only: l)
  have s: "serverUrls None ten_ui_urls 1 draws_0_7 = [Some ''https://s8.monoklix.com'']"
    by (simp add: serverUrls_def selected_is_localhost_def Let_def array_get_def draws_0_7_def j l)
       (simp add: ten_pool)
  have d: "draw_0_7 < 7 / 10" "\<lfloor>draw_0_7 * 10\<rfloor> = 6"
    by (simp_all add: draw_0_7_def)
  show ?thesis using l i s d by (simp only: simp_thms)
qed

end
